theory Spec2Isabelle
  imports Main "HOL-Library.Word" "HOL-Library.Multiset"
begin

section \<open>JavaScript values used by the service\<close>

text \<open>
  The service is an Express application over Mongoose (metadata) and the MongoDB
  driver's GridFS bucket (file contents).  Buffers are lists of bytes, ObjectIds are
  natural numbers, dates are milliseconds, and a thrown \<^verbatim>\<open>Error\<close> is its message on
  the left of a sum.  Strings are byte strings.  An \<^verbatim>\<open>async\<close> function is the function
  from the state before to the state after and its result: requests do not interleave.
  The output of \<^verbatim>\<open>console.log\<close>, the status objects behind the health endpoint and the
  static file routes are left out.
\<close>

type_synonym byte = "8 word"
type_synonym bytes = "byte list"
type_synonym oid = nat

datatype json = JNull | JBool bool | JNum nat | JStr string | JOid oid | JDate nat
  | JArr "json list" | JObj "(string \<times> json) list"


definition json_get :: "string \<Rightarrow> json \<Rightarrow> json option" where
  "json_get k j = (case j of JObj kvs \<Rightarrow> map_of kvs k | _ \<Rightarrow> None)"

text \<open>\<^verbatim>\<open>a || b\<close> on an optional string: \<^verbatim>\<open>undefined\<close> and the empty string are falsy.\<close>

definition js_or :: "string option \<Rightarrow> string \<Rightarrow> string" where
  "js_or a b = (case a of None \<Rightarrow> b | Some s \<Rightarrow> if s = [] then b else s)"

definition is_space :: "char \<Rightarrow> bool" where
  "is_space c = (c \<in> set [CHR '' '', CHR 0x09, CHR 0x0A, CHR 0x0B, CHR 0x0C, CHR 0x0D])"

text \<open>\<^verbatim>\<open>String.prototype.trim\<close> (on ASCII white space).\<close>

definition trim :: "string \<Rightarrow> string" where
  "trim s = rev (dropWhile is_space (rev (dropWhile is_space s)))"

text \<open>\<^verbatim>\<open>s.includes(t)\<close>.\<close>

fun str_includes :: "string \<Rightarrow> string \<Rightarrow> bool" where
  "str_includes [] t = (t = [])"
| "str_includes (c # s) t = (take (length t) (c # s) = t \<or> str_includes s t)"

definition digit_char :: "nat \<Rightarrow> char" where
  "digit_char d = ''0123456789ABCDEF'' ! d"

text \<open>Decimal rendering of a non-negative integer, as in a template literal.\<close>

fun nat_to_string :: "nat \<Rightarrow> string" where
  "nat_to_string n =
     (if n < 10 then [digit_char n] else nat_to_string (n div 10) @ [digit_char (n mod 10)])"

text \<open>\<^verbatim>\<open>encodeURIComponent\<close>: every byte outside the unreserved set is percent-encoded.\<close>

definition uri_unreserved :: "char \<Rightarrow> bool" where
  "uri_unreserved c =
     (c \<in> set (''ABCDEFGHIJKLMNOPQRSTUVWXYZabcdefghijklmnopqrstuvwxyz0123456789-_.!~*()''
        @ [CHR 0x27]))"

definition encodeURIComponent :: "string \<Rightarrow> string" where
  "encodeURIComponent s =
     concat (map (\<lambda>c. if uri_unreserved c then [c]
                       else [CHR ''%'', digit_char (of_char c div 16), digit_char (of_char c mod 16)]) s)"

section \<open>formatFileSize\<close>

text \<open>
  The source computes on double-precision numbers.  A file size is an integer below
  \<open>2 ^ 53\<close>, and in that arithmetic its division by a power of 1024 is exact; so the
  quotient and its rounding to two decimals are modelled exactly, on integers.  The
  exponent \<^verbatim>\<open>Math.floor(Math.log(bytes) / Math.log(k))\<close> is modelled as the integer
  logarithm, the largest \<open>i\<close> with \<open>k ^ i \<le> bytes\<close>.  The quotient of the two rounded
  logarithms can fall on the other side of an integer only next to a power of \<open>k\<close>; at
  1536 it is far from one, and at \<open>1024\<^sup>2\<close> the two logarithms are in the exact ratio 2.
\<close>

function log_floor :: "nat \<Rightarrow> nat \<Rightarrow> nat" where
  "log_floor k n = (if k \<le> 1 \<or> n < k then 0 else Suc (log_floor k (n div k)))"
  by pat_completeness auto
termination
  by (relation "measure (\<lambda>(k, n). n)") auto

text \<open>
  \<^verbatim>\<open>parseFloat((bytes / Math.pow(k, i)).toFixed(2))\<close>, kept as a number of hundredths:
  the quotient \<open>num / den\<close> rounded to two decimals, a tie going up.
\<close>

definition toFixed2 :: "nat \<Rightarrow> nat \<Rightarrow> nat" where
  "toFixed2 num den = (200 * num + den) div (2 * den)"

text \<open>Number-to-string conversion of \<open>h / 100\<close>: trailing zeros of the fraction are dropped.\<close>

definition hundredths_to_string :: "nat \<Rightarrow> string" where
  "hundredths_to_string h =
     (if h mod 100 = 0 then nat_to_string (h div 100)
      else if h mod 10 = 0 then nat_to_string (h div 100) @ ''.'' @ [digit_char (h mod 100 div 10)]
      else nat_to_string (h div 100) @ ''.'' @ [digit_char (h mod 100 div 10), digit_char (h mod 10)])"

definition formatFileSize :: "nat \<Rightarrow> string" where
  "formatFileSize bytes =
     (if bytes = 0 then ''0 Bytes''
      else let k = 1024;
               sizes = [''Bytes'', ''KB'', ''MB'', ''GB''];
               i = log_floor k bytes
           in hundredths_to_string (toFixed2 bytes (k ^ i)) @ '' ''
              @ (if i < length sizes then sizes ! i else ''undefined''))"

section \<open>Requests, responses and the two stores\<close>

text \<open>The file object that the multipart layer hands to a controller.\<close>

record file_part =
  originalname :: string
  mimetype :: string
  size_p :: nat
  buffer :: bytes

datatype body = Json json | Raw bytes

record response =
  status :: nat
  headers :: "(string \<times> string) list"
  body :: body

text \<open>An error object as the error-handling middleware inspects it.\<close>

record js_error =
  err_name :: string
  err_code :: "string option"
  err_message :: string

text \<open>
  A stored GridFS file: the \<^verbatim>\<open>uploads.files\<close> entry with the metadata sidecar, and
  the chunks of its contents.
\<close>

record gridfs_file =
  fs_filename :: string
  fs_contentType :: string
  fs_meta_category :: "string option"
  fs_meta_description :: "string option"
  fs_chunks :: "bytes list"

text \<open>
  A document of the \<^verbatim>\<open>File\<close> model (models/File.js): the schema's paths, the
  \<^verbatim>\<open>_id\<close> and the two timestamps of \<^verbatim>\<open>timestamps: true\<close>.  \<open>gridfsId\<close> is optional
  because a projection can leave it out.
\<close>

record file_doc =
  doc_id :: oid
  originalName :: string
  mimeType :: string
  size_d :: nat
  category :: string
  description :: string
  gridfsId :: "oid option"
  isGridFS :: bool
  uploadDate :: nat
  createdAt :: nat
  updatedAt :: nat

text \<open>
  The process and the database: the Mongoose connection (\<open>readyState\<close>, whether
  \<^verbatim>\<open>connection.db\<close> is set), the module variables \<open>cachedConnection\<close> and
  \<open>gridFSBucket\<close> (whether they hold a handle), the GridFS bucket's files, the
  \<^verbatim>\<open>File\<close> collection in insertion order, and the next unused ObjectId.
\<close>

record state =
  readyState :: nat
  conn_db :: bool
  cachedConnection :: bool
  gridFSBucket :: bool
  fs_files :: "oid \<rightharpoonup> gridfs_file"
  files :: "file_doc list"
  next_oid :: oid

text \<open>
  What a request finds outside the process: the environment variables, whether
  \<^verbatim>\<open>mongoose.connect\<close> would reject (\<open>connect_error\<close>), whether the GridFS streams and
  the bucket's delete fail with a driver error (\<open>stream_error\<close>), and \<^verbatim>\<open>Date.now()\<close>.
  \<open>MAX_FILE_SIZE\<close> is the value of \<^verbatim>\<open>parseInt(process.env.MAX_FILE_SIZE)\<close>, \<open>None\<close> for
  \<^verbatim>\<open>NaN\<close>.
\<close>

record env =
  MONGODB_URI :: "string option"
  NODE_ENV :: "string option"
  MAX_FILE_SIZE :: "nat option"
  connect_error :: "string option"
  stream_error :: "string option"
  now :: nat

section \<open>config/db.js\<close>

definition connectDB :: "env \<Rightarrow> state \<Rightarrow> state \<times> (string + unit)" where
  "connectDB e st =
     (if cachedConnection st \<and> readyState st = 1 then (st, Inr ())
      else if js_or (MONGODB_URI e) [] = [] then (st, Inl ''MONGODB_URI is not defined'')
      else (case connect_error e of
              Some msg \<Rightarrow> (st, Inl msg)
            | None \<Rightarrow> (st\<lparr>readyState := 1, conn_db := True, cachedConnection := True\<rparr>, Inr ())))"

definition ensureConnection :: "env \<Rightarrow> state \<Rightarrow> state \<times> (string + unit)" where
  "ensureConnection e st = (if readyState st \<noteq> 1 then connectDB e st else (st, Inr ()))"

section \<open>config/gridfs.js\<close>

definition chunkSizeBytes :: nat where
  "chunkSizeBytes = 255 * 1024"

definition initGridFS :: "state \<Rightarrow> state" where
  "initGridFS st = (if \<not> conn_db st then st else st\<lparr>gridFSBucket := True\<rparr>)"

definition getGridFSBucket :: "state \<Rightarrow> state" where
  "getGridFSBucket st = (if \<not> gridFSBucket st \<and> readyState st = 1 then initGridFS st else st)"

text \<open>
  Modelled from the spec: the MongoDB driver's \<^verbatim>\<open>GridFSBucket\<close> is a library outside
  this repository.  As in section 4.1 of the specification, a put stores the bytes under
  a fresh identifier, a get of a missing identifier fails, and a delete of a missing
  identifier fails.  The driver cuts the contents into chunks of \<open>chunkSizeBytes\<close> bytes;
  the download stream hands them back in order.  An upload stream takes its identifier
  when it is opened.  A document without \<open>gridfsId\<close> names no file: the bucket is then
  asked for a new identifier and finds nothing.  The driver's error texts are abbreviated.
\<close>

function split_chunks :: "nat \<Rightarrow> bytes \<Rightarrow> bytes list" where
  "split_chunks n bs = (if n = 0 \<or> bs = [] then [] else take n bs # split_chunks n (drop n bs))"
  by pat_completeness auto
termination
  by (relation "measure (\<lambda>(n, bs). length bs)") auto

definition bucket_put :: "env \<Rightarrow> state \<Rightarrow> bytes \<Rightarrow> string \<Rightarrow> string \<Rightarrow> string option \<times> string option
    \<Rightarrow> state \<times> (string + oid)" where
  "bucket_put e st bs filename contentType meta =
     (let g = next_oid st; st1 = st\<lparr>next_oid := Suc g\<rparr>
      in case stream_error e of
           Some msg \<Rightarrow> (st1, Inl msg)
         | None \<Rightarrow>
             (st1\<lparr>fs_files := (fs_files st1)(g \<mapsto>
                 \<lparr>fs_filename = filename, fs_contentType = contentType,
                  fs_meta_category = fst meta, fs_meta_description = snd meta,
                  fs_chunks = split_chunks chunkSizeBytes bs\<rparr>)\<rparr>, Inr g))"

definition bucket_get :: "env \<Rightarrow> state \<Rightarrow> oid option \<Rightarrow> string + bytes list" where
  "bucket_get e st fileId =
     (case stream_error e of
        Some msg \<Rightarrow> Inl msg
      | None \<Rightarrow>
          (case fileId of
             None \<Rightarrow> Inl ''FileNotFound''
           | Some g \<Rightarrow>
               (case fs_files st g of
                  None \<Rightarrow> Inl ''FileNotFound''
                | Some f \<Rightarrow> Inr (fs_chunks f))))"

definition bucket_delete :: "env \<Rightarrow> state \<Rightarrow> oid \<Rightarrow> state \<times> (string + unit)" where
  "bucket_delete e st g =
     (case stream_error e of
        Some msg \<Rightarrow> (st, Inl msg)
      | None \<Rightarrow>
          (case fs_files st g of
             None \<Rightarrow> (st, Inl ''File not found for id'')
           | Some f \<Rightarrow> (st\<lparr>fs_files := (fs_files st)(g := None)\<rparr>, Inr ())))"

text \<open>The result object of \<open>uploadToGridFS\<close>.\<close>

record gridfs_result =
  fileId :: oid
  filename :: string
  length_r :: nat

definition uploadToGridFS :: "env \<Rightarrow> state \<Rightarrow> bytes \<Rightarrow> string \<Rightarrow> string option
    \<Rightarrow> string option \<times> string option \<Rightarrow> state \<times> (string + gridfs_result)" where
  "uploadToGridFS e st fileBuffer fname contentType meta =
     (let st1 = getGridFSBucket st
      in if \<not> gridFSBucket st1 then (st1, Inl ''GridFS bucket not initialized'')
         else (case bucket_put e st1 fileBuffer fname
                      (js_or contentType ''application/octet-stream'') meta of
                 (st2, Inl msg) \<Rightarrow> (st2, Inl msg)
               | (st2, Inr g) \<Rightarrow>
                   (st2, Inr \<lparr>fileId = g, filename = fname, length_r = length fileBuffer\<rparr>)))"

definition downloadFromGridFS :: "env \<Rightarrow> state \<Rightarrow> oid option \<Rightarrow> state \<times> (string + bytes)" where
  "downloadFromGridFS e st fid =
     (let st1 = getGridFSBucket st
      in if \<not> gridFSBucket st1 then (st1, Inl ''GridFS bucket not initialized'')
         else (case bucket_get e st1 fid of
                 Inl msg \<Rightarrow> (st1, Inl msg)
               | Inr chunks \<Rightarrow> (st1, Inr (concat chunks))))"

definition deleteFromGridFS :: "env \<Rightarrow> state \<Rightarrow> oid \<Rightarrow> state \<times> (string + unit)" where
  "deleteFromGridFS e st fid =
     (let st1 = getGridFSBucket st
      in if \<not> gridFSBucket st1 then (st1, Inl ''GridFS bucket not initialized'')
         else bucket_delete e st1 fid)"

definition fileExistsInGridFS :: "state \<Rightarrow> oid \<Rightarrow> state \<times> bool" where
  "fileExistsInGridFS st fid =
     (let st1 = getGridFSBucket st
      in if \<not> gridFSBucket st1 then (st1, False) else (st1, fs_files st1 fid \<noteq> None))"

section \<open>models/File.js\<close>

definition category_enum :: "string list" where
  "category_enum = [''id_front'', ''id_back'', ''passport'', ''drivers_license'',
     ''utility_bill'', ''bank_statement'', ''other'']"

text \<open>The arguments of \<^verbatim>\<open>new File({...})\<close> as the controllers pass them.\<close>

record file_args =
  arg_originalName :: string
  arg_mimeType :: string
  arg_size :: nat
  arg_category :: string
  arg_description :: string
  arg_gridfsId :: oid
  arg_isGridFS :: bool

text \<open>
  Modelled from the spec: Mongoose is a library outside this repository.  As in sections 3
  and 4.2 of the specification and as the schema declares them: the constructor assigns
  the \<^verbatim>\<open>_id\<close>, applies \<^verbatim>\<open>trim\<close> and the default of \<open>uploadDate\<close>; \<open>save\<close> checks
  \<^verbatim>\<open>required\<close>, \<^verbatim>\<open>maxlength\<close> and \<^verbatim>\<open>enum\<close> path by path, rejects with a validation
  error naming the failed paths, and otherwise inserts the document (its timestamps are
  the time of the request);
  \<open>find\<close> filters, \<open>sort\<close> orders, \<open>select('-gridfsId')\<close> projects.
\<close>

definition new_File :: "env \<Rightarrow> state \<Rightarrow> file_args \<Rightarrow> state \<times> file_doc" where
  "new_File e st a =
     (st\<lparr>next_oid := Suc (next_oid st)\<rparr>,
      \<lparr>doc_id = next_oid st,
       originalName = trim (arg_originalName a),
       mimeType = arg_mimeType a,
       size_d = arg_size a,
       category = arg_category a,
       description = trim (arg_description a),
       gridfsId = Some (arg_gridfsId a),
       isGridFS = arg_isGridFS a,
       uploadDate = now e,
       createdAt = now e,
       updatedAt = now e\<rparr>)"

definition backquoted :: "string \<Rightarrow> string" where
  "backquoted s = [CHR 0x60] @ s @ [CHR 0x60]"

definition validate_File :: "file_doc \<Rightarrow> (string \<times> string) list" where
  "validate_File d =
     (if originalName d = [] then [(''originalName'', ''File name is required'')]
      else if length (originalName d) > 500
        then [(''originalName'', ''File name cannot exceed 500 characters'')]
      else [])
     @ (if mimeType d = [] then [(''mimeType'', ''MIME type is required'')] else [])
     @ (if category d \<notin> set category_enum
        then [(''category'', backquoted (category d) @ '' is not a valid enum value for path ''
                 @ backquoted ''category'' @ ''.'')]
        else [])
     @ (if length (description d) > 1000
        then [(''description'', ''Description cannot exceed 1000 characters'')]
        else [])
     @ (if gridfsId d = None
        then [(''gridfsId'', ''Path '' @ backquoted ''gridfsId'' @ '' is required.'')]
        else [])"

fun join_with :: "string \<Rightarrow> string list \<Rightarrow> string" where
  "join_with sep [] = []"
| "join_with sep [x] = x"
| "join_with sep (x # y # ys) = x @ sep @ join_with sep (y # ys)"

definition validation_message :: "(string \<times> string) list \<Rightarrow> string" where
  "validation_message errs =
     ''File validation failed: '' @ join_with '', '' (map (\<lambda>(p, m). p @ '': '' @ m) errs)"

definition File_save :: "env \<Rightarrow> state \<Rightarrow> file_doc \<Rightarrow> state \<times> (string + file_doc)" where
  "File_save e st d =
     (case validate_File d of
        [] \<Rightarrow> (st\<lparr>files := files st @ [d]\<rparr>, Inr d)
      | x # xs \<Rightarrow> (st, Inl (validation_message (x # xs))))"

definition File_findById :: "state \<Rightarrow> oid \<Rightarrow> file_doc option" where
  "File_findById st i = find (\<lambda>d. doc_id d = i) (files st)"

definition File_findByIdAndDelete :: "state \<Rightarrow> oid \<Rightarrow> state" where
  "File_findByIdAndDelete st i = st\<lparr>files := filter (\<lambda>d. doc_id d \<noteq> i) (files st)\<rparr>"

definition File_find :: "state \<Rightarrow> string option \<Rightarrow> file_doc list" where
  "File_find st flt =
     (case flt of None \<Rightarrow> files st | Some c \<Rightarrow> filter (\<lambda>d. category d = c) (files st))"

definition select_minus_gridfsId :: "file_doc \<Rightarrow> file_doc" where
  "select_minus_gridfsId d = d\<lparr>gridfsId := None\<rparr>"

text \<open>\<^verbatim>\<open>sort({ uploadDate: -1 })\<close>: latest first (documents of one date keep their order).\<close>

definition sort_uploadDate_desc :: "file_doc list \<Rightarrow> file_doc list" where
  "sort_uploadDate_desc ds = rev (sort_key uploadDate (rev ds))"

section \<open>controllers/fileController.js\<close>

definition res_json :: "nat \<Rightarrow> json \<Rightarrow> response" where
  "res_json code j = \<lparr>status = code, headers = [], body = Json j\<rparr>"

definition error_json :: "string \<Rightarrow> string \<Rightarrow> json" where
  "error_json msg err =
     JObj [(''success'', JBool False), (''message'', JStr msg), (''error'', JStr err)]"

definition failure_json :: "string \<Rightarrow> json" where
  "failure_json msg = JObj [(''success'', JBool False), (''message'', JStr msg)]"

text \<open>The object literals that the controllers build from a document.\<close>

definition upload_view :: "file_doc \<Rightarrow> json" where
  "upload_view file =
     JObj [(''id'', JOid (doc_id file)),
           (''originalName'', JStr (originalName file)),
           (''mimeType'', JStr (mimeType file)),
           (''size'', JNum (size_d file)),
           (''category'', JStr (category file)),
           (''description'', JStr (description file)),
           (''uploadDate'', JDate (uploadDate file))]"

definition multi_view :: "file_doc \<Rightarrow> json" where
  "multi_view fileDoc =
     JObj [(''id'', JOid (doc_id fileDoc)),
           (''originalName'', JStr (originalName fileDoc)),
           (''mimeType'', JStr (mimeType fileDoc)),
           (''size'', JNum (size_d fileDoc)),
           (''category'', JStr (category fileDoc)),
           (''uploadDate'', JDate (uploadDate fileDoc))]"

definition read_view :: "file_doc \<Rightarrow> json" where
  "read_view file =
     JObj [(''id'', JOid (doc_id file)),
           (''originalName'', JStr (originalName file)),
           (''mimeType'', JStr (mimeType file)),
           (''size'', JNum (size_d file)),
           (''sizeFormatted'', JStr (formatFileSize (size_d file))),
           (''category'', JStr (category file)),
           (''description'', JStr (description file)),
           (''uploadDate'', JDate (uploadDate file))]"

definition uploadFile :: "env \<Rightarrow> state \<Rightarrow> file_part option \<Rightarrow> string option \<Rightarrow> string option
    \<Rightarrow> state \<times> response" where
  "uploadFile e st req_file category' description' =
     (case ensureConnection e st of
        (st0, Inl msg) \<Rightarrow> (st0, res_json 500 (error_json ''Error uploading file'' msg))
      | (st0, Inr u) \<Rightarrow>
          (case req_file of
             None \<Rightarrow> (st0, res_json 400 (failure_json ''No file uploaded''))
           | Some f \<Rightarrow>
               (case uploadToGridFS e st0 (buffer f) (originalname f) (Some (mimetype f))
                       (category', description') of
                  (st1, Inl msg) \<Rightarrow> (st1, res_json 500 (error_json ''Error uploading file'' msg))
                | (st1, Inr gridfsResult) \<Rightarrow>
                    (case new_File e st1
                            \<lparr>arg_originalName = originalname f,
                             arg_mimeType = mimetype f,
                             arg_size = size_p f,
                             arg_category = js_or category' ''other'',
                             arg_description = js_or description' [],
                             arg_gridfsId = fileId gridfsResult,
                             arg_isGridFS = True\<rparr> of
                       (st2, file) \<Rightarrow>
                         (case File_save e st2 file of
                            (st3, Inl msg) \<Rightarrow>
                              (st3, res_json 500 (error_json ''Error uploading file'' msg))
                          | (st3, Inr saved) \<Rightarrow>
                              (st3, res_json 201
                                 (JObj [(''success'', JBool True),
                                        (''message'', JStr ''File uploaded successfully''),
                                        (''file'', upload_view saved)])))))))"

text \<open>
  One turn of the loop of \<open>uploadMultipleFiles\<close>, with its own \<^verbatim>\<open>try\<close>/\<^verbatim>\<open>catch\<close>:
  the entry pushed to \<open>errors\<close> (left) or to \<open>uploadedFiles\<close> (right).
\<close>

definition process_file :: "env \<Rightarrow> state \<Rightarrow> string option \<Rightarrow> string option \<Rightarrow> file_part
    \<Rightarrow> state \<times> (json + json)" where
  "process_file e st category' description' f =
     (case uploadToGridFS e st (buffer f) (originalname f) (Some (mimetype f)) (category', None) of
        (st1, Inl msg) \<Rightarrow>
          (st1, Inl (JObj [(''filename'', JStr (originalname f)), (''error'', JStr msg)]))
      | (st1, Inr gridfsResult) \<Rightarrow>
          (case new_File e st1
                  \<lparr>arg_originalName = originalname f,
                   arg_mimeType = mimetype f,
                   arg_size = size_p f,
                   arg_category = js_or category' ''other'',
                   arg_description = js_or description' [],
                   arg_gridfsId = fileId gridfsResult,
                   arg_isGridFS = True\<rparr> of
             (st2, fileDoc) \<Rightarrow>
               (case File_save e st2 fileDoc of
                  (st3, Inl msg) \<Rightarrow>
                    (st3, Inl (JObj [(''filename'', JStr (originalname f)), (''error'', JStr msg)]))
                | (st3, Inr saved) \<Rightarrow> (st3, Inr (multi_view saved)))))"

fun upload_loop :: "env \<Rightarrow> string option \<Rightarrow> string option \<Rightarrow> file_part list
    \<Rightarrow> state \<Rightarrow> json list \<Rightarrow> json list \<Rightarrow> state \<times> json list \<times> json list" where
  "upload_loop e c d [] st uploadedFiles errors = (st, uploadedFiles, errors)"
| "upload_loop e c d (f # fs) st uploadedFiles errors =
     (case process_file e st c d f of
        (st1, Inl err) \<Rightarrow> upload_loop e c d fs st1 uploadedFiles (errors @ [err])
      | (st1, Inr v) \<Rightarrow> upload_loop e c d fs st1 (uploadedFiles @ [v]) errors)"

definition uploadMultipleFiles :: "env \<Rightarrow> state \<Rightarrow> file_part list \<Rightarrow> string option
    \<Rightarrow> string option \<Rightarrow> state \<times> response" where
  "uploadMultipleFiles e st req_files category' description' =
     (case ensureConnection e st of
        (st0, Inl msg) \<Rightarrow> (st0, res_json 500 (error_json ''Error uploading files'' msg))
      | (st0, Inr u) \<Rightarrow>
          (if req_files = [] then (st0, res_json 400 (failure_json ''No files uploaded''))
           else (case upload_loop e category' description' req_files st0 [] [] of
                   (st1, uploadedFiles, errors) \<Rightarrow>
                     (st1, res_json 201
                        (JObj ([(''success'', JBool True),
                                (''message'', JStr (nat_to_string (length uploadedFiles)
                                                    @ '' file(s) uploaded successfully'')),
                                (''files'', JArr uploadedFiles)]
                               @ (if length errors > 0 then [(''errors'', JArr errors)] else [])))))))"

definition getAllFiles :: "env \<Rightarrow> state \<Rightarrow> state \<times> response" where
  "getAllFiles e st =
     (case ensureConnection e st of
        (st0, Inl msg) \<Rightarrow> (st0, res_json 500 (error_json ''Error fetching files'' msg))
      | (st0, Inr u) \<Rightarrow>
          (let fs = sort_uploadDate_desc (map select_minus_gridfsId (File_find st0 None))
           in (st0, res_json 200
                 (JObj [(''success'', JBool True),
                        (''count'', JNum (length fs)),
                        (''files'', JArr (map read_view fs))]))))"

definition getFileById :: "env \<Rightarrow> state \<Rightarrow> oid \<Rightarrow> state \<times> response" where
  "getFileById e st i =
     (case ensureConnection e st of
        (st0, Inl msg) \<Rightarrow> (st0, res_json 500 (error_json ''Error fetching file'' msg))
      | (st0, Inr u) \<Rightarrow>
          (case map_option select_minus_gridfsId (File_findById st0 i) of
             None \<Rightarrow> (st0, res_json 404 (failure_json ''File not found''))
           | Some file \<Rightarrow>
               (st0, res_json 200 (JObj [(''success'', JBool True), (''file'', read_view file)]))))"

text \<open>\<open>downloadFile\<close> and \<open>viewFile\<close> differ in the disposition only.\<close>

definition send_file :: "string \<Rightarrow> string \<Rightarrow> env \<Rightarrow> state \<Rightarrow> oid \<Rightarrow> state \<times> response" where
  "send_file disposition failure e st i =
     (case ensureConnection e st of
        (st0, Inl msg) \<Rightarrow> (st0, res_json 500 (error_json failure msg))
      | (st0, Inr u) \<Rightarrow>
          (case File_findById st0 i of
             None \<Rightarrow> (st0, res_json 404 (failure_json ''File not found''))
           | Some file \<Rightarrow>
               (case downloadFromGridFS e st0 (gridfsId file) of
                  (st1, Inl msg) \<Rightarrow> (st1, res_json 500 (error_json failure msg))
                | (st1, Inr fileBuffer) \<Rightarrow>
                    (st1, \<lparr>status = 200,
                           headers =
                             [(''Content-Type'', mimeType file),
                              (''Content-Disposition'',
                                 disposition @ ''; filename='' @ [CHR 0x22]
                                 @ encodeURIComponent (originalName file) @ [CHR 0x22]),
                              (''Content-Length'', nat_to_string (length fileBuffer))],
                           body = Raw fileBuffer\<rparr>))))"

definition downloadFile :: "env \<Rightarrow> state \<Rightarrow> oid \<Rightarrow> state \<times> response" where
  "downloadFile = send_file ''attachment'' ''Error downloading file''"

definition viewFile :: "env \<Rightarrow> state \<Rightarrow> oid \<Rightarrow> state \<times> response" where
  "viewFile = send_file ''inline'' ''Error viewing file''"

definition deleteFile :: "env \<Rightarrow> state \<Rightarrow> oid \<Rightarrow> state \<times> response" where
  "deleteFile e st i =
     (case ensureConnection e st of
        (st0, Inl msg) \<Rightarrow> (st0, res_json 500 (error_json ''Error deleting file'' msg))
      | (st0, Inr u) \<Rightarrow>
          (case File_findById st0 i of
             None \<Rightarrow> (st0, res_json 404 (failure_json ''File not found''))
           | Some file \<Rightarrow>
               (case (case gridfsId file of
                        None \<Rightarrow> (st0, Inr ())
                      | Some g \<Rightarrow> deleteFromGridFS e st0 g) of
                  (st1, Inl msg) \<Rightarrow> (st1, res_json 500 (error_json ''Error deleting file'' msg))
                | (st1, Inr u') \<Rightarrow>
                    (File_findByIdAndDelete st1 i,
                     res_json 200 (JObj [(''success'', JBool True),
                                         (''message'', JStr ''File deleted successfully'')])))))"

definition getFilesByCategory :: "env \<Rightarrow> state \<Rightarrow> string \<Rightarrow> state \<times> response" where
  "getFilesByCategory e st category' =
     (case ensureConnection e st of
        (st0, Inl msg) \<Rightarrow> (st0, res_json 500 (error_json ''Error fetching files'' msg))
      | (st0, Inr u) \<Rightarrow>
          (let fs = sort_uploadDate_desc (map select_minus_gridfsId (File_find st0 (Some category')))
           in (st0, res_json 200
                 (JObj [(''success'', JBool True),
                        (''category'', JStr category'),
                        (''count'', JNum (length fs)),
                        (''files'', JArr (map read_view fs))]))))"

section \<open>middleware/upload.js\<close>

definition allowedTypes :: "string list" where
  "allowedTypes =
     [''image/jpeg'',
      ''image/jpg'',
      ''image/png'',
      ''image/gif'',
      ''image/webp'',
      ''application/pdf'',
      ''application/msword'',
      ''application/vnd.openxmlformats-officedocument.wordprocessingml.document'',
      ''application/vnd.ms-excel'',
      ''application/vnd.openxmlformats-officedocument.spreadsheetml.sheet'',
      ''text/plain'',
      ''text/csv'']"

text \<open>\<open>fileFilter\<close>: the callback receives an error (left) or the decision to keep the file.\<close>

definition fileFilter :: "file_part \<Rightarrow> js_error + bool" where
  "fileFilter file =
     (if mimetype file \<in> set allowedTypes then Inr True
      else Inl \<lparr>err_name = ''Error'', err_code = None,
                err_message = ''Invalid file type: '' @ mimetype file
                  @ ''. Allowed: images, PDF, Word, Excel, text files.''\<rparr>)"

definition fileSize_limit :: "env \<Rightarrow> nat" where
  "fileSize_limit e =
     (case MAX_FILE_SIZE e of
        None \<Rightarrow> 100 * 1024 * 1024
      | Some n \<Rightarrow> if n = 0 then 100 * 1024 * 1024 else n)"

text \<open>The limit \<^verbatim>\<open>files: 10\<close> of the multer configuration.\<close>

definition files_limit :: nat where
  "files_limit = 10"

text \<open>
  Modelled from the spec: multer is a library outside this repository.  As in sections 6
  and 7 of the specification, the multipart layer takes the file parts of a request in
  order and ends the request with the first error; no controller runs then.  A part that
  comes when the limit on the number of files is used up ends the request with a
  \<^verbatim>\<open>LIMIT_FILE_COUNT\<close> error (message \<^verbatim>\<open>Too many files\<close>) before \<open>fileFilter\<close> sees it.
  Otherwise \<open>fileFilter\<close> is asked about the part before its content is read, and a part
  above the size limit gives a \<^verbatim>\<open>LIMIT_FILE_SIZE\<close> error.  The second argument is the number
  of files that the limit still allows.  The parts are taken to carry the field name of
  the route; the single-upload route is given at most one part.
\<close>

fun multer_parts :: "env \<Rightarrow> nat \<Rightarrow> file_part list \<Rightarrow> js_error + file_part list" where
  "multer_parts e n [] = Inr []"
| "multer_parts e n (f # fs) =
     (if n = 0
      then Inl \<lparr>err_name = ''MulterError'', err_code = Some ''LIMIT_FILE_COUNT'',
                err_message = ''Too many files''\<rparr>
      else (case fileFilter f of
              Inl err \<Rightarrow> Inl err
            | Inr keep \<Rightarrow>
                (if size_p f > fileSize_limit e
                 then Inl \<lparr>err_name = ''MulterError'', err_code = Some ''LIMIT_FILE_SIZE'',
                           err_message = ''File too large''\<rparr>
                 else (case multer_parts e (n - 1) fs of
                         Inl err \<Rightarrow> Inl err
                       | Inr rest \<Rightarrow> Inr (f # rest)))))"

section \<open>server.js and routes/fileRoutes.js\<close>

text \<open>The error-handling middleware.\<close>

definition errorHandler :: "env \<Rightarrow> js_error \<Rightarrow> response" where
  "errorHandler e err =
     (if err_code err = Some ''LIMIT_FILE_SIZE''
      then res_json 400 (failure_json ''File too large. Maximum size is 100MB'')
      else if err_message err \<noteq> [] \<and> str_includes (err_message err) ''Invalid file type''
      then res_json 400 (failure_json (err_message err))
      else if err_name err = ''MongooseError''
              \<and> str_includes (err_message err) ''buffering timed out''
      then res_json 503 (failure_json ''Database connection timeout. Please try again.'')
      else res_json 500 (failure_json
             (if NODE_ENV e = Some ''production'' then ''Internal server error''
              else err_message err)))"

text \<open>
  The requests of the router: the multipart requests carry their file parts and the
  text fields \<open>category\<close> and \<open>description\<close>; the others carry the route parameter.
\<close>

datatype request =
    PostUpload "file_part option" "string option" "string option"
  | PostUploadMultiple "file_part list" "string option" "string option"
  | GetFiles
  | GetCategory string
  | GetFile oid
  | GetDownload oid
  | GetView oid
  | DeleteFile oid

definition opt_list :: "'a option \<Rightarrow> 'a list" where
  "opt_list x = (case x of None \<Rightarrow> [] | Some y \<Rightarrow> [y])"

fun router :: "env \<Rightarrow> state \<Rightarrow> request \<Rightarrow> state \<times> response" where
  "router e st (PostUpload part c d) =
     (case multer_parts e files_limit (opt_list part) of
        Inl err \<Rightarrow> (st, errorHandler e err)
      | Inr fs \<Rightarrow> uploadFile e st (case fs of [] \<Rightarrow> None | f # rest \<Rightarrow> Some f) c d)"
| "router e st (PostUploadMultiple parts c d) =
     (case multer_parts e files_limit parts of
        Inl err \<Rightarrow> (st, errorHandler e err)
      | Inr fs \<Rightarrow> uploadMultipleFiles e st fs c d)"
| "router e st GetFiles = getAllFiles e st"
| "router e st (GetCategory c) = getFilesByCategory e st c"
| "router e st (GetFile i) = getFileById e st i"
| "router e st (GetDownload i) = downloadFile e st i"
| "router e st (GetView i) = viewFile e st i"
| "router e st (DeleteFile i) = deleteFile e st i"

text \<open>A sequence of requests, each with the environment it meets.\<close>

fun run :: "state \<Rightarrow> (env \<times> request) list \<Rightarrow> state" where
  "run st [] = st"
| "run st ((e, r) # rs) = run (fst (router e st r)) rs"

section \<open>Sample data\<close>

definition sample_env :: env where
  "sample_env = \<lparr>MONGODB_URI = Some ''mongodb://localhost/files'', NODE_ENV = None,
     MAX_FILE_SIZE = None, connect_error = None, stream_error = None, now = 1000\<rparr>"

definition fresh_state :: state where
  "fresh_state = \<lparr>readyState = 0, conn_db = False, cachedConnection = False,
     gridFSBucket = False, fs_files = Map.empty, files = [], next_oid = 0\<rparr>"

definition sample_png :: file_part where
  "sample_png = \<lparr>originalname = ''id.png'', mimetype = ''image/png'', size_p = 3,
     buffer = [137, 80, 78]\<rparr>"

definition sample_exe :: file_part where
  "sample_exe = \<lparr>originalname = ''run.exe'', mimetype = ''application/x-executable'',
     size_p = 2, buffer = [77, 90]\<rparr>"

section \<open>Notions used to state the properties\<close>

definition body_json :: "response \<Rightarrow> json" where
  "body_json r = (case body r of Json j \<Rightarrow> j | Raw bs \<Rightarrow> JNull)"

text \<open>
  The two errors of the multipart layer that the error-handling middleware answers with
  400: a file above the size limit, and a file that \<open>fileFilter\<close> refuses.
\<close>

definition rejection :: "js_error \<Rightarrow> bool" where
  "rejection err =
     (err_code err = Some ''LIMIT_FILE_SIZE''
      \<or> (err_code err = None \<and> take 19 (err_message err) = ''Invalid file type: ''))"

text \<open>
  The document that an upload of part \<open>f\<close> builds when the next unused ObjectId is \<open>n\<close>:
  the GridFS file takes \<open>n\<close>, the document the identifier after it.
\<close>

definition new_doc :: "env \<Rightarrow> file_part \<Rightarrow> string option \<Rightarrow> string option \<Rightarrow> oid \<Rightarrow> file_doc" where
  "new_doc e f c d n =
     \<lparr>doc_id = Suc n,
      originalName = trim (originalname f),
      mimeType = mimetype f,
      size_d = size_p f,
      category = js_or c ''other'',
      description = trim (js_or d []),
      gridfsId = Some n,
      isGridFS = True,
      uploadDate = now e,
      createdAt = now e,
      updatedAt = now e\<rparr>"

text \<open>
  Further sample data: a store whose streams fail, a database that cannot be reached, and
  a document whose GridFS file is gone.
\<close>

definition failing_env :: env where
  "failing_env = sample_env\<lparr>stream_error := Some ''write failed''\<rparr>"

definition offline_env :: env where
  "offline_env = sample_env\<lparr>connect_error := Some ''connection refused''\<rparr>"

definition dangling_state :: state where
  "dangling_state = \<lparr>readyState = 1, conn_db = True, cachedConnection = True,
     gridFSBucket = True, fs_files = Map.empty,
     files = [new_doc sample_env sample_png None None 0], next_oid = 2\<rparr>"

text \<open>Latest first.\<close>

definition latest_first :: "file_doc list \<Rightarrow> bool" where
  "latest_first ds = sorted_wrt (\<lambda>a b. uploadDate a \<ge> uploadDate b) ds"

text \<open>A collection of three documents, two of them passports.\<close>

definition three_docs_state :: state where
  "three_docs_state = \<lparr>readyState = 1, conn_db = True, cachedConnection = True,
     gridFSBucket = True, fs_files = Map.empty,
     files = [new_doc (sample_env\<lparr>now := 1500\<rparr>) sample_png (Some ''passport'') None 0,
              new_doc (sample_env\<lparr>now := 1000\<rparr>) sample_png None None 2,
              new_doc (sample_env\<lparr>now := 2000\<rparr>) sample_png (Some ''passport'') None 4],
     next_oid = 6\<rparr>"

text \<open>
  The payloads of a multi-upload taken one after the other, each in the state that its
  predecessor left: the state after all of them, and their outcomes in order.
\<close>

fun after_payloads :: "env \<Rightarrow> string option \<Rightarrow> string option \<Rightarrow> file_part list \<Rightarrow> state \<Rightarrow> state" where
  "after_payloads e c d [] st = st"
| "after_payloads e c d (f # fs) st = after_payloads e c d fs (fst (process_file e st c d f))"

fun outcomes :: "env \<Rightarrow> string option \<Rightarrow> string option \<Rightarrow> file_part list \<Rightarrow> state
    \<Rightarrow> (json + json) list" where
  "outcomes e c d [] st = []"
| "outcomes e c d (f # fs) st =
     snd (process_file e st c d f) # outcomes e c d fs (fst (process_file e st c d f))"

primrec lefts :: "('a + 'b) list \<Rightarrow> 'a list" where
  "lefts [] = []"
| "lefts (x # xs) = (case x of Inl a \<Rightarrow> a # lefts xs | Inr b \<Rightarrow> lefts xs)"

primrec rights :: "('a + 'b) list \<Rightarrow> 'b list" where
  "rights [] = []"
| "rights (x # xs) = (case x of Inl a \<Rightarrow> rights xs | Inr b \<Rightarrow> b # rights xs)"

text \<open>The entry of the \<open>errors\<close> array for a payload.\<close>

definition error_entry :: "file_part \<Rightarrow> string \<Rightarrow> json" where
  "error_entry f msg = JObj [(''filename'', JStr (originalname f)), (''error'', JStr msg)]"

text \<open>The body of the 201 response of a multi-upload with the given outcomes.\<close>

definition multi_body :: "(json + json) list \<Rightarrow> json" where
  "multi_body os =
     JObj ([(''success'', JBool True),
            (''message'', JStr (nat_to_string (length (rights os)) @ '' file(s) uploaded successfully'')),
            (''files'', JArr (rights os))]
           @ (if lefts os = [] then [] else [(''errors'', JArr (lefts os))]))"

text \<open>A payload whose name is blank, and so fails the schema's \<^verbatim>\<open>required\<close> check.\<close>

definition sample_blank :: file_part where
  "sample_blank = \<lparr>originalname = ''  '', mimetype = ''text/plain'', size_p = 1, buffer = [65]\<rparr>"

definition connected_state :: state where
  "connected_state = fresh_state\<lparr>readyState := 1, conn_db := True, cachedConnection := True\<rparr>"

text \<open>
  The public view of a record in the words of the specification: every field of its data
  model except the blob identifier.
\<close>

definition public_fields :: "file_doc \<Rightarrow> (string \<times> json) list" where
  "public_fields doc =
     [(''id'', JOid (doc_id doc)),
      (''originalName'', JStr (originalName doc)),
      (''mimeType'', JStr (mimeType doc)),
      (''size'', JNum (size_d doc)),
      (''category'', JStr (category doc)),
      (''description'', JStr (description doc)),
      (''uploadDate'', JDate (uploadDate doc))]"


text \<open>
  A well-formed store: the identifiers of the documents and of the GridFS files they name
  are below the next unused ObjectId, and two documents that name the same GridFS file
  have the same identifier.
\<close>

definition wf_state :: "state \<Rightarrow> bool" where
  "wf_state st =
     ((\<forall>a \<in> set (files st). doc_id a < next_oid st
          \<and> (case gridfsId a of None \<Rightarrow> True | Some g \<Rightarrow> g < next_oid st))
      \<and> (\<forall>a \<in> set (files st). \<forall>b \<in> set (files st).
            gridfsId a = gridfsId b \<and> gridfsId a \<noteq> None \<longrightarrow> doc_id a = doc_id b))"

text \<open>The document \<open>i\<close> exists and the GridFS file it names holds the bytes \<open>bs\<close>.\<close>

definition holds_bytes :: "state \<Rightarrow> oid \<Rightarrow> bytes \<Rightarrow> bool" where
  "holds_bytes st i bs =
     (case File_findById st i of
        None \<Rightarrow> False
      | Some doc \<Rightarrow>
          (case gridfsId doc of
             None \<Rightarrow> False
           | Some g \<Rightarrow>
               (case fs_files st g of
                  None \<Rightarrow> False
                | Some blob \<Rightarrow> concat (fs_chunks blob) = bs)))"

text \<open>The connection is open and the bucket handle is there.\<close>

definition online :: "state \<Rightarrow> bool" where
  "online st = (readyState st = 1 \<and> gridFSBucket st)"


section \<open>Basic facts about the stores\<close>

lemma ensureConnection_keeps:
  assumes "ensureConnection e st = (st0, x)"
  shows "files st0 = files st" and "fs_files st0 = fs_files st" and "next_oid st0 = next_oid st"
  using assms
  by (auto simp: ensureConnection_def connectDB_def split: if_splits option.splits)


lemma getGridFSBucket_keeps:
  "files (getGridFSBucket st) = files st"
  "fs_files (getGridFSBucket st) = fs_files st"
  "next_oid (getGridFSBucket st) = next_oid st"
  "readyState (getGridFSBucket st) = readyState st"
  by (simp_all add: getGridFSBucket_def initGridFS_def)

declare split_chunks.simps [simp del]
declare log_floor.simps [simp del]
declare nat_to_string.simps [simp del]

lemma concat_split_chunks:
  "0 < n \<Longrightarrow> concat (split_chunks n bs) = bs"
proof (induction n bs rule: split_chunks.induct)
  case (1 n bs)
  show ?case
  proof (cases "bs = []")
    case True
    then show ?thesis by (simp add: split_chunks.simps)
  next
    case False
    with "1.prems" have "concat (split_chunks n (drop n bs)) = drop n bs"
      using "1.IH" by simp
    with False "1.prems" show ?thesis
      by (subst split_chunks.simps) simp
  qed
qed

text \<open>The three outcomes of \<open>uploadToGridFS\<close>.\<close>

lemma uploadToGridFS_no_bucket:
  assumes "\<not> gridFSBucket (getGridFSBucket st)"
  shows "uploadToGridFS e st bs fname ct meta
         = (getGridFSBucket st, Inl ''GridFS bucket not initialized'')"
  using assms by (simp add: uploadToGridFS_def Let_def)

lemma uploadToGridFS_stream_error:
  assumes "gridFSBucket (getGridFSBucket st)" and "stream_error e = Some msg"
  shows "uploadToGridFS e st bs fname ct meta
         = ((getGridFSBucket st)\<lparr>next_oid := Suc (next_oid st)\<rparr>, Inl msg)"
  using assms by (simp add: uploadToGridFS_def bucket_put_def Let_def getGridFSBucket_keeps)

lemma uploadToGridFS_stored:
  assumes "gridFSBucket (getGridFSBucket st)" and "stream_error e = None"
  shows "uploadToGridFS e st bs fname ct meta
         = ((getGridFSBucket st)\<lparr>next_oid := Suc (next_oid st),
               fs_files := (fs_files st)(next_oid st \<mapsto>
                 \<lparr>fs_filename = fname, fs_contentType = js_or ct ''application/octet-stream'',
                  fs_meta_category = fst meta, fs_meta_description = snd meta,
                  fs_chunks = split_chunks chunkSizeBytes bs\<rparr>)\<rparr>,
            Inr \<lparr>fileId = next_oid st, filename = fname, length_r = length bs\<rparr>)"
  using assms by (simp add: uploadToGridFS_def bucket_put_def Let_def getGridFSBucket_keeps)

lemma uploadToGridFS_fail:
  assumes "uploadToGridFS e st bs fname ct meta = (st1, Inl msg)"
  shows "files st1 = files st \<and> fs_files st1 = fs_files st"
proof (cases "gridFSBucket (getGridFSBucket st)")
  case False
  from assms uploadToGridFS_no_bucket [OF False, of e bs fname ct meta]
  have "st1 = getGridFSBucket st" by simp
  then show ?thesis by (simp add: getGridFSBucket_keeps)
next
  case True
  show ?thesis
  proof (cases "stream_error e")
    case None
    from assms uploadToGridFS_stored [OF True None, of bs fname ct meta]
    show ?thesis by simp
  next
    case (Some m)
    from assms uploadToGridFS_stream_error [OF True Some, of bs fname ct meta]
    have "st1 = (getGridFSBucket st)\<lparr>next_oid := Suc (next_oid st)\<rparr>" by simp
    then show ?thesis by (simp add: getGridFSBucket_keeps)
  qed
qed

lemma uploadToGridFS_ok:
  assumes "uploadToGridFS e st bs fname ct meta = (st1, Inr res)"
  shows "files st1 = files st \<and> fileId res = next_oid st \<and> next_oid st1 = Suc (next_oid st)
    \<and> (\<exists>blob. fs_files st1 = (fs_files st)(next_oid st \<mapsto> blob) \<and> concat (fs_chunks blob) = bs)
    \<and> readyState st1 = readyState st \<and> gridFSBucket st1 \<and> stream_error e = None"
proof (cases "gridFSBucket (getGridFSBucket st)")
  case False
  from assms uploadToGridFS_no_bucket [OF False, of e bs fname ct meta]
  show ?thesis by simp
next
  case True
  show ?thesis
  proof (cases "stream_error e")
    case (Some m)
    from assms uploadToGridFS_stream_error [OF True Some, of bs fname ct meta]
    show ?thesis by simp
  next
    case None
    from assms uploadToGridFS_stored [OF True None, of bs fname ct meta]
    have st1: "st1 = (getGridFSBucket st)\<lparr>next_oid := Suc (next_oid st),
               fs_files := (fs_files st)(next_oid st \<mapsto>
                 \<lparr>fs_filename = fname, fs_contentType = js_or ct ''application/octet-stream'',
                  fs_meta_category = fst meta, fs_meta_description = snd meta,
                  fs_chunks = split_chunks chunkSizeBytes bs\<rparr>)\<rparr>"
      and res: "res = \<lparr>fileId = next_oid st, filename = fname, length_r = length bs\<rparr>"
      by simp_all
    define blob where "blob = \<lparr>fs_filename = fname,
        fs_contentType = js_or ct ''application/octet-stream'',
        fs_meta_category = fst meta, fs_meta_description = snd meta,
        fs_chunks = split_chunks chunkSizeBytes bs\<rparr>"
    have "concat (split_chunks chunkSizeBytes bs) = bs"
      by (rule concat_split_chunks) (simp add: chunkSizeBytes_def)
    then have "concat (fs_chunks blob) = bs" by (simp add: blob_def)
    moreover have "fs_files st1 = (fs_files st)(next_oid st \<mapsto> blob)"
      by (simp add: st1 blob_def)
    ultimately have "\<exists>blob. fs_files st1 = (fs_files st)(next_oid st \<mapsto> blob)
        \<and> concat (fs_chunks blob) = bs" by blast
    moreover have "files st1 = files st" "next_oid st1 = Suc (next_oid st)"
      "readyState st1 = readyState st" "gridFSBucket st1"
      using True by (simp_all add: st1 getGridFSBucket_keeps)
    ultimately show ?thesis using res None by simp
  qed
qed

section \<open>Single upload\<close>

lemma File_save_valid:
  assumes "validate_File doc = []"
  shows "File_save e st doc = (st\<lparr>files := files st @ [doc]\<rparr>, Inr doc)"
  using assms by (simp add: File_save_def)

lemma File_save_invalid:
  assumes "validate_File doc \<noteq> []"
  shows "File_save e st doc = (st, Inl (validation_message (validate_File doc)))"
  using assms by (cases "validate_File doc") (simp_all add: File_save_def)

lemma new_File_after_put:
  assumes "uploadToGridFS e st (buffer f) (originalname f) ct meta = (st1, Inr res)"
  shows "new_File e st1
            \<lparr>arg_originalName = originalname f, arg_mimeType = mimetype f,
             arg_size = size_p f, arg_category = js_or c ''other'',
             arg_description = js_or d [], arg_gridfsId = fileId res, arg_isGridFS = True\<rparr>
         = (st1\<lparr>next_oid := Suc (Suc (next_oid st))\<rparr>, new_doc e f c d (next_oid st))"
  using uploadToGridFS_ok [OF assms] by (simp add: new_File_def new_doc_def)

text \<open>The five ways through \<open>uploadFile\<close>.\<close>

lemma uploadFile_no_connection:
  assumes "ensureConnection e st = (st0, Inl msg)"
  shows "uploadFile e st rf c d = (st0, res_json 500 (error_json ''Error uploading file'' msg))"
  using assms by (simp add: uploadFile_def)


lemma uploadFile_blob_failure:
  assumes "ensureConnection e st = (st0, Inr u)"
    and "uploadToGridFS e st0 (buffer f) (originalname f) (Some (mimetype f)) (c, d) = (st1, Inl msg)"
  shows "uploadFile e st (Some f) c d
         = (st1, res_json 500 (error_json ''Error uploading file'' msg))"
  using assms by (simp add: uploadFile_def)

lemma uploadFile_invalid:
  assumes "ensureConnection e st = (st0, Inr u)"
    and "uploadToGridFS e st0 (buffer f) (originalname f) (Some (mimetype f)) (c, d) = (st1, Inr res)"
    and "validate_File (new_doc e f c d (next_oid st)) \<noteq> []"
  shows "uploadFile e st (Some f) c d
         = (st1\<lparr>next_oid := Suc (Suc (next_oid st))\<rparr>,
            res_json 500 (error_json ''Error uploading file''
              (validation_message (validate_File (new_doc e f c d (next_oid st))))))"
proof -
  have n: "next_oid st0 = next_oid st" using assms(1) by (rule ensureConnection_keeps)
  show ?thesis
    using assms(1,2) File_save_invalid [OF assms(3)]
    by (simp add: uploadFile_def new_File_after_put [OF assms(2)] n)
qed

lemma uploadFile_saved:
  assumes "ensureConnection e st = (st0, Inr u)"
    and "uploadToGridFS e st0 (buffer f) (originalname f) (Some (mimetype f)) (c, d) = (st1, Inr res)"
    and "validate_File (new_doc e f c d (next_oid st)) = []"
  shows "uploadFile e st (Some f) c d
         = (st1\<lparr>next_oid := Suc (Suc (next_oid st)),
                 files := files st @ [new_doc e f c d (next_oid st)]\<rparr>,
            res_json 201 (JObj [(''success'', JBool True),
                                (''message'', JStr ''File uploaded successfully''),
                                (''file'', upload_view (new_doc e f c d (next_oid st)))]))"
proof -
  have n: "next_oid st0 = next_oid st" using assms(1) by (rule ensureConnection_keeps)
  have fl: "files st1 = files st"
    using uploadToGridFS_ok [OF assms(2)] ensureConnection_keeps(1) [OF assms(1)] by simp
  show ?thesis
    using assms(1,2) File_save_valid [OF assms(3)]
    by (simp add: uploadFile_def new_File_after_put [OF assms(2)] n fl)
qed

lemma uploadFile_cases [consumes 1, case_names no_connection blob_failure invalid saved]:
  assumes "uploadFile e st (Some f) c d = (st', r)"
  obtains
    st0 msg where "ensureConnection e st = (st0, Inl msg)" "st' = st0"
      "r = res_json 500 (error_json ''Error uploading file'' msg)"
  | st0 u st1 msg where "ensureConnection e st = (st0, Inr u)"
      "uploadToGridFS e st0 (buffer f) (originalname f) (Some (mimetype f)) (c, d) = (st1, Inl msg)"
      "st' = st1" "r = res_json 500 (error_json ''Error uploading file'' msg)"
  | st0 u st1 res where "ensureConnection e st = (st0, Inr u)"
      "uploadToGridFS e st0 (buffer f) (originalname f) (Some (mimetype f)) (c, d) = (st1, Inr res)"
      "validate_File (new_doc e f c d (next_oid st)) \<noteq> []"
      "st' = st1\<lparr>next_oid := Suc (Suc (next_oid st))\<rparr>"
      "r = res_json 500 (error_json ''Error uploading file''
              (validation_message (validate_File (new_doc e f c d (next_oid st)))))"
  | st0 u st1 res where "ensureConnection e st = (st0, Inr u)"
      "uploadToGridFS e st0 (buffer f) (originalname f) (Some (mimetype f)) (c, d) = (st1, Inr res)"
      "validate_File (new_doc e f c d (next_oid st)) = []"
      "st' = st1\<lparr>next_oid := Suc (Suc (next_oid st)),
                 files := files st @ [new_doc e f c d (next_oid st)]\<rparr>"
      "r = res_json 201 (JObj [(''success'', JBool True),
                                (''message'', JStr ''File uploaded successfully''),
                                (''file'', upload_view (new_doc e f c d (next_oid st)))])"
proof -
  obtain st0 x where ec: "ensureConnection e st = (st0, x)"
    by (cases "ensureConnection e st")
  show thesis
  proof (cases x)
    case (Inl msg)
    with ec assms uploadFile_no_connection [of e st st0 msg "Some f" c d] that(1)
    show thesis by simp
  next
    case (Inr u)
    note ec' = ec [unfolded Inr]
    obtain st1 y where up:
      "uploadToGridFS e st0 (buffer f) (originalname f) (Some (mimetype f)) (c, d) = (st1, y)"
      by (cases "uploadToGridFS e st0 (buffer f) (originalname f) (Some (mimetype f)) (c, d)")
    show thesis
    proof (cases y)
      case (Inl msg)
      from uploadFile_blob_failure [OF ec' up [unfolded Inl]] assms
      have "st' = st1" "r = res_json 500 (error_json ''Error uploading file'' msg)" by simp_all
      with ec' up [unfolded Inl] that(2) show thesis by blast
    next
      case (Inr res)
      note up' = up [unfolded Inr]
      show thesis
      proof (cases "validate_File (new_doc e f c d (next_oid st)) = []")
        case True
        from uploadFile_saved [OF ec' up' True] assms that(4) [OF ec' up' True]
        show thesis by simp
      next
        case False
        from uploadFile_invalid [OF ec' up' False] assms that(3) [OF ec' up' False]
        show thesis by simp
      qed
    qed
  qed
qed

lemma ensureConnection_connected:
  assumes "readyState st = 1"
  shows "ensureConnection e st = (st, Inr ())"
  using assms by (simp add: ensureConnection_def)

lemma ensureConnection_connects:
  assumes "readyState st \<noteq> 1" and "MONGODB_URI e = Some uri" and "uri \<noteq> []"
    and "connect_error e = None"
  shows "ensureConnection e st
         = (st\<lparr>readyState := 1, conn_db := True, cachedConnection := True\<rparr>, Inr ())"
  using assms by (simp add: ensureConnection_def connectDB_def js_or_def)

lemma status_res_json [simp]: "status (res_json code j) = code"
  by (simp add: res_json_def)

lemma body_json_res_json [simp]: "body_json (res_json code j) = j"
  by (simp add: res_json_def body_json_def)

lemma json_get_error_json [simp]:
  "json_get ''success'' (error_json m x) = Some (JBool False)"
  "json_get ''message'' (error_json m x) = Some (JStr m)"
  "json_get ''error'' (error_json m x) = Some (JStr x)"
  by (simp_all add: json_get_def error_json_def)

lemma json_get_failure_json [simp]:
  "json_get ''success'' (failure_json m) = Some (JBool False)"
  "json_get ''message'' (failure_json m) = Some (JStr m)"
  by (simp_all add: json_get_def failure_json_def)

text \<open>The sample runs.\<close>

lemma sample_connection:
  "ensureConnection sample_env fresh_state
   = (fresh_state\<lparr>readyState := 1, conn_db := True, cachedConnection := True\<rparr>, Inr ())"
  "ensureConnection failing_env fresh_state
   = (fresh_state\<lparr>readyState := 1, conn_db := True, cachedConnection := True\<rparr>, Inr ())"
  by (rule ensureConnection_connects [where uri = "''mongodb://localhost/files''"];
      simp add: sample_env_def failing_env_def fresh_state_def)+

lemma sample_bucket:
  "gridFSBucket (getGridFSBucket
     (fresh_state\<lparr>readyState := 1, conn_db := True, cachedConnection := True\<rparr>))"
  by (simp add: getGridFSBucket_def initGridFS_def fresh_state_def)

lemma sample_png_valid:
  "validate_File (new_doc e sample_png None None n) = []"
  by (simp add: validate_File_def new_doc_def sample_png_def js_or_def trim_def is_space_def
      category_enum_def)

lemma sample_png_selfie_invalid:
  "validate_File (new_doc e sample_png (Some ''selfie'') None n) \<noteq> []"
  by (simp add: validate_File_def new_doc_def sample_png_def js_or_def trim_def is_space_def
      category_enum_def)

lemma sample_upload_stored:
  "\<exists>st1 res. uploadToGridFS sample_env
       (fresh_state\<lparr>readyState := 1, conn_db := True, cachedConnection := True\<rparr>)
       (buffer f) (originalname f) (Some (mimetype f)) (c, d) = (st1, Inr res)"
  using uploadToGridFS_stored [OF sample_bucket, of sample_env]
  by (simp add: sample_env_def)

lemma sample_upload_fails:
  "uploadToGridFS failing_env
       (fresh_state\<lparr>readyState := 1, conn_db := True, cachedConnection := True\<rparr>)
       (buffer f) (originalname f) (Some (mimetype f)) (c, d)
   = ((getGridFSBucket (fresh_state\<lparr>readyState := 1, conn_db := True, cachedConnection := True\<rparr>))
        \<lparr>next_oid := Suc (next_oid (fresh_state\<lparr>readyState := 1, conn_db := True, cachedConnection := True\<rparr>))\<rparr>,
      Inl ''write failed'')"
  by (rule uploadToGridFS_stream_error [OF sample_bucket]) (simp add: failing_env_def)

lemma sample_upload_response:
  "status (snd (uploadFile sample_env fresh_state (Some sample_png) None None)) = 201"
  "files (fst (uploadFile sample_env fresh_state (Some sample_png) None None))
   = [new_doc sample_env sample_png None None 0]"
proof -
  from sample_upload_stored [of sample_png None None] obtain st1 res where
    up: "uploadToGridFS sample_env
       (fresh_state\<lparr>readyState := 1, conn_db := True, cachedConnection := True\<rparr>)
       (buffer sample_png) (originalname sample_png) (Some (mimetype sample_png)) (None, None)
       = (st1, Inr res)" by blast
  note r = uploadFile_saved [OF sample_connection(1) up sample_png_valid]
  show "status (snd (uploadFile sample_env fresh_state (Some sample_png) None None)) = 201"
    unfolding r by simp
  show "files (fst (uploadFile sample_env fresh_state (Some sample_png) None None))
   = [new_doc sample_env sample_png None None 0]"
    unfolding r by (simp add: fresh_state_def)
qed

text \<open>
  C3.  In a single upload the GridFS write comes first.  When it fails, the response is
  500 with \<open>success: false\<close> and the store's error message under \<open>error\<close>, and neither the
  collection nor the bucket has changed.  Whenever the collection has changed, it has
  gained one document whose \<open>gridfsId\<close> names a GridFS file that holds the uploaded bytes.
  Any response other than 201 leaves the collection as it was.
\<close>

theorem blob_written_before_record:
  "(ensureConnection e st = (st0, Inr u)
      \<and> uploadToGridFS e st0 (buffer f) (originalname f) (Some (mimetype f)) (c, d) = (st1, Inl msg)
    \<longrightarrow> uploadFile e st (Some f) c d
          = (st1, res_json 500 (error_json ''Error uploading file'' msg))
        \<and> status (snd (uploadFile e st (Some f) c d)) = 500
        \<and> json_get ''success'' (body_json (snd (uploadFile e st (Some f) c d)))
            = Some (JBool False)
        \<and> json_get ''error'' (body_json (snd (uploadFile e st (Some f) c d)))
            = Some (JStr msg)
        \<and> files st1 = files st \<and> fs_files st1 = fs_files st)
   \<and> (uploadFile e st (Some f) c d = (st', r) \<and> files st' \<noteq> files st
    \<longrightarrow> (\<exists>doc g blob. files st' = files st @ [doc] \<and> gridfsId doc = Some g
          \<and> fs_files st' g = Some blob \<and> concat (fs_chunks blob) = buffer f))
   \<and> (uploadFile e st (Some f) c d = (st', r) \<and> status r \<noteq> 201 \<longrightarrow> files st' = files st)"
proof (intro conjI impI; (elim conjE)?)
  assume ec: "ensureConnection e st = (st0, Inr u)"
    and up: "uploadToGridFS e st0 (buffer f) (originalname f) (Some (mimetype f)) (c, d)
             = (st1, Inl msg)"
  note run = uploadFile_blob_failure [OF ec up]
  show "uploadFile e st (Some f) c d
        = (st1, res_json 500 (error_json ''Error uploading file'' msg))" by (rule run)
  show "status (snd (uploadFile e st (Some f) c d)) = 500" unfolding run by simp
  show "json_get ''success'' (body_json (snd (uploadFile e st (Some f) c d)))
            = Some (JBool False)" unfolding run by simp
  show "json_get ''error'' (body_json (snd (uploadFile e st (Some f) c d)))
            = Some (JStr msg)" unfolding run by simp
  from uploadToGridFS_fail [OF up] ensureConnection_keeps [OF ec]
  show "files st1 = files st" and "fs_files st1 = fs_files st" by simp_all
next
  assume run: "uploadFile e st (Some f) c d = (st', r)" and changed: "files st' \<noteq> files st"
  from run show "\<exists>doc g blob. files st' = files st @ [doc] \<and> gridfsId doc = Some g
          \<and> fs_files st' g = Some blob \<and> concat (fs_chunks blob) = buffer f"
  proof (cases rule: uploadFile_cases)
    case (no_connection st0 msg)
    with changed ensureConnection_keeps(1) [OF no_connection(1)] show ?thesis by simp
  next
    case (blob_failure st0 u st1 msg)
    with changed uploadToGridFS_fail [OF blob_failure(2)]
      ensureConnection_keeps(1) [OF blob_failure(1)] show ?thesis by simp
  next
    case (invalid st0 u st1 res)
    with changed uploadToGridFS_ok [OF invalid(2)]
      ensureConnection_keeps(1) [OF invalid(1)] show ?thesis by simp
  next
    case (saved st0 u st1 res)
    from uploadToGridFS_ok [OF saved(2)] obtain blob where
      b: "fs_files st1 = (fs_files st0)(next_oid st0 \<mapsto> blob)"
         "concat (fs_chunks blob) = buffer f" by blast
    have n: "next_oid st0 = next_oid st" using saved(1) by (rule ensureConnection_keeps)
    have "files st' = files st @ [new_doc e f c d (next_oid st)]" by (simp add: saved(4))
    moreover have "gridfsId (new_doc e f c d (next_oid st)) = Some (next_oid st)"
      by (simp add: new_doc_def)
    moreover have "fs_files st' (next_oid st) = Some blob" by (simp add: saved(4) b(1) n)
    ultimately show ?thesis using b(2) by blast
  qed
next
  assume run: "uploadFile e st (Some f) c d = (st', r)" and failed: "status r \<noteq> 201"
  from run show "files st' = files st"
  proof (cases rule: uploadFile_cases)
    case (no_connection st0 msg)
    with ensureConnection_keeps(1) [OF no_connection(1)] show ?thesis by simp
  next
    case (blob_failure st0 u st1 msg)
    with uploadToGridFS_fail [OF blob_failure(2)]
      ensureConnection_keeps(1) [OF blob_failure(1)] show ?thesis by simp
  next
    case (invalid st0 u st1 res)
    with uploadToGridFS_ok [OF invalid(2)]
      ensureConnection_keeps(1) [OF invalid(1)] show ?thesis by simp
  next
    case (saved st0 u st1 res)
    with failed show ?thesis by simp
  qed
qed

text \<open>The hypotheses of the main theorem of this section are met by the sample data.\<close>

theorem blob_written_before_record_witness:
  "(\<exists>st0 u st1 msg.
      ensureConnection failing_env fresh_state = (st0, Inr u)
      \<and> uploadToGridFS failing_env st0 (buffer sample_png) (originalname sample_png)
            (Some (mimetype sample_png)) (None, None) = (st1, Inl msg)
      \<and> uploadFile failing_env fresh_state (Some sample_png) None None
          = (st1, res_json 500 (error_json ''Error uploading file'' ''write failed''))
      \<and> json_get ''error''
           (body_json (snd (uploadFile failing_env fresh_state (Some sample_png) None None)))
          = Some (JStr ''write failed'')
      \<and> files st1 = files fresh_state \<and> fs_files st1 = fs_files fresh_state)
   \<and> (\<exists>st' r doc g blob.
        uploadFile sample_env fresh_state (Some sample_png) None None = (st', r)
        \<and> files st' \<noteq> files fresh_state
        \<and> files st' = files fresh_state @ [doc] \<and> gridfsId doc = Some g
        \<and> fs_files st' g = Some blob \<and> concat (fs_chunks blob) = buffer sample_png)
   \<and> (\<exists>st' r. uploadFile failing_env fresh_state (Some sample_png) None None = (st', r)
        \<and> status r \<noteq> 201 \<and> files st' = files fresh_state)"
proof (intro conjI)
  let ?c = "fresh_state\<lparr>readyState := 1, conn_db := True, cachedConnection := True\<rparr>"
  let ?s1 = "(getGridFSBucket ?c)\<lparr>next_oid := Suc (next_oid ?c)\<rparr>"
  note ec = sample_connection(2)
  note up = sample_upload_fails [of sample_png None None]
  note t = blob_written_before_record [of failing_env fresh_state ?c "()" sample_png None None
      ?s1 "''write failed''"]
  from t ec up
  have 1: "uploadFile failing_env fresh_state (Some sample_png) None None
          = (?s1, res_json 500 (error_json ''Error uploading file'' ''write failed''))"
    and 2: "files ?s1 = files fresh_state" and 3: "fs_files ?s1 = fs_files fresh_state"
    by simp_all
  from t ec up
  have 4: "json_get ''error''
           (body_json (snd (uploadFile failing_env fresh_state (Some sample_png) None None)))
          = Some (JStr ''write failed'')" by blast
  from ec up 1 2 3 4 show "\<exists>st0 u st1 msg.
      ensureConnection failing_env fresh_state = (st0, Inr u)
      \<and> uploadToGridFS failing_env st0 (buffer sample_png) (originalname sample_png)
            (Some (mimetype sample_png)) (None, None) = (st1, Inl msg)
      \<and> uploadFile failing_env fresh_state (Some sample_png) None None
          = (st1, res_json 500 (error_json ''Error uploading file'' ''write failed''))
      \<and> json_get ''error''
           (body_json (snd (uploadFile failing_env fresh_state (Some sample_png) None None)))
          = Some (JStr ''write failed'')
      \<and> files st1 = files fresh_state \<and> fs_files st1 = fs_files fresh_state"
    by blast
  have "status (res_json 500 (error_json ''Error uploading file'' ''write failed'')) \<noteq> 201"
    by simp
  with 1 2 show "\<exists>st' r. uploadFile failing_env fresh_state (Some sample_png) None None = (st', r)
        \<and> status r \<noteq> 201 \<and> files st' = files fresh_state"
    by blast
  obtain st' r where run: "uploadFile sample_env fresh_state (Some sample_png) None None = (st', r)"
    by (cases "uploadFile sample_env fresh_state (Some sample_png) None None")
  with sample_upload_response(2) have ch: "files st' \<noteq> files fresh_state"
    by (simp add: fresh_state_def)
  from blob_written_before_record [of sample_env fresh_state _ _ sample_png None None _ _ st' r]
    run ch
  have "\<exists>doc g blob. files st' = files fresh_state @ [doc] \<and> gridfsId doc = Some g
          \<and> fs_files st' g = Some blob \<and> concat (fs_chunks blob) = buffer sample_png"
    by blast
  with run ch show "\<exists>st' r doc g blob.
        uploadFile sample_env fresh_state (Some sample_png) None None = (st', r)
        \<and> files st' \<noteq> files fresh_state
        \<and> files st' = files fresh_state @ [doc] \<and> gridfsId doc = Some g
        \<and> fs_files st' g = Some blob \<and> concat (fs_chunks blob) = buffer sample_png"
    by blast
qed

lemma fresh_upload_saved:
  assumes "validate_File (new_doc sample_env f c d 0) = []"
  shows "status (snd (uploadFile sample_env fresh_state (Some f) c d)) = 201"
    and "files (fst (uploadFile sample_env fresh_state (Some f) c d)) = [new_doc sample_env f c d 0]"
proof -
  from sample_upload_stored [of f c d] obtain st1 res where
    up: "uploadToGridFS sample_env
       (fresh_state\<lparr>readyState := 1, conn_db := True, cachedConnection := True\<rparr>)
       (buffer f) (originalname f) (Some (mimetype f)) (c, d) = (st1, Inr res)" by blast
  have v: "validate_File (new_doc sample_env f c d (next_oid fresh_state)) = []"
    using assms by (simp add: fresh_state_def)
  note r = uploadFile_saved [OF sample_connection(1) up v]
  show "status (snd (uploadFile sample_env fresh_state (Some f) c d)) = 201"
    unfolding r by simp
  show "files (fst (uploadFile sample_env fresh_state (Some f) c d)) = [new_doc sample_env f c d 0]"
    unfolding r by (simp add: fresh_state_def)
qed

lemma fresh_upload_invalid:
  assumes "validate_File (new_doc sample_env f c d 0) \<noteq> []"
  shows "status (snd (uploadFile sample_env fresh_state (Some f) c d)) = 500"
    and "files (fst (uploadFile sample_env fresh_state (Some f) c d)) = []"
proof -
  from sample_upload_stored [of f c d] obtain st1 res where
    up: "uploadToGridFS sample_env
       (fresh_state\<lparr>readyState := 1, conn_db := True, cachedConnection := True\<rparr>)
       (buffer f) (originalname f) (Some (mimetype f)) (c, d) = (st1, Inr res)" by blast
  have v: "validate_File (new_doc sample_env f c d (next_oid fresh_state)) \<noteq> []"
    using assms by (simp add: fresh_state_def)
  note r = uploadFile_invalid [OF sample_connection(1) up v]
  have fl: "files st1 = []"
    using uploadToGridFS_ok [OF up] by (simp add: fresh_state_def)
  show "status (snd (uploadFile sample_env fresh_state (Some f) c d)) = 500"
    unfolding r by simp
  show "files (fst (uploadFile sample_env fresh_state (Some f) c d)) = []"
    unfolding r by (simp add: fl)
qed

lemma sample_png_passport_valid:
  "validate_File (new_doc e sample_png (Some ''passport'') None n) = []"
  by (simp add: validate_File_def new_doc_def sample_png_def js_or_def trim_def is_space_def
      category_enum_def)

section \<open>Size formatting\<close>

text \<open>
  C8.  The size string computed at read time: 0 bytes gives "0 Bytes", 1536 bytes give
  "1.5 KB" and 1048576 bytes give "1 MB" (units of 1024, two decimals).
\<close>

theorem formatFileSize_examples:
  "formatFileSize 0 = ''0 Bytes'' \<and> formatFileSize 1536 = ''1.5 KB''
   \<and> formatFileSize 1048576 = ''1 MB''"
  unfolding formatFileSize_def Let_def
  by (simp add: toFixed2_def hundredths_to_string_def digit_char_def log_floor.simps
      nat_to_string.simps)

section \<open>Rejection of content types\<close>

lemma str_includes_prefix: "str_includes (p @ s) p"
proof (cases "p @ s")
  case Nil
  then show ?thesis by simp
next
  case (Cons c cs)
  have "take (length p) (p @ s) = p" by simp
  with Cons show ?thesis by simp
qed

lemma fileFilter_reject:
  assumes "mimetype f \<notin> set allowedTypes"
  shows "\<exists>err. fileFilter f = Inl err \<and> err_code err = None
           \<and> err_message err = ''Invalid file type: '' @ mimetype f
                  @ ''. Allowed: images, PDF, Word, Excel, text files.''"
  using assms by (simp add: fileFilter_def)

lemma errorHandler_invalid_type:
  assumes "err_code err = None" and "err_message err = ''Invalid file type: '' @ rest"
  shows "errorHandler e err = res_json 400 (failure_json (err_message err))"
proof -
  have "str_includes (err_message err) ''Invalid file type''"
    using str_includes_prefix [of "''Invalid file type''" "'': '' @ rest"] assms(2) by simp
  moreover have "err_message err \<noteq> []" using assms(2) by simp
  ultimately show ?thesis using assms(1) by (simp add: errorHandler_def)
qed

lemma errorHandler_too_large:
  assumes "err_code err = Some ''LIMIT_FILE_SIZE''"
  shows "errorHandler e err = res_json 400 (failure_json ''File too large. Maximum size is 100MB'')"
  using assms by (simp add: errorHandler_def)

lemma rejection_cases:
  assumes "rejection err"
  obtains "err_code err = Some ''LIMIT_FILE_SIZE''"
  | rest where "err_code err = None" "err_message err = ''Invalid file type: '' @ rest"
proof -
  have "take 19 m = ''Invalid file type: '' \<Longrightarrow> m = ''Invalid file type: '' @ drop 19 m" for m :: string
    by (metis append_take_drop_id)
  with assms that show thesis by (auto simp: rejection_def)
qed

lemma rejection_400:
  assumes "rejection err"
  shows "status (errorHandler e err) = 400
         \<and> json_get ''success'' (body_json (errorHandler e err)) = Some (JBool False)"
  using assms
proof (cases rule: rejection_cases)
  case 1
  then show ?thesis
    by (simp add: errorHandler_too_large res_json_def failure_json_def body_json_def json_get_def)
next
  case (2 rest)
  then show ?thesis
    by (simp add: errorHandler_invalid_type res_json_def failure_json_def body_json_def json_get_def)
qed

lemma multer_parts_reject:
  assumes "k < length fs" and "k < n"
    and "mimetype (fs ! k) \<notin> set allowedTypes \<or> size_p (fs ! k) > fileSize_limit e"
  shows "\<exists>err. multer_parts e n fs = Inl err \<and> rejection err"
  using assms
proof (induction fs arbitrary: k n)
  case Nil
  then show ?case by simp
next
  case (Cons f fs)
  from Cons.prems(2) have n: "n \<noteq> 0" by simp
  show ?case
  proof (cases "mimetype f \<in> set allowedTypes")
    case False
    from fileFilter_reject [OF False] obtain err where
      "fileFilter f = Inl err" "err_code err = None"
      "err_message err = ''Invalid file type: '' @ mimetype f
                  @ ''. Allowed: images, PDF, Word, Excel, text files.''" by blast
    with n show ?thesis by (auto simp: rejection_def)
  next
    case True
    then have ff: "fileFilter f = Inr True" by (simp add: fileFilter_def)
    show ?thesis
    proof (cases "size_p f > fileSize_limit e")
      case True
      with n ff show ?thesis by (simp add: rejection_def)
    next
      case False
      with \<open>mimetype f \<in> set allowedTypes\<close> Cons.prems(3) obtain j where k: "k = Suc j"
        by (cases k) auto
      with Cons.prems have "j < length fs" "j < n - 1"
        "mimetype (fs ! j) \<notin> set allowedTypes \<or> size_p (fs ! j) > fileSize_limit e"
        by simp_all
      from Cons.IH [OF this] obtain err where
        "multer_parts e (n - 1) fs = Inl err" "rejection err" by blast
      with n False show ?thesis using ff by (auto simp: rejection_def)
    qed
  qed
qed

lemma multer_parts_too_many:
  assumes "n < length fs"
    and "\<forall>f \<in> set (take n fs). mimetype f \<in> set allowedTypes \<and> size_p f \<le> fileSize_limit e"
  shows "multer_parts e n fs
         = Inl \<lparr>err_name = ''MulterError'', err_code = Some ''LIMIT_FILE_COUNT'',
                err_message = ''Too many files''\<rparr>"
  using assms
proof (induction fs arbitrary: n)
  case Nil
  then show ?case by simp
next
  case (Cons f fs)
  show ?case
  proof (cases n)
    case 0
    then show ?thesis by simp
  next
    case (Suc m)
    with Cons.prems have f: "mimetype f \<in> set allowedTypes" "size_p f \<le> fileSize_limit e"
      and m: "m < length fs"
      and rest: "\<forall>f \<in> set (take m fs). mimetype f \<in> set allowedTypes \<and> size_p f \<le> fileSize_limit e"
      by simp_all
    from Cons.IH [OF m rest] f Suc show ?thesis by (simp add: fileFilter_def)
  qed
qed

lemma multer_parts_accept:
  assumes "length fs \<le> n"
    and "\<forall>f \<in> set fs. mimetype f \<in> set allowedTypes \<and> size_p f \<le> fileSize_limit e"
  shows "multer_parts e n fs = Inr fs"
  using assms
proof (induction fs arbitrary: n)
  case Nil
  then show ?case by simp
next
  case (Cons f fs)
  from Cons.prems have n: "n \<noteq> 0" and l: "length fs \<le> n - 1"
    and f: "mimetype f \<in> set allowedTypes" "size_p f \<le> fileSize_limit e"
    and rest: "\<forall>f \<in> set fs. mimetype f \<in> set allowedTypes \<and> size_p f \<le> fileSize_limit e"
    by auto
  from Cons.IH [OF l rest] n f show ?case by (simp add: fileFilter_def)
qed

lemma errorHandler_too_many:
  "errorHandler e \<lparr>err_name = ''MulterError'', err_code = Some ''LIMIT_FILE_COUNT'',
                    err_message = ''Too many files''\<rparr>
   = res_json 500 (failure_json
       (if NODE_ENV e = Some ''production'' then ''Internal server error''
        else ''Too many files''))"
  by (simp add: errorHandler_def)

lemma sample_png_passes:
  "mimetype sample_png \<in> set allowedTypes \<and> size_p sample_png \<le> fileSize_limit sample_env"
  by (simp add: sample_png_def allowedTypes_def fileSize_limit_def sample_env_def)

text \<open>
  C9 (as the code has it).  An upload whose declared content type is not in the allowed
  set is answered with status 400 and \<open>success: false\<close> when its file is among the first
  ten files of the request, and the state is the one before the request: no document and
  no GridFS file is created.  On the single-upload route the message is the filter's; on
  the multi-upload route one disallowed part among the first ten rejects the whole
  request.  A request with more than ten files whose first ten pass the type and size
  checks is answered with status 500 and the message of the file-count limit, whatever
  the content types of the later files, and the state is again the one before the
  request.
\<close>

theorem disallowed_type_rejected:
  "(mimetype f \<notin> set allowedTypes \<longrightarrow>
      router e st (PostUpload (Some f) c d) =
        (st, res_json 400 (failure_json (''Invalid file type: '' @ mimetype f
               @ ''. Allowed: images, PDF, Word, Excel, text files.'')))
      \<and> status (snd (router e st (PostUpload (Some f) c d))) = 400
      \<and> json_get ''success'' (body_json (snd (router e st (PostUpload (Some f) c d))))
          = Some (JBool False))
   \<and> (k < length parts \<and> k < files_limit \<and> mimetype (parts ! k) \<notin> set allowedTypes \<longrightarrow>
        fst (router e st (PostUploadMultiple parts c d)) = st
        \<and> status (snd (router e st (PostUploadMultiple parts c d))) = 400
        \<and> json_get ''success'' (body_json (snd (router e st (PostUploadMultiple parts c d))))
            = Some (JBool False))
   \<and> (files_limit < length parts
       \<and> (\<forall>f \<in> set (take files_limit parts).
             mimetype f \<in> set allowedTypes \<and> size_p f \<le> fileSize_limit e) \<longrightarrow>
        fst (router e st (PostUploadMultiple parts c d)) = st
        \<and> status (snd (router e st (PostUploadMultiple parts c d))) = 500
        \<and> json_get ''success'' (body_json (snd (router e st (PostUploadMultiple parts c d))))
            = Some (JBool False)
        \<and> json_get ''message'' (body_json (snd (router e st (PostUploadMultiple parts c d))))
            = Some (JStr (if NODE_ENV e = Some ''production'' then ''Internal server error''
                          else ''Too many files'')))"
proof (intro conjI impI; (elim conjE)?)
  assume bad: "mimetype f \<notin> set allowedTypes"
  from fileFilter_reject [OF bad] obtain err where
    err: "fileFilter f = Inl err" "err_code err = None"
      "err_message err = ''Invalid file type: '' @ mimetype f
                  @ ''. Allowed: images, PDF, Word, Excel, text files.''" by blast
  from err(2,3) have "errorHandler e err = res_json 400 (failure_json (err_message err))"
    by (rule errorHandler_invalid_type)
  with err have r: "router e st (PostUpload (Some f) c d) =
        (st, res_json 400 (failure_json (''Invalid file type: '' @ mimetype f
               @ ''. Allowed: images, PDF, Word, Excel, text files.'')))"
    by (simp add: opt_list_def files_limit_def)
  show "router e st (PostUpload (Some f) c d) =
        (st, res_json 400 (failure_json (''Invalid file type: '' @ mimetype f
               @ ''. Allowed: images, PDF, Word, Excel, text files.'')))" by (rule r)
  show "status (snd (router e st (PostUpload (Some f) c d))) = 400" unfolding r by simp
  show "json_get ''success'' (body_json (snd (router e st (PostUpload (Some f) c d))))
          = Some (JBool False)" unfolding r by simp
next
  assume k: "k < length parts" "k < files_limit"
    and bad: "mimetype (parts ! k) \<notin> set allowedTypes"
  from bad have "mimetype (parts ! k) \<notin> set allowedTypes
      \<or> size_p (parts ! k) > fileSize_limit e" by simp
  from multer_parts_reject [OF k this] obtain err where
    err: "multer_parts e files_limit parts = Inl err" "rejection err" by blast
  then have r: "router e st (PostUploadMultiple parts c d) = (st, errorHandler e err)" by simp
  show "fst (router e st (PostUploadMultiple parts c d)) = st" unfolding r by simp
  show "status (snd (router e st (PostUploadMultiple parts c d))) = 400"
    unfolding r using rejection_400 [OF err(2), of e] by simp
  show "json_get ''success'' (body_json (snd (router e st (PostUploadMultiple parts c d))))
            = Some (JBool False)"
    unfolding r using rejection_400 [OF err(2), of e] by simp
next
  assume "files_limit < length parts"
    and "\<forall>f \<in> set (take files_limit parts).
             mimetype f \<in> set allowedTypes \<and> size_p f \<le> fileSize_limit e"
  from multer_parts_too_many [OF this]
  have r: "router e st (PostUploadMultiple parts c d)
    = (st, res_json 500 (failure_json
         (if NODE_ENV e = Some ''production'' then ''Internal server error''
          else ''Too many files'')))"
    by (simp add: errorHandler_too_many)
  show "fst (router e st (PostUploadMultiple parts c d)) = st" unfolding r by simp
  show "status (snd (router e st (PostUploadMultiple parts c d))) = 500" unfolding r by simp
  show "json_get ''success'' (body_json (snd (router e st (PostUploadMultiple parts c d))))
            = Some (JBool False)" unfolding r by simp
  show "json_get ''message'' (body_json (snd (router e st (PostUploadMultiple parts c d))))
            = Some (JStr (if NODE_ENV e = Some ''production'' then ''Internal server error''
                          else ''Too many files''))" unfolding r by simp
qed

lemma eleven_parts:
  "files_limit < length (replicate 10 sample_png @ [sample_exe])"
  "\<forall>f \<in> set (take files_limit (replicate 10 sample_png @ [sample_exe])).
      mimetype f \<in> set allowedTypes \<and> size_p f \<le> fileSize_limit sample_env"
  "(replicate 10 sample_png @ [sample_exe]) ! 10 = sample_exe"
  using sample_png_passes by (simp_all add: files_limit_def nth_append)

text \<open>
  A multi-upload of ten allowed files and an executable as the eleventh: the request is
  answered 500, not 400.
\<close>

theorem too_many_files_counterexample:
  "mimetype ((replicate 10 sample_png @ [sample_exe]) ! 10) \<notin> set allowedTypes
   \<and> status (snd (router sample_env fresh_state
        (PostUploadMultiple (replicate 10 sample_png @ [sample_exe]) None None))) = 500
   \<and> json_get ''message'' (body_json (snd (router sample_env fresh_state
        (PostUploadMultiple (replicate 10 sample_png @ [sample_exe]) None None))))
      = Some (JStr ''Too many files'')"
proof -
  from multer_parts_too_many [OF eleven_parts(1,2)]
  have r: "router sample_env fresh_state
        (PostUploadMultiple (replicate 10 sample_png @ [sample_exe]) None None)
    = (fresh_state, res_json 500 (failure_json ''Too many files''))"
    by (simp add: errorHandler_too_many sample_env_def)
  have "mimetype ((replicate 10 sample_png @ [sample_exe]) ! 10) \<notin> set allowedTypes"
    unfolding eleven_parts(3) by (simp add: sample_exe_def allowedTypes_def)
  then show ?thesis unfolding r by simp
qed

text \<open>The hypotheses of the main theorem of this section are met by the sample data.\<close>

theorem disallowed_type_rejected_witness:
  "mimetype sample_exe \<notin> set allowedTypes
   \<and> router sample_env fresh_state (PostUpload (Some sample_exe) None None) =
        (fresh_state, res_json 400 (failure_json
           ''Invalid file type: application/x-executable. Allowed: images, PDF, Word, Excel, text files.''))
   \<and> (1 :: nat) < length [sample_png, sample_exe] \<and> 1 < files_limit
   \<and> mimetype ([sample_png, sample_exe] ! 1) \<notin> set allowedTypes
   \<and> fst (router sample_env fresh_state (PostUploadMultiple [sample_png, sample_exe] None None))
       = fresh_state
   \<and> status (snd (router sample_env fresh_state
         (PostUploadMultiple [sample_png, sample_exe] None None))) = 400
   \<and> files_limit < length (replicate 10 sample_png @ [sample_exe])
   \<and> fst (router sample_env fresh_state
         (PostUploadMultiple (replicate 10 sample_png @ [sample_exe]) None None)) = fresh_state
   \<and> status (snd (router sample_env fresh_state
         (PostUploadMultiple (replicate 10 sample_png @ [sample_exe]) None None))) = 500"
proof -
  have bad: "mimetype sample_exe \<notin> set allowedTypes"
    by (simp add: sample_exe_def allowedTypes_def)
  have k: "(1 :: nat) < length [sample_png, sample_exe]" "1 < files_limit"
    "mimetype ([sample_png, sample_exe] ! 1) \<notin> set allowedTypes"
    using bad by (simp_all add: files_limit_def)
  have m: "mimetype sample_exe = ''application/x-executable''"
    by (simp add: sample_exe_def)
  from disallowed_type_rejected [of sample_exe sample_env fresh_state None None
      1 "[sample_png, sample_exe]"] bad m
  have 1: "router sample_env fresh_state (PostUpload (Some sample_exe) None None) =
        (fresh_state, res_json 400 (failure_json
           ''Invalid file type: application/x-executable. Allowed: images, PDF, Word, Excel, text files.''))"
    by simp
  from disallowed_type_rejected [of sample_exe sample_env fresh_state None None
      1 "[sample_png, sample_exe]"] k
  have 2: "fst (router sample_env fresh_state (PostUploadMultiple [sample_png, sample_exe] None None))
       = fresh_state"
    "status (snd (router sample_env fresh_state
         (PostUploadMultiple [sample_png, sample_exe] None None))) = 400"
    by blast+
  from disallowed_type_rejected [of sample_exe sample_env fresh_state None None
      1 "replicate 10 sample_png @ [sample_exe]"] eleven_parts(1,2)
  have 3: "fst (router sample_env fresh_state
         (PostUploadMultiple (replicate 10 sample_png @ [sample_exe]) None None)) = fresh_state"
    "status (snd (router sample_env fresh_state
         (PostUploadMultiple (replicate 10 sample_png @ [sample_exe]) None None))) = 500"
    by blast+
  from bad k 1 2 3 eleven_parts(1) show ?thesis by blast
qed

section \<open>Delete\<close>

lemma File_findById_files:
  assumes "files st' = files st"
  shows "File_findById st' i = File_findById st i"
  using assms by (simp add: File_findById_def)

lemma deleteFromGridFS_missing:
  assumes "fs_files st g = None"
  shows "\<exists>msg. deleteFromGridFS e st g = (getGridFSBucket st, Inl msg)"
  using assms
  by (simp add: deleteFromGridFS_def bucket_delete_def Let_def getGridFSBucket_keeps
      split: option.splits)

lemma deleteFromGridFS_present:
  assumes "fs_files st g = Some blob" and "gridFSBucket st" and "stream_error e = None"
  shows "deleteFromGridFS e st g = (st\<lparr>fs_files := (fs_files st)(g := None)\<rparr>, Inr ())"
  using assms
  by (simp add: deleteFromGridFS_def bucket_delete_def Let_def getGridFSBucket_def)

lemma find_filter_none: "find P (filter (\<lambda>x. \<not> P x) xs) = None"
  by (induction xs) simp_all

text \<open>
  C2 (as the code has it).  When the document exists and the GridFS file it names is
  missing, the bucket's delete fails: the response is 500 "Error deleting file" and the
  document stays.  When the GridFS file is there and the store is healthy, both are
  removed and the response is 200.
\<close>

theorem delete_fails_when_blob_missing:
  "(File_findById st i = Some doc \<and> gridfsId doc = Some g \<and> fs_files st g = None
      \<and> deleteFile e st i = (st', r)
    \<longrightarrow> status r = 500
        \<and> json_get ''success'' (body_json r) = Some (JBool False)
        \<and> json_get ''message'' (body_json r) = Some (JStr ''Error deleting file'')
        \<and> files st' = files st \<and> File_findById st' i = Some doc)
   \<and> (File_findById st i = Some doc \<and> gridfsId doc = Some g \<and> fs_files st g = Some blob
      \<and> readyState st = 1 \<and> gridFSBucket st \<and> stream_error e = None
      \<and> deleteFile e st i = (st', r)
    \<longrightarrow> status r = 200 \<and> json_get ''success'' (body_json r) = Some (JBool True)
        \<and> File_findById st' i = None \<and> fs_files st' g = None)"
proof (intro conjI impI; (elim conjE)?)
  assume f: "File_findById st i = Some doc" and g: "gridfsId doc = Some g"
    and missing: "fs_files st g = None" and run: "deleteFile e st i = (st', r)"
  obtain st0 x where ec: "ensureConnection e st = (st0, x)"
    by (cases "ensureConnection e st")
  note keep = ensureConnection_keeps [OF ec]
  have "status r = 500
        \<and> json_get ''success'' (body_json r) = Some (JBool False)
        \<and> json_get ''message'' (body_json r) = Some (JStr ''Error deleting file'')
        \<and> files st' = files st"
  proof (cases x)
    case (Inl msg)
    with ec run keep show ?thesis by (auto simp: deleteFile_def)
  next
    case (Inr u)
    have f0: "File_findById st0 i = Some doc"
      using f File_findById_files [OF keep(1)] by simp
    from missing keep(2) have "fs_files st0 g = None" by simp
    from deleteFromGridFS_missing [OF this, of e] obtain msg where
      d: "deleteFromGridFS e st0 g = (getGridFSBucket st0, Inl msg)" by blast
    from run ec Inr f0 g d
    have "st' = getGridFSBucket st0"
      "r = res_json 500 (error_json ''Error deleting file'' msg)"
      by (simp_all add: deleteFile_def)
    with keep show ?thesis by (simp add: getGridFSBucket_keeps)
  qed
  then show "status r = 500"
    and "json_get ''success'' (body_json r) = Some (JBool False)"
    and "json_get ''message'' (body_json r) = Some (JStr ''Error deleting file'')"
    and fl: "files st' = files st" by simp_all
  from f File_findById_files [OF fl] show "File_findById st' i = Some doc" by simp
next
  assume f: "File_findById st i = Some doc" and g: "gridfsId doc = Some g"
    and present: "fs_files st g = Some blob" and ready: "readyState st = 1"
    and bucket: "gridFSBucket st" and healthy: "stream_error e = None"
    and run: "deleteFile e st i = (st', r)"
  note ec = ensureConnection_connected [OF ready, of e]
  note d = deleteFromGridFS_present [OF present bucket healthy]
  from run ec f g d
  have st': "st' = File_findByIdAndDelete (st\<lparr>fs_files := (fs_files st)(g := None)\<rparr>) i"
    and r: "r = res_json 200 (JObj [(''success'', JBool True),
                                    (''message'', JStr ''File deleted successfully'')])"
    by (simp_all add: deleteFile_def)
  from r show "status r = 200" by simp
  from r show "json_get ''success'' (body_json r) = Some (JBool True)"
    by (simp add: json_get_def)
  from st' show "File_findById st' i = None"
    using find_filter_none [of "\<lambda>d. doc_id d = i"]
    by (simp add: File_findById_def File_findByIdAndDelete_def)
  from st' show "fs_files st' g = None"
    by (simp add: File_findByIdAndDelete_def)
qed

lemma dangling_find:
  "File_findById dangling_state 1 = Some (new_doc sample_env sample_png None None 0)"
  by (simp add: File_findById_def dangling_state_def new_doc_def)

text \<open>
  Deleting a document whose GridFS file is gone is answered 500, and the document stays.
\<close>

theorem missing_blob_delete_counterexample:
  "File_findById dangling_state 1 = Some (new_doc sample_env sample_png None None 0)
   \<and> gridfsId (new_doc sample_env sample_png None None 0) = Some 0
   \<and> fs_files dangling_state 0 = None
   \<and> status (snd (deleteFile sample_env dangling_state 1)) = 500
   \<and> File_findById (fst (deleteFile sample_env dangling_state 1)) 1
       = Some (new_doc sample_env sample_png None None 0)"
proof -
  have ec: "ensureConnection sample_env dangling_state = (dangling_state, Inr ())"
    by (rule ensureConnection_connected) (simp add: dangling_state_def)
  have m: "fs_files dangling_state 0 = None" by (simp add: dangling_state_def)
  from deleteFromGridFS_missing [OF m, of sample_env] obtain msg where
    d: "deleteFromGridFS sample_env dangling_state 0 = (getGridFSBucket dangling_state, Inl msg)"
    by blast
  have g: "gridfsId (new_doc sample_env sample_png None None 0) = Some 0"
    by (simp add: new_doc_def)
  have run: "deleteFile sample_env dangling_state 1
    = (getGridFSBucket dangling_state, res_json 500 (error_json ''Error deleting file'' msg))"
    using ec dangling_find g d by (simp add: deleteFile_def)
  have "File_findById (getGridFSBucket dangling_state) 1
       = Some (new_doc sample_env sample_png None None 0)"
    using File_findById_files [of "getGridFSBucket dangling_state" dangling_state 1] dangling_find
    by (simp add: getGridFSBucket_keeps)
  with run g m dangling_find show ?thesis by simp
qed

text \<open>The hypotheses of the main theorem of this section are met by the sample data.\<close>

theorem delete_fails_when_blob_missing_witness:
  "(\<exists>st' r. File_findById dangling_state 1 = Some (new_doc sample_env sample_png None None 0)
      \<and> gridfsId (new_doc sample_env sample_png None None 0) = Some 0
      \<and> fs_files dangling_state 0 = None
      \<and> deleteFile sample_env dangling_state 1 = (st', r)
      \<and> status r = 500 \<and> files st' = files dangling_state)
   \<and> (\<exists>blob st' r.
        File_findById (dangling_state\<lparr>fs_files := [0 \<mapsto> blob]\<rparr>) 1
          = Some (new_doc sample_env sample_png None None 0)
      \<and> fs_files (dangling_state\<lparr>fs_files := [0 \<mapsto> blob]\<rparr>) 0 = Some blob
      \<and> readyState (dangling_state\<lparr>fs_files := [0 \<mapsto> blob]\<rparr>) = 1
      \<and> gridFSBucket (dangling_state\<lparr>fs_files := [0 \<mapsto> blob]\<rparr>)
      \<and> stream_error sample_env = None
      \<and> deleteFile sample_env (dangling_state\<lparr>fs_files := [0 \<mapsto> blob]\<rparr>) 1 = (st', r)
      \<and> status r = 200 \<and> File_findById st' 1 = None \<and> fs_files st' 0 = None)"
proof (intro conjI)
  have g: "gridfsId (new_doc sample_env sample_png None None 0) = Some 0"
    by (simp add: new_doc_def)
  have m: "fs_files dangling_state 0 = None" by (simp add: dangling_state_def)
  obtain st' r where run: "deleteFile sample_env dangling_state 1 = (st', r)"
    by (cases "deleteFile sample_env dangling_state 1")
  from delete_fails_when_blob_missing [of dangling_state 1 _ 0 sample_env st' r]
    dangling_find g m run
  have "status r = 500 \<and> files st' = files dangling_state" by simp
  with dangling_find g m run
  show "\<exists>st' r. File_findById dangling_state 1 = Some (new_doc sample_env sample_png None None 0)
      \<and> gridfsId (new_doc sample_env sample_png None None 0) = Some 0
      \<and> fs_files dangling_state 0 = None
      \<and> deleteFile sample_env dangling_state 1 = (st', r)
      \<and> status r = 500 \<and> files st' = files dangling_state" by blast
next
  define blob :: gridfs_file where "blob = \<lparr>fs_filename = ''id.png'', fs_contentType = ''image/png'',
    fs_meta_category = None, fs_meta_description = None, fs_chunks = [[137, 80, 78]]\<rparr>"
  let ?s = "dangling_state\<lparr>fs_files := [0 \<mapsto> blob]\<rparr>"
  have g: "gridfsId (new_doc sample_env sample_png None None 0) = Some 0"
    by (simp add: new_doc_def)
  have f: "File_findById ?s 1 = Some (new_doc sample_env sample_png None None 0)"
    using File_findById_files [of ?s dangling_state 1] dangling_find by simp
  have p: "fs_files ?s 0 = Some blob" by simp
  have rd: "readyState ?s = 1" "gridFSBucket ?s" by (simp_all add: dangling_state_def)
  have h: "stream_error sample_env = None" by (simp add: sample_env_def)
  obtain st' r where run: "deleteFile sample_env ?s 1 = (st', r)"
    by (cases "deleteFile sample_env ?s 1")
  from delete_fails_when_blob_missing [of ?s 1 _ 0 sample_env st' r blob] f g p rd h run
  have "status r = 200 \<and> File_findById st' 1 = None \<and> fs_files st' 0 = None" by simp
  with f p rd h run show "\<exists>blob st' r.
        File_findById (dangling_state\<lparr>fs_files := [0 \<mapsto> blob]\<rparr>) 1
          = Some (new_doc sample_env sample_png None None 0)
      \<and> fs_files (dangling_state\<lparr>fs_files := [0 \<mapsto> blob]\<rparr>) 0 = Some blob
      \<and> readyState (dangling_state\<lparr>fs_files := [0 \<mapsto> blob]\<rparr>) = 1
      \<and> gridFSBucket (dangling_state\<lparr>fs_files := [0 \<mapsto> blob]\<rparr>)
      \<and> stream_error sample_env = None
      \<and> deleteFile sample_env (dangling_state\<lparr>fs_files := [0 \<mapsto> blob]\<rparr>) 1 = (st', r)
      \<and> status r = 200 \<and> File_findById st' 1 = None \<and> fs_files st' 0 = None" by blast
qed

section \<open>Listing by category\<close>

lemma mset_sort_uploadDate_desc: "mset (sort_uploadDate_desc ds) = mset ds"
  by (simp add: sort_uploadDate_desc_def)

lemma latest_first_sort: "latest_first (sort_uploadDate_desc ds)"
proof -
  have "sorted (map uploadDate (sort_key uploadDate (rev ds)))" by (rule sorted_sort_key)
  then have "sorted_wrt (\<lambda>a b. uploadDate a \<le> uploadDate b) (sort_key uploadDate (rev ds))"
    by (simp add: sorted_map)
  then show ?thesis
    by (simp add: latest_first_def sort_uploadDate_desc_def sorted_wrt_rev)
qed

lemma getFilesByCategory_connected:
  assumes "ensureConnection e st = (st0, Inr u)"
  shows "getFilesByCategory e st c
    = (st0, res_json 200
        (JObj [(''success'', JBool True),
               (''category'', JStr c),
               (''count'', JNum (length (filter (\<lambda>d. category d = c) (files st)))),
               (''files'', JArr (map read_view (sort_uploadDate_desc
                   (map select_minus_gridfsId (filter (\<lambda>d. category d = c) (files st))))))]))"
proof -
  have "length (sort_uploadDate_desc xs) = length xs" for xs
    by (simp add: sort_uploadDate_desc_def)
  then show ?thesis
    using assms ensureConnection_keeps(1) [OF assms]
    by (simp add: getFilesByCategory_def File_find_def Let_def)
qed

lemma read_view_fields:
  "json_get ''id'' (read_view (select_minus_gridfsId doc)) = Some (JOid (doc_id doc))"
  "json_get ''originalName'' (read_view (select_minus_gridfsId doc)) = Some (JStr (originalName doc))"
  "json_get ''mimeType'' (read_view (select_minus_gridfsId doc)) = Some (JStr (mimeType doc))"
  "json_get ''size'' (read_view (select_minus_gridfsId doc)) = Some (JNum (size_d doc))"
  "json_get ''category'' (read_view (select_minus_gridfsId doc)) = Some (JStr (category doc))"
  "json_get ''description'' (read_view (select_minus_gridfsId doc)) = Some (JStr (description doc))"
  "json_get ''uploadDate'' (read_view (select_minus_gridfsId doc)) = Some (JDate (uploadDate doc))"
  by (simp_all add: read_view_def select_minus_gridfsId_def json_get_def)

text \<open>
  C7.  With the database connected, the listing for a category answers 200 with the
  entries of exactly the documents of that category (as a multiset), latest first, and
  their number; when no document has the category, the list is empty and the response is
  still 200 with \<open>success: true\<close>.  The entry of a document shows its identifier, name,
  content type, size, category, description and upload date.
\<close>

theorem category_listing:
  "(ensureConnection e st = (st0, Inr u)
    \<longrightarrow> (\<exists>ds. getFilesByCategory e st c
            = (st0, res_json 200
                (JObj [(''success'', JBool True),
                       (''category'', JStr c),
                       (''count'', JNum (length ds)),
                       (''files'', JArr (map read_view ds))]))
          \<and> mset ds = mset (map select_minus_gridfsId (filter (\<lambda>d. category d = c) (files st)))
          \<and> latest_first ds))
   \<and> (ensureConnection e st = (st0, Inr u) \<and> (\<forall>d \<in> set (files st). category d \<noteq> c)
    \<longrightarrow> getFilesByCategory e st c
          = (st0, res_json 200
              (JObj [(''success'', JBool True),
                     (''category'', JStr c),
                     (''count'', JNum 0),
                     (''files'', JArr [])])))
   \<and> json_get ''id'' (read_view (select_minus_gridfsId doc)) = Some (JOid (doc_id doc))
   \<and> json_get ''originalName'' (read_view (select_minus_gridfsId doc))
       = Some (JStr (originalName doc))
   \<and> json_get ''mimeType'' (read_view (select_minus_gridfsId doc)) = Some (JStr (mimeType doc))
   \<and> json_get ''size'' (read_view (select_minus_gridfsId doc)) = Some (JNum (size_d doc))
   \<and> json_get ''category'' (read_view (select_minus_gridfsId doc)) = Some (JStr (category doc))
   \<and> json_get ''description'' (read_view (select_minus_gridfsId doc))
       = Some (JStr (description doc))
   \<and> json_get ''uploadDate'' (read_view (select_minus_gridfsId doc))
       = Some (JDate (uploadDate doc))
   \<and> uploadDate (select_minus_gridfsId doc) = uploadDate doc"
proof (intro conjI impI; (elim conjE)?)
  assume ec: "ensureConnection e st = (st0, Inr u)"
  let ?ds = "sort_uploadDate_desc (map select_minus_gridfsId (filter (\<lambda>d. category d = c) (files st)))"
  have "length ?ds = length (filter (\<lambda>d. category d = c) (files st))"
    by (simp add: sort_uploadDate_desc_def)
  with getFilesByCategory_connected [OF ec, of c]
  have "getFilesByCategory e st c
            = (st0, res_json 200
                (JObj [(''success'', JBool True),
                       (''category'', JStr c),
                       (''count'', JNum (length ?ds)),
                       (''files'', JArr (map read_view ?ds))]))" by simp
  moreover have "mset ?ds = mset (map select_minus_gridfsId (filter (\<lambda>d. category d = c) (files st)))"
    by (rule mset_sort_uploadDate_desc)
  moreover have "latest_first ?ds" by (rule latest_first_sort)
  ultimately show "\<exists>ds. getFilesByCategory e st c
            = (st0, res_json 200
                (JObj [(''success'', JBool True),
                       (''category'', JStr c),
                       (''count'', JNum (length ds)),
                       (''files'', JArr (map read_view ds))]))
          \<and> mset ds = mset (map select_minus_gridfsId (filter (\<lambda>d. category d = c) (files st)))
          \<and> latest_first ds" by blast
next
  assume ec: "ensureConnection e st = (st0, Inr u)"
    and none: "\<forall>d \<in> set (files st). category d \<noteq> c"
  from none have "filter (\<lambda>d. category d = c) (files st) = []"
    by (simp add: filter_empty_conv)
  with getFilesByCategory_connected [OF ec, of c]
  show "getFilesByCategory e st c
          = (st0, res_json 200
              (JObj [(''success'', JBool True),
                     (''category'', JStr c),
                     (''count'', JNum 0),
                     (''files'', JArr [])]))"
    by (simp add: sort_uploadDate_desc_def)
next
  show "json_get ''id'' (read_view (select_minus_gridfsId doc)) = Some (JOid (doc_id doc))"
    by (rule read_view_fields)
  show "json_get ''originalName'' (read_view (select_minus_gridfsId doc))
       = Some (JStr (originalName doc))" by (rule read_view_fields)
  show "json_get ''mimeType'' (read_view (select_minus_gridfsId doc)) = Some (JStr (mimeType doc))"
    by (rule read_view_fields)
  show "json_get ''size'' (read_view (select_minus_gridfsId doc)) = Some (JNum (size_d doc))"
    by (rule read_view_fields)
  show "json_get ''category'' (read_view (select_minus_gridfsId doc)) = Some (JStr (category doc))"
    by (rule read_view_fields)
  show "json_get ''description'' (read_view (select_minus_gridfsId doc))
       = Some (JStr (description doc))" by (rule read_view_fields)
  show "json_get ''uploadDate'' (read_view (select_minus_gridfsId doc))
       = Some (JDate (uploadDate doc))" by (rule read_view_fields)
  show "uploadDate (select_minus_gridfsId doc) = uploadDate doc"
    by (simp add: select_minus_gridfsId_def)
qed

lemma three_docs_connected:
  "ensureConnection e three_docs_state = (three_docs_state, Inr ())"
  by (rule ensureConnection_connected) (simp add: three_docs_state_def)

text \<open>The hypotheses of the main theorem of this section are met by the sample data.\<close>

theorem category_listing_witness:
  "ensureConnection sample_env three_docs_state = (three_docs_state, Inr ())
   \<and> (\<exists>ds. getFilesByCategory sample_env three_docs_state ''passport''
            = (three_docs_state, res_json 200
                (JObj [(''success'', JBool True),
                       (''category'', JStr ''passport''),
                       (''count'', JNum (length ds)),
                       (''files'', JArr (map read_view ds))]))
          \<and> mset ds = mset (map select_minus_gridfsId
                (filter (\<lambda>d. category d = ''passport'') (files three_docs_state)))
          \<and> latest_first ds)
   \<and> \<not> (\<exists>d \<in> set (files three_docs_state). category d = ''bank_statement'')
   \<and> getFilesByCategory sample_env three_docs_state ''bank_statement''
          = (three_docs_state, res_json 200
              (JObj [(''success'', JBool True),
                     (''category'', JStr ''bank_statement''),
                     (''count'', JNum 0),
                     (''files'', JArr [])]))
   \<and> json_get ''id'' (read_view (select_minus_gridfsId
        (new_doc sample_env sample_png (Some ''passport'') None 4))) = Some (JOid 5)
   \<and> json_get ''category'' (read_view (select_minus_gridfsId
        (new_doc sample_env sample_png (Some ''passport'') None 4))) = Some (JStr ''passport'')"
proof -
  note ec = three_docs_connected [of sample_env]
  let ?doc = "new_doc sample_env sample_png (Some ''passport'') None 4"
  have none: "\<forall>d \<in> set (files three_docs_state). category d \<noteq> ''bank_statement''"
    by (simp add: three_docs_state_def new_doc_def js_or_def)
  note t1 = category_listing [of sample_env three_docs_state three_docs_state "()" "''passport''"
      ?doc]
  from t1 ec
  have 1: "\<exists>ds. getFilesByCategory sample_env three_docs_state ''passport''
            = (three_docs_state, res_json 200
                (JObj [(''success'', JBool True),
                       (''category'', JStr ''passport''),
                       (''count'', JNum (length ds)),
                       (''files'', JArr (map read_view ds))]))
          \<and> mset ds = mset (map select_minus_gridfsId
                (filter (\<lambda>d. category d = ''passport'') (files three_docs_state)))
          \<and> latest_first ds" by blast
  from category_listing [of sample_env three_docs_state three_docs_state "()" "''bank_statement''"]
    ec none
  have 2: "getFilesByCategory sample_env three_docs_state ''bank_statement''
          = (three_docs_state, res_json 200
              (JObj [(''success'', JBool True),
                     (''category'', JStr ''bank_statement''),
                     (''count'', JNum 0),
                     (''files'', JArr [])]))" by blast
  from none have 3: "\<not> (\<exists>d \<in> set (files three_docs_state). category d = ''bank_statement'')"
    by blast
  from t1 have "json_get ''id'' (read_view (select_minus_gridfsId ?doc)) = Some (JOid (doc_id ?doc))"
    and "json_get ''category'' (read_view (select_minus_gridfsId ?doc))
         = Some (JStr (category ?doc))" by blast+
  then have 4: "json_get ''id'' (read_view (select_minus_gridfsId ?doc)) = Some (JOid 5)"
    and 5: "json_get ''category'' (read_view (select_minus_gridfsId ?doc)) = Some (JStr ''passport'')"
    by (simp_all add: new_doc_def js_or_def)
  from ec 1 2 3 4 5 show ?thesis by blast
qed

lemma three_docs_passports:
  "map doc_id (sort_uploadDate_desc (map select_minus_gridfsId
     (filter (\<lambda>d. category d = ''passport'') (files three_docs_state)))) = [5, 1]"
  by (simp add: three_docs_state_def new_doc_def js_or_def sort_uploadDate_desc_def
      select_minus_gridfsId_def)

section \<open>Multi-upload\<close>

text \<open>The three ways through one turn of the loop.\<close>

lemma process_file_blob_failure:
  assumes "uploadToGridFS e st (buffer f) (originalname f) (Some (mimetype f)) (c, None) = (st1, Inl msg)"
  shows "process_file e st c d f = (st1, Inl (error_entry f msg))"
  using assms by (simp add: process_file_def error_entry_def)

lemma process_file_invalid:
  assumes "uploadToGridFS e st (buffer f) (originalname f) (Some (mimetype f)) (c, None) = (st1, Inr res)"
    and "validate_File (new_doc e f c d (next_oid st)) \<noteq> []"
  shows "process_file e st c d f
         = (st1\<lparr>next_oid := Suc (Suc (next_oid st))\<rparr>,
            Inl (error_entry f (validation_message (validate_File (new_doc e f c d (next_oid st))))))"
  using assms(1) File_save_invalid [OF assms(2)]
  by (simp add: process_file_def new_File_after_put [OF assms(1)] error_entry_def)

lemma process_file_saved:
  assumes "uploadToGridFS e st (buffer f) (originalname f) (Some (mimetype f)) (c, None) = (st1, Inr res)"
    and "validate_File (new_doc e f c d (next_oid st)) = []"
  shows "process_file e st c d f
         = (st1\<lparr>next_oid := Suc (Suc (next_oid st)),
                 files := files st @ [new_doc e f c d (next_oid st)]\<rparr>,
            Inr (multi_view (new_doc e f c d (next_oid st))))"
proof -
  have fl: "files st1 = files st" using uploadToGridFS_ok [OF assms(1)] by simp
  show ?thesis
    using assms(1) File_save_valid [OF assms(2)]
    by (simp add: process_file_def new_File_after_put [OF assms(1)] fl)
qed

lemma process_file_cases [case_names blob_failure invalid saved]:
  obtains
    st1 msg where
      "uploadToGridFS e st (buffer f) (originalname f) (Some (mimetype f)) (c, None) = (st1, Inl msg)"
      "process_file e st c d f = (st1, Inl (error_entry f msg))"
  | st1 res where
      "uploadToGridFS e st (buffer f) (originalname f) (Some (mimetype f)) (c, None) = (st1, Inr res)"
      "validate_File (new_doc e f c d (next_oid st)) \<noteq> []"
      "process_file e st c d f
         = (st1\<lparr>next_oid := Suc (Suc (next_oid st))\<rparr>,
            Inl (error_entry f (validation_message (validate_File (new_doc e f c d (next_oid st))))))"
  | st1 res where
      "uploadToGridFS e st (buffer f) (originalname f) (Some (mimetype f)) (c, None) = (st1, Inr res)"
      "validate_File (new_doc e f c d (next_oid st)) = []"
      "process_file e st c d f
         = (st1\<lparr>next_oid := Suc (Suc (next_oid st)),
                 files := files st @ [new_doc e f c d (next_oid st)]\<rparr>,
            Inr (multi_view (new_doc e f c d (next_oid st))))"
proof -
  obtain st1 y where up:
    "uploadToGridFS e st (buffer f) (originalname f) (Some (mimetype f)) (c, None) = (st1, y)"
    by (cases "uploadToGridFS e st (buffer f) (originalname f) (Some (mimetype f)) (c, None)")
  show thesis
  proof (cases y)
    case (Inl msg)
    from that(1) [OF up [unfolded Inl] process_file_blob_failure [OF up [unfolded Inl]]]
    show thesis .
  next
    case (Inr res)
    note up' = up [unfolded Inr]
    show thesis
    proof (cases "validate_File (new_doc e f c d (next_oid st)) = []")
      case True
      from that(3) [OF up' True process_file_saved [OF up' True]] show thesis .
    next
      case False
      from that(2) [OF up' False process_file_invalid [OF up' False]] show thesis .
    qed
  qed
qed

text \<open>The loop is the sequence of its turns: nothing ends it before the last payload.\<close>

lemma upload_loop_outcomes:
  "upload_loop e c d fs st ups errs
   = (after_payloads e c d fs st, ups @ rights (outcomes e c d fs st),
      errs @ lefts (outcomes e c d fs st))"
proof (induction fs arbitrary: st ups errs)
  case Nil
  then show ?case by simp
next
  case (Cons f fs)
  obtain st1 y where p: "process_file e st c d f = (st1, y)"
    by (cases "process_file e st c d f")
  show ?case
  proof (cases y)
    case (Inl err)
    with p Cons.IH [of st1 ups "errs @ [err]"] show ?thesis by simp
  next
    case (Inr v)
    with p Cons.IH [of st1 "ups @ [v]" errs] show ?thesis by simp
  qed
qed

lemma length_outcomes: "length (outcomes e c d fs st) = length fs"
  by (induction fs arbitrary: st) simp_all

lemma outcomes_nth:
  "k < length fs \<Longrightarrow>
   outcomes e c d fs st ! k
   = snd (process_file e (after_payloads e c d (take k fs) st) c d (fs ! k))"
proof (induction fs arbitrary: st k)
  case Nil
  then show ?case by simp
next
  case (Cons f fs)
  show ?case
  proof (cases k)
    case 0
    then show ?thesis by simp
  next
    case (Suc j)
    with Cons.prems have "j < length fs" by simp
    from Cons.IH [OF this] Suc show ?thesis by simp
  qed
qed

lemma uploadMultipleFiles_connected:
  assumes "ensureConnection e st = (st0, Inr u)" and "fs \<noteq> []"
  shows "uploadMultipleFiles e st fs c d
         = (after_payloads e c d fs st0, res_json 201 (multi_body (outcomes e c d fs st0)))"
  using assms
  by (simp add: uploadMultipleFiles_def upload_loop_outcomes multi_body_def)

lemma uploadMultipleFiles_no_files:
  assumes "ensureConnection e st = (st0, Inr u)"
  shows "uploadMultipleFiles e st [] c d = (st0, res_json 400 (failure_json ''No files uploaded''))"
  using assms by (simp add: uploadMultipleFiles_def)

lemma uploadMultipleFiles_no_connection:
  assumes "ensureConnection e st = (st0, Inl msg)"
  shows "uploadMultipleFiles e st fs c d
         = (st0, res_json 500 (error_json ''Error uploading files'' msg))"
  using assms by (simp add: uploadMultipleFiles_def)

text \<open>
  A turn of the loop and a single upload differ in the metadata sidecar of the GridFS
  file only: on a connected database they leave the same collection, and the turn fails
  exactly when the single upload is not answered with 201.
\<close>

lemma uploadToGridFS_meta:
  "snd (uploadToGridFS e st bs fname ct meta) = snd (uploadToGridFS e st bs fname ct meta')"
  "files (fst (uploadToGridFS e st bs fname ct meta)) = files st"
  by (simp_all add: uploadToGridFS_def bucket_put_def Let_def getGridFSBucket_keeps
      split: option.splits)

lemma process_file_as_single_upload:
  assumes "readyState st = 1"
  shows "files (fst (process_file e st c d f)) = files (fst (uploadFile e st (Some f) c d))"
    and "isl (snd (process_file e st c d f))
         \<longleftrightarrow> status (snd (uploadFile e st (Some f) c d)) \<noteq> 201"
proof -
  note ec = ensureConnection_connected [OF assms, of e]
  obtain s2 y2 where u2:
    "uploadToGridFS e st (buffer f) (originalname f) (Some (mimetype f)) (c, d) = (s2, y2)"
    by (cases "uploadToGridFS e st (buffer f) (originalname f) (Some (mimetype f)) (c, d)")
  have both: "files (fst (process_file e st c d f)) = files (fst (uploadFile e st (Some f) c d))
    \<and> (isl (snd (process_file e st c d f))
         \<longleftrightarrow> status (snd (uploadFile e st (Some f) c d)) \<noteq> 201)"
  proof (cases rule: process_file_cases [of e st f c d])
    case (blob_failure st1 msg)
    from uploadToGridFS_meta(1) [of e st "buffer f" "originalname f" "Some (mimetype f)" "(c, d)" "(c, None)"]
      blob_failure(1) u2 have y2: "y2 = Inl msg" by simp
    from uploadFile_blob_failure [OF ec u2 [unfolded y2]] blob_failure(2)
      uploadToGridFS_fail [OF blob_failure(1)] uploadToGridFS_fail [OF u2 [unfolded y2]]
    show ?thesis by simp
  next
    case (invalid st1 res)
    from uploadToGridFS_meta(1) [of e st "buffer f" "originalname f" "Some (mimetype f)" "(c, d)" "(c, None)"]
      invalid(1) u2 have y2: "y2 = Inr res" by simp
    from uploadFile_invalid [OF ec u2 [unfolded y2] invalid(2)] invalid(3)
      uploadToGridFS_ok [OF invalid(1)] uploadToGridFS_ok [OF u2 [unfolded y2]]
    show ?thesis by simp
  next
    case (saved st1 res)
    from uploadToGridFS_meta(1) [of e st "buffer f" "originalname f" "Some (mimetype f)" "(c, d)" "(c, None)"]
      saved(1) u2 have y2: "y2 = Inr res" by simp
    from uploadFile_saved [OF ec u2 [unfolded y2] saved(2)] saved(3)
    show ?thesis by simp
  qed
  from both show "files (fst (process_file e st c d f)) = files (fst (uploadFile e st (Some f) c d))"
    by simp
  from both show "isl (snd (process_file e st c d f))
         \<longleftrightarrow> status (snd (uploadFile e st (Some f) c d)) \<noteq> 201" by simp
qed

lemma process_file_outcome:
  "(\<exists>msg. snd (process_file e s c d f) = Inl (error_entry f msg)
        \<and> files (fst (process_file e s c d f)) = files s)
   \<or> (\<exists>doc. snd (process_file e s c d f) = Inr (multi_view doc)
        \<and> files (fst (process_file e s c d f)) = files s @ [doc])"
proof (cases rule: process_file_cases [of e s f c d])
  case (blob_failure st1 msg)
  with uploadToGridFS_fail [OF blob_failure(1)] show ?thesis by auto
next
  case (invalid st1 res)
  with uploadToGridFS_ok [OF invalid(1)] show ?thesis by auto
next
  case (saved st1 res)
  then show ?thesis by auto
qed

lemma json_get_multi_body:
  "json_get ''success'' (multi_body os) = Some (JBool True)"
  "json_get ''files'' (multi_body os) = Some (JArr (rights os))"
  "json_get ''errors'' (multi_body os) = (if lefts os = [] then None else Some (JArr (lefts os)))"
  by (simp_all add: multi_body_def json_get_def)

lemma entry_fields:
  "json_get ''filename'' (error_entry f m) = Some (JStr (originalname f))"
  "json_get ''error'' (error_entry f m) = Some (JStr m)"
  "json_get ''id'' (multi_view doc) = Some (JOid (doc_id doc))"
  "json_get ''originalName'' (multi_view doc) = Some (JStr (originalName doc))"
  by (simp_all add: error_entry_def multi_view_def json_get_def)

lemma offline_connection:
  "ensureConnection offline_env fresh_state = (fresh_state, Inl ''connection refused'')"
  by (simp add: ensureConnection_def connectDB_def offline_env_def sample_env_def
      fresh_state_def js_or_def)

text \<open>
  C4 (as the code has it).  A multi-upload request in which one of the first ten files
  has a disallowed content type or is above the size limit is rejected as a whole by the
  multipart layer: the answer is 400 and the state is the one before the request.  A
  request of more than ten files whose first ten pass these checks is rejected with 500,
  the state unchanged.  A request of at most ten files that all pass the checks reaches
  the controller with all of them.  When
  the connection to the database cannot be made, the controller answers 500 with the
  connection's error, and no payload is processed.  With the database connected and at
  least one payload, the controller answers 201 with the outcomes of all payloads:
  payload \<open>k\<close> is processed in the state that the first \<open>k\<close> payloads left, whatever their
  outcomes.  A turn either fails, leaving the collection as it was and giving the entry
  with the payload's original name and the error message, or appends one document and
  gives its view; it does to the collection what a single upload does.  The body lists
  the views in order under \<open>files\<close>; the failures are listed in order under \<open>errors\<close> when
  there is one, and the field is left out otherwise.
\<close>

theorem multi_upload_per_payload:
  "(j < length parts \<and> j < files_limit
       \<and> (mimetype (parts ! j) \<notin> set allowedTypes \<or> size_p (parts ! j) > fileSize_limit e)
    \<longrightarrow> fst (router e st (PostUploadMultiple parts c d)) = st
        \<and> status (snd (router e st (PostUploadMultiple parts c d))) = 400
        \<and> json_get ''success'' (body_json (snd (router e st (PostUploadMultiple parts c d))))
            = Some (JBool False))
   \<and> (files_limit < length parts
       \<and> (\<forall>p \<in> set (take files_limit parts).
             mimetype p \<in> set allowedTypes \<and> size_p p \<le> fileSize_limit e)
    \<longrightarrow> fst (router e st (PostUploadMultiple parts c d)) = st
        \<and> status (snd (router e st (PostUploadMultiple parts c d))) = 500
        \<and> json_get ''success'' (body_json (snd (router e st (PostUploadMultiple parts c d))))
            = Some (JBool False))
   \<and> (length parts \<le> files_limit
       \<and> (\<forall>p \<in> set parts. mimetype p \<in> set allowedTypes \<and> size_p p \<le> fileSize_limit e)
    \<longrightarrow> router e st (PostUploadMultiple parts c d) = uploadMultipleFiles e st parts c d)
   \<and> (ensureConnection e st = (st0, Inl m)
    \<longrightarrow> fst (uploadMultipleFiles e st fs c d) = st0
        \<and> files st0 = files st \<and> fs_files st0 = fs_files st
        \<and> status (snd (uploadMultipleFiles e st fs c d)) = 500
        \<and> json_get ''success'' (body_json (snd (uploadMultipleFiles e st fs c d)))
            = Some (JBool False)
        \<and> json_get ''error'' (body_json (snd (uploadMultipleFiles e st fs c d)))
            = Some (JStr m))
   \<and> (ensureConnection e st = (st0, Inr u) \<and> fs \<noteq> []
    \<longrightarrow> uploadMultipleFiles e st fs c d
          = (after_payloads e c d fs st0, res_json 201 (multi_body (outcomes e c d fs st0)))
        \<and> length (outcomes e c d fs st0) = length fs)
   \<and> (k < length fs
    \<longrightarrow> outcomes e c d fs st0 ! k
          = snd (process_file e (after_payloads e c d (take k fs) st0) c d (fs ! k)))
   \<and> ((\<exists>msg. snd (process_file e s c d f) = Inl (error_entry f msg)
          \<and> files (fst (process_file e s c d f)) = files s)
      \<or> (\<exists>doc. snd (process_file e s c d f) = Inr (multi_view doc)
          \<and> files (fst (process_file e s c d f)) = files s @ [doc]))
   \<and> (readyState s = 1
    \<longrightarrow> files (fst (process_file e s c d f)) = files (fst (uploadFile e s (Some f) c d))
        \<and> (isl (snd (process_file e s c d f))
            \<longleftrightarrow> status (snd (uploadFile e s (Some f) c d)) \<noteq> 201))
   \<and> json_get ''files'' (multi_body os) = Some (JArr (rights os))
   \<and> json_get ''errors'' (multi_body os)
       = (if lefts os = [] then None else Some (JArr (lefts os)))
   \<and> json_get ''filename'' (error_entry f m) = Some (JStr (originalname f))
   \<and> json_get ''error'' (error_entry f m) = Some (JStr m)
   \<and> json_get ''id'' (multi_view doc') = Some (JOid (doc_id doc'))
   \<and> json_get ''originalName'' (multi_view doc') = Some (JStr (originalName doc'))"
proof (intro conjI impI; (elim conjE)?)
  assume "j < length parts" and "j < files_limit"
    and "mimetype (parts ! j) \<notin> set allowedTypes \<or> size_p (parts ! j) > fileSize_limit e"
  from multer_parts_reject [OF this] obtain err where
    err: "multer_parts e files_limit parts = Inl err" "rejection err" by blast
  then have r: "router e st (PostUploadMultiple parts c d) = (st, errorHandler e err)" by simp
  show "fst (router e st (PostUploadMultiple parts c d)) = st" unfolding r by simp
  show "status (snd (router e st (PostUploadMultiple parts c d))) = 400"
    unfolding r using rejection_400 [OF err(2), of e] by simp
  show "json_get ''success'' (body_json (snd (router e st (PostUploadMultiple parts c d))))
            = Some (JBool False)"
    unfolding r using rejection_400 [OF err(2), of e] by simp
next
  assume "files_limit < length parts"
    and "\<forall>p \<in> set (take files_limit parts).
             mimetype p \<in> set allowedTypes \<and> size_p p \<le> fileSize_limit e"
  from multer_parts_too_many [OF this]
  have r: "router e st (PostUploadMultiple parts c d)
    = (st, res_json 500 (failure_json
         (if NODE_ENV e = Some ''production'' then ''Internal server error''
          else ''Too many files'')))"
    by (simp add: errorHandler_too_many)
  show "fst (router e st (PostUploadMultiple parts c d)) = st" unfolding r by simp
  show "status (snd (router e st (PostUploadMultiple parts c d))) = 500" unfolding r by simp
  show "json_get ''success'' (body_json (snd (router e st (PostUploadMultiple parts c d))))
            = Some (JBool False)" unfolding r by simp
next
  assume "length parts \<le> files_limit"
    and "\<forall>p \<in> set parts. mimetype p \<in> set allowedTypes \<and> size_p p \<le> fileSize_limit e"
  from multer_parts_accept [OF this]
  show "router e st (PostUploadMultiple parts c d) = uploadMultipleFiles e st parts c d"
    by simp
next
  assume ec: "ensureConnection e st = (st0, Inl m)"
  note run = uploadMultipleFiles_no_connection [OF ec, of fs c d]
  show "fst (uploadMultipleFiles e st fs c d) = st0" unfolding run by simp
  from ensureConnection_keeps [OF ec]
  show "files st0 = files st" and "fs_files st0 = fs_files st" by simp_all
  show "status (snd (uploadMultipleFiles e st fs c d)) = 500" unfolding run by simp
  show "json_get ''success'' (body_json (snd (uploadMultipleFiles e st fs c d)))
            = Some (JBool False)" unfolding run by simp
  show "json_get ''error'' (body_json (snd (uploadMultipleFiles e st fs c d)))
            = Some (JStr m)" unfolding run by simp
next
  assume "ensureConnection e st = (st0, Inr u)" and "fs \<noteq> []"
  then show "uploadMultipleFiles e st fs c d
          = (after_payloads e c d fs st0, res_json 201 (multi_body (outcomes e c d fs st0)))"
    by (rule uploadMultipleFiles_connected)
  show "length (outcomes e c d fs st0) = length fs" by (rule length_outcomes)
next
  assume "k < length fs"
  then show "outcomes e c d fs st0 ! k
          = snd (process_file e (after_payloads e c d (take k fs) st0) c d (fs ! k))"
    by (rule outcomes_nth)
next
  show "(\<exists>msg. snd (process_file e s c d f) = Inl (error_entry f msg)
          \<and> files (fst (process_file e s c d f)) = files s)
      \<or> (\<exists>doc. snd (process_file e s c d f) = Inr (multi_view doc)
          \<and> files (fst (process_file e s c d f)) = files s @ [doc])"
    by (rule process_file_outcome)
next
  assume r: "readyState s = 1"
  from process_file_as_single_upload(1) [OF r]
  show "files (fst (process_file e s c d f)) = files (fst (uploadFile e s (Some f) c d))" .
  from process_file_as_single_upload(2) [OF r]
  show "isl (snd (process_file e s c d f))
            \<longleftrightarrow> status (snd (uploadFile e s (Some f) c d)) \<noteq> 201" .
next
  show "json_get ''files'' (multi_body os) = Some (JArr (rights os))"
    by (rule json_get_multi_body)
  show "json_get ''errors'' (multi_body os)
       = (if lefts os = [] then None else Some (JArr (lefts os)))"
    by (rule json_get_multi_body)
  show "json_get ''filename'' (error_entry f m) = Some (JStr (originalname f))"
    by (rule entry_fields)
  show "json_get ''error'' (error_entry f m) = Some (JStr m)" by (rule entry_fields)
  show "json_get ''id'' (multi_view doc') = Some (JOid (doc_id doc'))" by (rule entry_fields)
  show "json_get ''originalName'' (multi_view doc') = Some (JStr (originalName doc'))"
    by (rule entry_fields)
qed

text \<open>Turns of the loop on a database that is connected and healthy.\<close>

lemma process_file_healthy:
  assumes "readyState st = 1" and "gridFSBucket st" and "stream_error e = None"
  shows "validate_File (new_doc e f c d (next_oid st)) = [] \<Longrightarrow>
           snd (process_file e st c d f) = Inr (multi_view (new_doc e f c d (next_oid st)))"
    and "validate_File (new_doc e f c d (next_oid st)) \<noteq> [] \<Longrightarrow>
           snd (process_file e st c d f)
           = Inl (error_entry f (validation_message (validate_File (new_doc e f c d (next_oid st)))))"
    and "readyState (fst (process_file e st c d f)) = 1"
    and "gridFSBucket (fst (process_file e st c d f))"
    and "next_oid (fst (process_file e st c d f)) = Suc (Suc (next_oid st))"
proof -
  have b: "gridFSBucket (getGridFSBucket st)"
    using assms(2) by (simp add: getGridFSBucket_def)
  note up = uploadToGridFS_stored [OF b assms(3), of "buffer f" "originalname f"
      "Some (mimetype f)" "(c, None)"]
  note ok = uploadToGridFS_ok [OF up]
  { assume v: "validate_File (new_doc e f c d (next_oid st)) = []"
    from process_file_saved [OF up v]
    show "snd (process_file e st c d f) = Inr (multi_view (new_doc e f c d (next_oid st)))"
      by simp }
  { assume v: "validate_File (new_doc e f c d (next_oid st)) \<noteq> []"
    from process_file_invalid [OF up v]
    show "snd (process_file e st c d f)
           = Inl (error_entry f (validation_message (validate_File (new_doc e f c d (next_oid st)))))"
      by simp }
  have "readyState (fst (process_file e st c d f)) = 1
    \<and> gridFSBucket (fst (process_file e st c d f))
    \<and> next_oid (fst (process_file e st c d f)) = Suc (Suc (next_oid st))"
  proof (cases "validate_File (new_doc e f c d (next_oid st)) = []")
    case True
    from process_file_saved [OF up True] ok assms(1) show ?thesis by simp
  next
    case False
    from process_file_invalid [OF up False] ok assms(1) show ?thesis by simp
  qed
  then show "readyState (fst (process_file e st c d f)) = 1"
    and "gridFSBucket (fst (process_file e st c d f))"
    and "next_oid (fst (process_file e st c d f)) = Suc (Suc (next_oid st))" by simp_all
qed

lemma connected_state_facts:
  "ensureConnection sample_env fresh_state = (connected_state, Inr ())"
  "ensureConnection failing_env fresh_state = (connected_state, Inr ())"
  "readyState connected_state = 1" "conn_db connected_state"
  "next_oid connected_state = 0" "files connected_state = []"
  "gridFSBucket (getGridFSBucket connected_state)"
  using sample_connection sample_bucket
  by (simp_all add: connected_state_def fresh_state_def)

lemma sample_blank_invalid:
  "validate_File (new_doc e sample_blank None None n)
   = [(''originalName'', ''File name is required'')]"
  by (simp add: validate_File_def new_doc_def sample_blank_def js_or_def trim_def is_space_def
      category_enum_def)

lemma sample_outcomes:
  "outcomes sample_env None None [sample_blank, sample_png] connected_state
   = [Inl (error_entry sample_blank ''File validation failed: originalName: File name is required''),
      Inr (multi_view (new_doc sample_env sample_png None None 2))]"
  "outcomes sample_env None None [sample_png] connected_state
   = [Inr (multi_view (new_doc sample_env sample_png None None 0))]"
proof -
  let ?g = "getGridFSBucket connected_state"
  have g: "readyState ?g = 1" "gridFSBucket ?g" "next_oid ?g = 0"
    using connected_state_facts by (simp_all add: getGridFSBucket_keeps)
  have h: "stream_error sample_env = None" by (simp add: sample_env_def)
  have same: "process_file e connected_state c d f = process_file e ?g c d f" for e c d f
    using connected_state_facts(7)
    by (simp add: process_file_def uploadToGridFS_def Let_def getGridFSBucket_def)
  let ?s1 = "fst (process_file sample_env ?g None None sample_blank)"
  have inv: "validate_File (new_doc sample_env sample_blank None None (next_oid ?g)) \<noteq> []"
    by (simp add: sample_blank_invalid)
  have o1: "snd (process_file sample_env ?g None None sample_blank)
    = Inl (error_entry sample_blank ''File validation failed: originalName: File name is required'')"
    using process_file_healthy(2) [OF g(1,2) h inv]
    by (simp add: sample_blank_invalid validation_message_def)
  note s1 = process_file_healthy(3-5) [OF g(1,2) h, of None None sample_blank]
  have v2: "validate_File (new_doc sample_env sample_png None None (next_oid ?s1)) = []"
    by (rule sample_png_valid)
  have o2: "snd (process_file sample_env ?s1 None None sample_png)
    = Inr (multi_view (new_doc sample_env sample_png None None 2))"
    using process_file_healthy(1) [OF s1(1,2) h v2] s1(3) g(3) by (simp add: numeral_2_eq_2)
  from o1 o2 show "outcomes sample_env None None [sample_blank, sample_png] connected_state
   = [Inl (error_entry sample_blank ''File validation failed: originalName: File name is required''),
      Inr (multi_view (new_doc sample_env sample_png None None 2))]"
    by (simp add: same)
  have v1: "validate_File (new_doc sample_env sample_png None None (next_oid ?g)) = []"
    by (rule sample_png_valid)
  from process_file_healthy(1) [OF g(1,2) h v1] g(3)
  show "outcomes sample_env None None [sample_png] connected_state
   = [Inr (multi_view (new_doc sample_env sample_png None None 0))]"
    by (simp add: same)
qed

lemma eleven_pngs:
  "files_limit < length (replicate 11 sample_png)"
  "\<forall>p \<in> set (take files_limit (replicate 11 sample_png)).
      mimetype p \<in> set allowedTypes \<and> size_p p \<le> fileSize_limit sample_env"
  using sample_png_passes by (simp_all add: files_limit_def)

text \<open>
  A multi-upload without failures has no \<open>errors\<close> field; a multi-upload with one
  disallowed part is rejected as a whole, and nothing is stored; a multi-upload that
  cannot connect to the database is answered 500 without any list; a multi-upload of
  eleven allowed files is answered 500, and nothing is stored.
\<close>

theorem multi_upload_counterexample:
  "status (snd (uploadMultipleFiles sample_env fresh_state [sample_png] None None)) = 201
   \<and> json_get ''errors''
        (body_json (snd (uploadMultipleFiles sample_env fresh_state [sample_png] None None)))
      = None
   \<and> status (snd (router sample_env fresh_state
        (PostUploadMultiple [sample_png, sample_exe] None None))) = 400
   \<and> files (fst (router sample_env fresh_state
        (PostUploadMultiple [sample_png, sample_exe] None None))) = []
   \<and> status (snd (uploadMultipleFiles offline_env fresh_state [sample_png] None None)) = 500
   \<and> json_get ''files''
        (body_json (snd (uploadMultipleFiles offline_env fresh_state [sample_png] None None)))
      = None
   \<and> files (fst (uploadMultipleFiles offline_env fresh_state [sample_png] None None)) = []
   \<and> status (snd (router sample_env fresh_state
        (PostUploadMultiple (replicate 11 sample_png) None None))) = 500
   \<and> files (fst (router sample_env fresh_state
        (PostUploadMultiple (replicate 11 sample_png) None None))) = []"
proof -
  have "uploadMultipleFiles sample_env fresh_state [sample_png] None None
    = (after_payloads sample_env None None [sample_png] connected_state,
       res_json 201 (multi_body (outcomes sample_env None None [sample_png] connected_state)))"
    by (rule uploadMultipleFiles_connected [OF connected_state_facts(1)]) simp
  then have run: "snd (uploadMultipleFiles sample_env fresh_state [sample_png] None None)
    = res_json 201 (multi_body [Inr (multi_view (new_doc sample_env sample_png None None 0))])"
    unfolding sample_outcomes(2) by simp
  have 1: "status (snd (uploadMultipleFiles sample_env fresh_state [sample_png] None None)) = 201"
    and 2: "json_get ''errors''
        (body_json (snd (uploadMultipleFiles sample_env fresh_state [sample_png] None None)))
      = None"
    unfolding run by (simp_all add: json_get_multi_body)
  have exe: "(1 :: nat) < length [sample_png, sample_exe]" "1 < files_limit"
    "mimetype ([sample_png, sample_exe] ! 1) \<notin> set allowedTypes
     \<or> size_p ([sample_png, sample_exe] ! 1) > fileSize_limit sample_env"
    by (simp_all add: sample_exe_def allowedTypes_def files_limit_def)
  from multer_parts_reject [OF exe] obtain err where
    err: "multer_parts sample_env files_limit [sample_png, sample_exe] = Inl err"
      "rejection err" by blast
  then have r: "router sample_env fresh_state (PostUploadMultiple [sample_png, sample_exe] None None)
    = (fresh_state, errorHandler sample_env err)" by simp
  have 3: "status (snd (router sample_env fresh_state
        (PostUploadMultiple [sample_png, sample_exe] None None))) = 400"
    unfolding r using rejection_400 [OF err(2), of sample_env] by simp
  have 4: "files (fst (router sample_env fresh_state
        (PostUploadMultiple [sample_png, sample_exe] None None))) = []"
    unfolding r by (simp add: fresh_state_def)
  note off = uploadMultipleFiles_no_connection [OF offline_connection, of "[sample_png]" None None]
  have 5: "status (snd (uploadMultipleFiles offline_env fresh_state [sample_png] None None)) = 500"
    and 6: "json_get ''files''
        (body_json (snd (uploadMultipleFiles offline_env fresh_state [sample_png] None None)))
      = None"
    and 7: "files (fst (uploadMultipleFiles offline_env fresh_state [sample_png] None None)) = []"
    unfolding off by (simp_all add: error_json_def json_get_def fresh_state_def)
  from multer_parts_too_many [OF eleven_pngs]
  have r': "router sample_env fresh_state (PostUploadMultiple (replicate 11 sample_png) None None)
    = (fresh_state, res_json 500 (failure_json ''Too many files''))"
    by (simp add: errorHandler_too_many sample_env_def)
  have 8: "status (snd (router sample_env fresh_state
        (PostUploadMultiple (replicate 11 sample_png) None None))) = 500"
    and 9: "files (fst (router sample_env fresh_state
        (PostUploadMultiple (replicate 11 sample_png) None None))) = []"
    unfolding r' by (simp_all add: fresh_state_def)
  from 1 2 3 4 5 6 7 8 9 show ?thesis by blast
qed

text \<open>The hypotheses of the main theorem of this section are met by the sample data.\<close>

theorem multi_upload_per_payload_witness:
  "(1 :: nat) < length [sample_png, sample_exe] \<and> 1 < files_limit
   \<and> mimetype ([sample_png, sample_exe] ! 1) \<notin> set allowedTypes
   \<and> fst (router sample_env fresh_state (PostUploadMultiple [sample_png, sample_exe] None None))
       = fresh_state
   \<and> status (snd (router sample_env fresh_state
         (PostUploadMultiple [sample_png, sample_exe] None None))) = 400
   \<and> files_limit < length (replicate 11 sample_png)
   \<and> status (snd (router sample_env fresh_state
         (PostUploadMultiple (replicate 11 sample_png) None None))) = 500
   \<and> length [sample_png] \<le> files_limit
   \<and> router sample_env fresh_state (PostUploadMultiple [sample_png] None None)
       = uploadMultipleFiles sample_env fresh_state [sample_png] None None
   \<and> ensureConnection offline_env fresh_state = (fresh_state, Inl ''connection refused'')
   \<and> status (snd (uploadMultipleFiles offline_env fresh_state [sample_blank, sample_png] None None))
       = 500
   \<and> json_get ''error'' (body_json (snd
         (uploadMultipleFiles offline_env fresh_state [sample_blank, sample_png] None None)))
       = Some (JStr ''connection refused'')
   \<and> ensureConnection sample_env fresh_state = (connected_state, Inr ())
   \<and> [sample_blank, sample_png] \<noteq> []
   \<and> uploadMultipleFiles sample_env fresh_state [sample_blank, sample_png] None None
      = (after_payloads sample_env None None [sample_blank, sample_png] connected_state,
         res_json 201 (multi_body
           (outcomes sample_env None None [sample_blank, sample_png] connected_state)))
   \<and> outcomes sample_env None None [sample_blank, sample_png] connected_state
      = [Inl (error_entry sample_blank
               ''File validation failed: originalName: File name is required''),
         Inr (multi_view (new_doc sample_env sample_png None None 2))]
   \<and> (1 :: nat) < length [sample_blank, sample_png]
   \<and> outcomes sample_env None None [sample_blank, sample_png] connected_state ! 1
      = snd (process_file sample_env
               (after_payloads sample_env None None (take 1 [sample_blank, sample_png])
                  connected_state)
               None None ([sample_blank, sample_png] ! 1))
   \<and> readyState connected_state = 1
   \<and> files (fst (process_file sample_env connected_state None None sample_png))
      = files (fst (uploadFile sample_env connected_state (Some sample_png) None None))
   \<and> json_get ''errors'' (multi_body
        (outcomes sample_env None None [sample_blank, sample_png] connected_state))
      = Some (JArr [error_entry sample_blank
                      ''File validation failed: originalName: File name is required''])"
proof -
  note ec = connected_state_facts(1)
  have ne: "[sample_blank, sample_png] \<noteq> []" by simp
  have k: "(1 :: nat) < length [sample_blank, sample_png]" by simp
  note r = connected_state_facts(3)
  note o = sample_outcomes(1)
  have exe: "(1 :: nat) < length [sample_png, sample_exe]" "1 < files_limit"
    "mimetype ([sample_png, sample_exe] ! 1) \<notin> set allowedTypes"
    by (simp_all add: sample_exe_def allowedTypes_def files_limit_def)
  have one: "length [sample_png] \<le> files_limit"
    "\<forall>p \<in> set [sample_png]. mimetype p \<in> set allowedTypes \<and> size_p p \<le> fileSize_limit sample_env"
    using sample_png_passes by (simp_all add: files_limit_def)
  from multi_upload_per_payload [where parts = "replicate 11 sample_png"
      and e = sample_env and st = fresh_state and c = None and d = None] eleven_pngs
  have a0: "status (snd (router sample_env fresh_state
         (PostUploadMultiple (replicate 11 sample_png) None None))) = 500"
    by blast
  from multi_upload_per_payload [where j = 1 and parts = "[sample_png, sample_exe]"
      and e = sample_env and st = fresh_state and c = None and d = None] exe
  have a1: "fst (router sample_env fresh_state (PostUploadMultiple [sample_png, sample_exe] None None))
       = fresh_state"
    and a2: "status (snd (router sample_env fresh_state
         (PostUploadMultiple [sample_png, sample_exe] None None))) = 400"
    by blast+
  from multi_upload_per_payload [where parts = "[sample_png]"
      and e = sample_env and st = fresh_state and c = None and d = None] one
  have a3: "router sample_env fresh_state (PostUploadMultiple [sample_png] None None)
       = uploadMultipleFiles sample_env fresh_state [sample_png] None None"
    by blast
  from multi_upload_per_payload [where e = offline_env and st = fresh_state
      and ?st0.0 = fresh_state and m = "''connection refused''"
      and fs = "[sample_blank, sample_png]" and c = None and d = None] offline_connection
  have a4: "status (snd (uploadMultipleFiles offline_env fresh_state [sample_blank, sample_png]
         None None)) = 500"
    and a5: "json_get ''error'' (body_json (snd
         (uploadMultipleFiles offline_env fresh_state [sample_blank, sample_png] None None)))
       = Some (JStr ''connection refused'')"
    by blast+
  note t = multi_upload_per_payload [where e = sample_env and st = fresh_state
      and ?st0.0 = connected_state and u = "()" and fs = "[sample_blank, sample_png]"
      and c = None and d = None and k = 1 and s = connected_state and f = sample_png
      and os = "outcomes sample_env None None [sample_blank, sample_png] connected_state"]
  from t ec ne have 1:
    "uploadMultipleFiles sample_env fresh_state [sample_blank, sample_png] None None
      = (after_payloads sample_env None None [sample_blank, sample_png] connected_state,
         res_json 201 (multi_body
           (outcomes sample_env None None [sample_blank, sample_png] connected_state)))"
    by blast
  from t k have 2:
    "outcomes sample_env None None [sample_blank, sample_png] connected_state ! 1
      = snd (process_file sample_env
               (after_payloads sample_env None None (take 1 [sample_blank, sample_png])
                  connected_state)
               None None ([sample_blank, sample_png] ! 1))"
    by blast
  from t r have 3:
    "files (fst (process_file sample_env connected_state None None sample_png))
      = files (fst (uploadFile sample_env connected_state (Some sample_png) None None))"
    by blast
  from t have "json_get ''errors'' (multi_body
        (outcomes sample_env None None [sample_blank, sample_png] connected_state))
      = (if lefts (outcomes sample_env None None [sample_blank, sample_png] connected_state) = []
         then None
         else Some (JArr (lefts
           (outcomes sample_env None None [sample_blank, sample_png] connected_state))))"
    by blast
  then have 4: "json_get ''errors'' (multi_body
        (outcomes sample_env None None [sample_blank, sample_png] connected_state))
      = Some (JArr [error_entry sample_blank
                      ''File validation failed: originalName: File name is required''])"
    unfolding o by simp
  from exe a1 a2 eleven_pngs(1) a0 one(1) a3 offline_connection a4 a5 ec ne 1 o k 2 r 3 4
  show ?thesis by blast
qed

section \<open>Status of a multi-upload\<close>

lemma no_rights_all_lefts:
  "rights os = [] \<Longrightarrow> length (lefts os) = length os \<and> (\<forall>k < length os. os ! k = Inl (lefts os ! k))"
proof (induction os)
  case Nil
  then show ?case by simp
next
  case (Cons x xs)
  then obtain a where x: "x = Inl a" and r: "rights xs = []"
    by (cases x) simp_all
  from Cons.IH [OF r] have l: "length (lefts xs) = length xs"
    and n: "\<forall>k < length xs. xs ! k = Inl (lefts xs ! k)" by simp_all
  have "(x # xs) ! k = Inl (lefts (x # xs) ! k)" if "k < length (x # xs)" for k
    using that x n by (cases k) simp_all
  with x l show ?case by simp
qed

lemma outcome_failure_entry:
  assumes "k < length fs" and "outcomes e c d fs st ! k = Inl j"
  shows "\<exists>msg. j = error_entry (fs ! k) msg"
proof -
  let ?s = "after_payloads e c d (take k fs) st"
  from outcomes_nth [OF assms(1), of e c d st] assms(2)
  have "snd (process_file e ?s c d (fs ! k)) = Inl j" by simp
  with process_file_outcome [of e ?s c d "fs ! k"] show ?thesis by auto
qed

text \<open>
  C10 (as the code has it).  The parts that pass the multipart layer are the payloads of
  the controller.  With the database connected, a multi-upload with at least one payload
  is answered 201 with \<open>success: true\<close>, whatever the outcomes; when no payload succeeds,
  \<open>files\<close> is empty and \<open>errors\<close> lists every payload, in order, by its original name.
  Status 400 is given to a request without files only.  When the connection to the
  database cannot be made, the answer is 500 with \<open>success: false\<close>, with or without
  payloads, and the collection is as it was.
\<close>

theorem multi_upload_status:
  "(ensureConnection e st = (st0, Inr u) \<and> fs \<noteq> []
    \<longrightarrow> status (snd (uploadMultipleFiles e st fs c d)) = 201
        \<and> json_get ''success'' (body_json (snd (uploadMultipleFiles e st fs c d)))
            = Some (JBool True))
   \<and> (ensureConnection e st = (st0, Inr u) \<and> fs \<noteq> [] \<and> rights (outcomes e c d fs st0) = []
    \<longrightarrow> json_get ''files'' (body_json (snd (uploadMultipleFiles e st fs c d))) = Some (JArr [])
        \<and> (\<exists>errs. json_get ''errors'' (body_json (snd (uploadMultipleFiles e st fs c d)))
                   = Some (JArr errs)
              \<and> length errs = length fs
              \<and> (\<forall>k < length fs. \<exists>msg. errs ! k = error_entry (fs ! k) msg)))
   \<and> (status (snd (uploadMultipleFiles e st fs c d)) = 400 \<longrightarrow> fs = [])
   \<and> (ensureConnection e st = (st0, Inr u)
    \<longrightarrow> uploadMultipleFiles e st [] c d
          = (st0, res_json 400 (failure_json ''No files uploaded'')))
   \<and> (ensureConnection e st = (st0, Inl m)
    \<longrightarrow> status (snd (uploadMultipleFiles e st fs c d)) = 500
        \<and> json_get ''success'' (body_json (snd (uploadMultipleFiles e st fs c d)))
            = Some (JBool False)
        \<and> files (fst (uploadMultipleFiles e st fs c d)) = files st)
   \<and> (multer_parts e files_limit parts = Inr fs
    \<longrightarrow> router e st (PostUploadMultiple parts c d) = uploadMultipleFiles e st fs c d)"
proof (intro conjI impI; (elim conjE)?)
  assume ec: "ensureConnection e st = (st0, Inr u)" and ne: "fs \<noteq> []"
  note run = uploadMultipleFiles_connected [OF ec ne, of c d]
  show "status (snd (uploadMultipleFiles e st fs c d)) = 201" unfolding run by simp
  show "json_get ''success'' (body_json (snd (uploadMultipleFiles e st fs c d)))
            = Some (JBool True)"
    unfolding run by (simp add: json_get_multi_body)
next
  assume ec: "ensureConnection e st = (st0, Inr u)" and ne: "fs \<noteq> []"
    and none: "rights (outcomes e c d fs st0) = []"
  note run = uploadMultipleFiles_connected [OF ec ne, of c d]
  let ?os = "outcomes e c d fs st0"
  from no_rights_all_lefts [OF none] length_outcomes [of e c d fs st0]
  have len: "length (lefts ?os) = length fs"
    and nth: "\<forall>k < length fs. ?os ! k = Inl (lefts ?os ! k)" by simp_all
  from len ne have l: "lefts ?os \<noteq> []" by auto
  show "json_get ''files'' (body_json (snd (uploadMultipleFiles e st fs c d))) = Some (JArr [])"
    unfolding run using none by (simp add: json_get_multi_body)
  have "json_get ''errors'' (body_json (snd (uploadMultipleFiles e st fs c d)))
        = Some (JArr (lefts ?os))"
    unfolding run using l by (simp add: json_get_multi_body)
  moreover have "\<forall>k < length fs. \<exists>msg. lefts ?os ! k = error_entry (fs ! k) msg"
    using nth outcome_failure_entry [of _ fs e c d st0] by blast
  ultimately show "\<exists>errs. json_get ''errors'' (body_json (snd (uploadMultipleFiles e st fs c d)))
                   = Some (JArr errs)
              \<and> length errs = length fs
              \<and> (\<forall>k < length fs. \<exists>msg. errs ! k = error_entry (fs ! k) msg)"
    using len by blast
next
  assume s: "status (snd (uploadMultipleFiles e st fs c d)) = 400"
  obtain st0 x where ec: "ensureConnection e st = (st0, x)"
    by (cases "ensureConnection e st")
  show "fs = []"
  proof (cases x)
    case (Inl msg)
    from uploadMultipleFiles_no_connection [OF ec [unfolded Inl], of fs c d] s
    show ?thesis by simp
  next
    case (Inr u)
    show ?thesis
    proof (rule ccontr)
      assume "fs \<noteq> []"
      from uploadMultipleFiles_connected [OF ec [unfolded Inr] this, of c d] s
      show False by simp
    qed
  qed
next
  assume "ensureConnection e st = (st0, Inr u)"
  then show "uploadMultipleFiles e st [] c d
          = (st0, res_json 400 (failure_json ''No files uploaded''))"
    by (rule uploadMultipleFiles_no_files)
next
  assume ec: "ensureConnection e st = (st0, Inl m)"
  note run = uploadMultipleFiles_no_connection [OF ec, of fs c d]
  show "status (snd (uploadMultipleFiles e st fs c d)) = 500" unfolding run by simp
  show "json_get ''success'' (body_json (snd (uploadMultipleFiles e st fs c d)))
            = Some (JBool False)" unfolding run by simp
  show "files (fst (uploadMultipleFiles e st fs c d)) = files st"
    unfolding run using ensureConnection_keeps(1) [OF ec] by simp
next
  assume "multer_parts e files_limit parts = Inr fs"
  then show "router e st (PostUploadMultiple parts c d) = uploadMultipleFiles e st fs c d"
    by simp
qed

text \<open>On a store whose streams fail, every turn of the loop fails.\<close>

lemma process_file_stream_error:
  assumes "stream_error e = Some m" and "readyState st = 1" and "conn_db st"
  shows "snd (process_file e st c d f) = Inl (error_entry f m)"
    and "readyState (fst (process_file e st c d f)) = 1"
    and "conn_db (fst (process_file e st c d f))"
proof -
  have b: "gridFSBucket (getGridFSBucket st)"
    using assms(2,3) by (simp add: getGridFSBucket_def initGridFS_def)
  note up = uploadToGridFS_stream_error [OF b assms(1), of "buffer f" "originalname f"
      "Some (mimetype f)" "(c, None)"]
  note p = process_file_blob_failure [OF up, of d]
  show "snd (process_file e st c d f) = Inl (error_entry f m)" by (simp add: p)
  show "readyState (fst (process_file e st c d f)) = 1"
    using assms(2) by (simp add: p getGridFSBucket_keeps)
  show "conn_db (fst (process_file e st c d f))"
    using assms(3) by (simp add: p getGridFSBucket_def initGridFS_def)
qed

lemma outcomes_stream_error:
  assumes "stream_error e = Some m"
  shows "readyState st = 1 \<Longrightarrow> conn_db st \<Longrightarrow>
         outcomes e c d fs st = map (\<lambda>f. Inl (error_entry f m)) fs"
proof (induction fs arbitrary: st)
  case Nil
  then show ?case by simp
next
  case (Cons f fs)
  note p = process_file_stream_error [OF assms Cons.prems, of c d f]
  from Cons.IH [OF p(2,3)] p(1) show ?case by simp
qed

lemma offline_png_passes:
  "multer_parts offline_env files_limit [sample_png] = Inr [sample_png]"
  by (rule multer_parts_accept)
    (simp_all add: files_limit_def sample_png_def allowedTypes_def fileSize_limit_def
      offline_env_def sample_env_def)

text \<open>
  A multi-upload whose one file passes the multipart layer, on a database that cannot be
  reached: the answer is 500 with \<open>success: false\<close>, not 201.
\<close>

theorem multi_upload_status_counterexample:
  "multer_parts offline_env files_limit [sample_png] = Inr [sample_png]
   \<and> status (snd (router offline_env fresh_state (PostUploadMultiple [sample_png] None None)))
       = 500
   \<and> json_get ''success'' (body_json (snd
         (router offline_env fresh_state (PostUploadMultiple [sample_png] None None))))
       = Some (JBool False)"
proof -
  have r: "router offline_env fresh_state (PostUploadMultiple [sample_png] None None)
    = (fresh_state, res_json 500 (error_json ''Error uploading files'' ''connection refused''))"
    using offline_png_passes
      uploadMultipleFiles_no_connection [OF offline_connection, of "[sample_png]" None None]
    by simp
  show ?thesis unfolding r using offline_png_passes by simp
qed

text \<open>The hypotheses of the main theorem of this section are met by the sample data.\<close>

theorem multi_upload_status_witness:
  "ensureConnection failing_env fresh_state = (connected_state, Inr ())
   \<and> [sample_png, sample_blank] \<noteq> []
   \<and> rights (outcomes failing_env None None [sample_png, sample_blank] connected_state) = []
   \<and> status (snd (uploadMultipleFiles failing_env fresh_state [sample_png, sample_blank] None None))
      = 201
   \<and> json_get ''success'' (body_json (snd
        (uploadMultipleFiles failing_env fresh_state [sample_png, sample_blank] None None)))
      = Some (JBool True)
   \<and> json_get ''files'' (body_json (snd
        (uploadMultipleFiles failing_env fresh_state [sample_png, sample_blank] None None)))
      = Some (JArr [])
   \<and> (\<exists>errs. json_get ''errors'' (body_json (snd
          (uploadMultipleFiles failing_env fresh_state [sample_png, sample_blank] None None)))
        = Some (JArr errs) \<and> length errs = 2)
   \<and> status (snd (uploadMultipleFiles failing_env fresh_state [] None None)) = 400
   \<and> uploadMultipleFiles failing_env fresh_state [] None None
      = (connected_state, res_json 400 (failure_json ''No files uploaded''))
   \<and> ensureConnection offline_env fresh_state = (fresh_state, Inl ''connection refused'')
   \<and> status (snd (uploadMultipleFiles offline_env fresh_state [sample_png] None None)) = 500
   \<and> files (fst (uploadMultipleFiles offline_env fresh_state [sample_png] None None))
      = files fresh_state
   \<and> multer_parts offline_env files_limit [sample_png] = Inr [sample_png]
   \<and> router offline_env fresh_state (PostUploadMultiple [sample_png] None None)
      = uploadMultipleFiles offline_env fresh_state [sample_png] None None"
proof -
  note ec = connected_state_facts(2)
  have ne: "[sample_png, sample_blank] \<noteq> []" by simp
  have se: "stream_error failing_env = Some ''write failed''" by (simp add: failing_env_def)
  have none: "rights (outcomes failing_env None None [sample_png, sample_blank] connected_state) = []"
    using outcomes_stream_error [OF se connected_state_facts(3,4), of None None
        "[sample_png, sample_blank]"] by simp
  note t = multi_upload_status [of failing_env fresh_state connected_state "()"
      "[sample_png, sample_blank]" None None]
  from t ec ne have 1:
    "status (snd (uploadMultipleFiles failing_env fresh_state [sample_png, sample_blank] None None))
      = 201"
    "json_get ''success'' (body_json (snd
        (uploadMultipleFiles failing_env fresh_state [sample_png, sample_blank] None None)))
      = Some (JBool True)" by blast+
  from t ec ne none have 2:
    "json_get ''files'' (body_json (snd
        (uploadMultipleFiles failing_env fresh_state [sample_png, sample_blank] None None)))
      = Some (JArr [])"
    and "\<exists>errs. json_get ''errors'' (body_json (snd
          (uploadMultipleFiles failing_env fresh_state [sample_png, sample_blank] None None)))
                   = Some (JArr errs)
              \<and> length errs = length [sample_png, sample_blank]
              \<and> (\<forall>k < length [sample_png, sample_blank].
                    \<exists>msg. errs ! k = error_entry ([sample_png, sample_blank] ! k) msg)"
    by blast+
  then have 3: "\<exists>errs. json_get ''errors'' (body_json (snd
          (uploadMultipleFiles failing_env fresh_state [sample_png, sample_blank] None None)))
        = Some (JArr errs) \<and> length errs = 2" by auto
  from multi_upload_status [of failing_env fresh_state connected_state "()" "[]" None None] ec
  have 4: "uploadMultipleFiles failing_env fresh_state [] None None
      = (connected_state, res_json 400 (failure_json ''No files uploaded''))" by blast
  then have 5: "status (snd (uploadMultipleFiles failing_env fresh_state [] None None)) = 400"
    by simp
  note t' = multi_upload_status [where e = offline_env and st = fresh_state
      and ?st0.0 = fresh_state and m = "''connection refused''" and fs = "[sample_png]"
      and c = None and d = None and parts = "[sample_png]"]
  from t' offline_connection have 6:
    "status (snd (uploadMultipleFiles offline_env fresh_state [sample_png] None None)) = 500"
    "files (fst (uploadMultipleFiles offline_env fresh_state [sample_png] None None))
      = files fresh_state" by blast+
  from t' offline_png_passes have 7:
    "router offline_env fresh_state (PostUploadMultiple [sample_png] None None)
      = uploadMultipleFiles offline_env fresh_state [sample_png] None None" by blast
  from ec ne none 1 2 3 4 5 offline_connection 6 offline_png_passes 7 show ?thesis by blast
qed

section \<open>Category of an upload\<close>

lemma process_file_run_cases [consumes 1, case_names blob_failure invalid saved]:
  assumes "process_file e s c d f = (s', y)"
  obtains
    st1 msg where
      "uploadToGridFS e s (buffer f) (originalname f) (Some (mimetype f)) (c, None) = (st1, Inl msg)"
      "s' = st1" "y = Inl (error_entry f msg)"
  | st1 res where
      "uploadToGridFS e s (buffer f) (originalname f) (Some (mimetype f)) (c, None) = (st1, Inr res)"
      "validate_File (new_doc e f c d (next_oid s)) \<noteq> []"
      "s' = st1\<lparr>next_oid := Suc (Suc (next_oid s))\<rparr>"
      "y = Inl (error_entry f (validation_message (validate_File (new_doc e f c d (next_oid s)))))"
  | st1 res where
      "uploadToGridFS e s (buffer f) (originalname f) (Some (mimetype f)) (c, None) = (st1, Inr res)"
      "validate_File (new_doc e f c d (next_oid s)) = []"
      "s' = st1\<lparr>next_oid := Suc (Suc (next_oid s)),
                 files := files s @ [new_doc e f c d (next_oid s)]\<rparr>"
      "y = Inr (multi_view (new_doc e f c d (next_oid s)))"
proof (cases rule: process_file_cases [of e s f c d])
  case (blob_failure st1 msg)
  with assms that(1) [OF blob_failure(1)] show thesis by simp
next
  case (invalid st1 res)
  with assms that(2) [OF invalid(1,2)] show thesis by simp
next
  case (saved st1 res)
  with assms that(3) [OF saved(1,2)] show thesis by simp
qed

lemma unrecognized_invalid:
  assumes "x \<noteq> []" and "x \<notin> set category_enum"
  shows "validate_File (new_doc e f (Some x) d n) \<noteq> []"
  using assms by (simp add: validate_File_def new_doc_def js_or_def)

lemma process_file_unrecognized:
  assumes "x \<noteq> []" and "x \<notin> set category_enum"
  shows "\<exists>msg. snd (process_file e s (Some x) d f) = Inl (error_entry f msg)"
    and "files (fst (process_file e s (Some x) d f)) = files s"
proof -
  obtain s' y where run: "process_file e s (Some x) d f = (s', y)"
    by (cases "process_file e s (Some x) d f")
  from run have "(\<exists>msg. y = Inl (error_entry f msg)) \<and> files s' = files s"
  proof (cases rule: process_file_run_cases)
    case (blob_failure st1 msg)
    with uploadToGridFS_fail [OF blob_failure(1)] show ?thesis by auto
  next
    case (invalid st1 res)
    with uploadToGridFS_ok [OF invalid(1)] show ?thesis by auto
  next
    case (saved st1 res)
    with unrecognized_invalid [OF assms] show ?thesis by simp
  qed
  with run show "\<exists>msg. snd (process_file e s (Some x) d f) = Inl (error_entry f msg)"
    and "files (fst (process_file e s (Some x) d f)) = files s" by simp_all
qed

lemma outcomes_unrecognized:
  assumes "x \<noteq> []" and "x \<notin> set category_enum"
  shows "rights (outcomes e (Some x) d fs st) = []"
    and "files (after_payloads e (Some x) d fs st) = files st"
proof -
  have "rights (outcomes e (Some x) d fs st) = []
    \<and> files (after_payloads e (Some x) d fs st) = files st"
  proof (induction fs arbitrary: st)
    case Nil
    then show ?case by simp
  next
    case (Cons f fs)
    from process_file_unrecognized [OF assms, of e st d f] obtain msg where
      o: "snd (process_file e st (Some x) d f) = Inl (error_entry f msg)"
      and fl: "files (fst (process_file e st (Some x) d f)) = files st" by blast
    from Cons.IH [of "fst (process_file e st (Some x) d f)"] o fl show ?case by simp
  qed
  then show "rights (outcomes e (Some x) d fs st) = []"
    and "files (after_payloads e (Some x) d fs st) = files st" by simp_all
qed

lemma uploadMultipleFiles_unrecognized:
  assumes "x \<noteq> []" and "x \<notin> set category_enum"
  shows "files (fst (uploadMultipleFiles e st fs (Some x) d)) = files st"
proof -
  obtain st0 y where ec: "ensureConnection e st = (st0, y)"
    by (cases "ensureConnection e st")
  note k = ensureConnection_keeps(1) [OF ec]
  show ?thesis
  proof (cases y)
    case (Inl msg)
    from uploadMultipleFiles_no_connection [OF ec [unfolded Inl], of fs "Some x" d] k
    show ?thesis by simp
  next
    case (Inr u)
    show ?thesis
    proof (cases "fs = []")
      case True
      from uploadMultipleFiles_no_files [OF ec [unfolded Inr], of "Some x" d] k True
      show ?thesis by simp
    next
      case False
      from uploadMultipleFiles_connected [OF ec [unfolded Inr] False, of "Some x" d]
        outcomes_unrecognized(2) [OF assms, of e d fs st0] k
      show ?thesis by simp
    qed
  qed
qed

lemma sample_turn:
  assumes "validate_File (new_doc sample_env f c d 0) = []"
  shows "snd (process_file sample_env connected_state c d f)
         = Inr (multi_view (new_doc sample_env f c d 0))"
proof -
  let ?g = "getGridFSBucket connected_state"
  have g: "readyState ?g = 1" "gridFSBucket ?g" "next_oid ?g = 0"
    using connected_state_facts by (simp_all add: getGridFSBucket_keeps)
  have h: "stream_error sample_env = None" by (simp add: sample_env_def)
  have same: "process_file sample_env connected_state c d f = process_file sample_env ?g c d f"
    using connected_state_facts(7)
    by (simp add: process_file_def uploadToGridFS_def Let_def getGridFSBucket_def)
  have v: "validate_File (new_doc sample_env f c d (next_oid ?g)) = []"
    using assms g(3) by simp
  from process_file_healthy(1) [OF g(1,2) h v] g(3) show ?thesis by (simp add: same)
qed

text \<open>
  C1 (as the code has it).  A stored category is \<open>other\<close> when the field is absent or
  empty, and the given value when that is one of the enumerated ones, on both upload
  routes.  A non-empty value outside the enumeration is not replaced, and no document is
  created for it.  The single upload is then answered with 500 and \<open>success: false\<close>.
  In a multi-upload every payload then fails with an entry under \<open>errors\<close>; the
  collection is as it was, and with the database connected and at least one payload the
  answer is 201 with an empty \<open>files\<close> list and an entry for every payload.
\<close>

theorem category_default_or_rejected:
  "(uploadFile e st (Some f) c d = (st', r) \<and> status r = 201 \<and> (c = None \<or> c = Some [])
      \<longrightarrow> (\<exists>doc. files st' = files st @ [doc] \<and> category doc = ''other''))
   \<and> (uploadFile e st (Some f) (Some x) d = (st', r) \<and> status r = 201 \<and> x \<noteq> []
      \<longrightarrow> x \<in> set category_enum \<and> (\<exists>doc. files st' = files st @ [doc] \<and> category doc = x))
   \<and> (uploadFile e st (Some f) (Some x) d = (st', r) \<and> x \<noteq> [] \<and> x \<notin> set category_enum
      \<longrightarrow> status r = 500 \<and> files st' = files st
          \<and> json_get ''success'' (body_json r) = Some (JBool False))
   \<and> (process_file e s c d f = (s', Inr v) \<and> (c = None \<or> c = Some [])
      \<longrightarrow> (\<exists>doc. files s' = files s @ [doc] \<and> category doc = ''other''
                \<and> v = multi_view doc))
   \<and> (process_file e s (Some x) d f = (s', Inr v) \<and> x \<noteq> []
      \<longrightarrow> x \<in> set category_enum
          \<and> (\<exists>doc. files s' = files s @ [doc] \<and> category doc = x \<and> v = multi_view doc))
   \<and> (x \<noteq> [] \<and> x \<notin> set category_enum
      \<longrightarrow> (\<exists>msg. snd (process_file e s (Some x) d f) = Inl (error_entry f msg))
          \<and> files (fst (process_file e s (Some x) d f)) = files s
          \<and> files (fst (uploadMultipleFiles e st fs (Some x) d)) = files st)
   \<and> (x \<noteq> [] \<and> x \<notin> set category_enum \<and> ensureConnection e st = (st0, Inr u) \<and> fs \<noteq> []
      \<longrightarrow> status (snd (uploadMultipleFiles e st fs (Some x) d)) = 201
          \<and> json_get ''files'' (body_json (snd (uploadMultipleFiles e st fs (Some x) d)))
              = Some (JArr [])
          \<and> (\<exists>errs. json_get ''errors''
                       (body_json (snd (uploadMultipleFiles e st fs (Some x) d)))
                     = Some (JArr errs)
                \<and> length errs = length fs))"
proof (intro conjI impI; (elim conjE)?)
  assume run: "uploadFile e st (Some f) c d = (st', r)" and ok: "status r = 201"
    and c: "c = None \<or> c = Some []"
  from c have o: "js_or c ''other'' = ''other''" by (auto simp: js_or_def)
  from run show "\<exists>doc. files st' = files st @ [doc] \<and> category doc = ''other''"
  proof (cases rule: uploadFile_cases)
    case (saved st0 u st1 res)
    have "category (new_doc e f c d (next_oid st)) = ''other''" by (simp add: new_doc_def o)
    moreover have "files st' = files st @ [new_doc e f c d (next_oid st)]" by (simp add: saved(4))
    ultimately show ?thesis by blast
  qed (use ok in simp_all)
next
  assume run: "uploadFile e st (Some f) (Some x) d = (st', r)" and ok: "status r = 201"
    and x: "x \<noteq> []"
  from x have o: "js_or (Some x) ''other'' = x" by (simp add: js_or_def)
  from run have "x \<in> set category_enum \<and> (\<exists>doc. files st' = files st @ [doc] \<and> category doc = x)"
  proof (cases rule: uploadFile_cases)
    case (saved st0 u st1 res)
    have cat: "category (new_doc e f (Some x) d (next_oid st)) = x" by (simp add: new_doc_def o)
    have "x \<in> set category_enum"
    proof (rule ccontr)
      assume "x \<notin> set category_enum"
      from unrecognized_invalid [OF x this] saved(3) show False by simp
    qed
    moreover have "files st' = files st @ [new_doc e f (Some x) d (next_oid st)]"
      by (simp add: saved(4))
    ultimately show ?thesis using cat by blast
  qed (use ok in simp_all)
  then show "x \<in> set category_enum"
    and "\<exists>doc. files st' = files st @ [doc] \<and> category doc = x" by simp_all
next
  assume run: "uploadFile e st (Some f) (Some x) d = (st', r)" and x: "x \<noteq> []"
    and bad: "x \<notin> set category_enum"
  note inv = unrecognized_invalid [OF x bad]
  from run have "status r = 500 \<and> files st' = files st
          \<and> json_get ''success'' (body_json r) = Some (JBool False)"
  proof (cases rule: uploadFile_cases)
    case (no_connection st0 msg)
    with ensureConnection_keeps(1) [OF no_connection(1)] show ?thesis by simp
  next
    case (blob_failure st0 u st1 msg)
    with uploadToGridFS_fail [OF blob_failure(2)]
      ensureConnection_keeps(1) [OF blob_failure(1)] show ?thesis by simp
  next
    case (invalid st0 u st1 res)
    with uploadToGridFS_ok [OF invalid(2)]
      ensureConnection_keeps(1) [OF invalid(1)] show ?thesis by simp
  next
    case (saved st0 u st1 res)
    with inv show ?thesis by simp
  qed
  then show "status r = 500" and "files st' = files st"
    and "json_get ''success'' (body_json r) = Some (JBool False)" by simp_all
next
  assume run: "process_file e s c d f = (s', Inr v)" and c: "c = None \<or> c = Some []"
  from c have o: "js_or c ''other'' = ''other''" by (auto simp: js_or_def)
  from run show "\<exists>doc. files s' = files s @ [doc] \<and> category doc = ''other''
                \<and> v = multi_view doc"
  proof (cases rule: process_file_run_cases)
    case (saved st1 res)
    have "category (new_doc e f c d (next_oid s)) = ''other''" by (simp add: new_doc_def o)
    moreover have "files s' = files s @ [new_doc e f c d (next_oid s)]" by (simp add: saved(3))
    ultimately show ?thesis using saved(4) by blast
  qed simp_all
next
  assume run: "process_file e s (Some x) d f = (s', Inr v)" and x: "x \<noteq> []"
  from x have o: "js_or (Some x) ''other'' = x" by (simp add: js_or_def)
  from run have "x \<in> set category_enum
          \<and> (\<exists>doc. files s' = files s @ [doc] \<and> category doc = x \<and> v = multi_view doc)"
  proof (cases rule: process_file_run_cases)
    case (saved st1 res)
    have cat: "category (new_doc e f (Some x) d (next_oid s)) = x" by (simp add: new_doc_def o)
    have "x \<in> set category_enum"
    proof (rule ccontr)
      assume "x \<notin> set category_enum"
      from unrecognized_invalid [OF x this] saved(2) show False by simp
    qed
    moreover have "files s' = files s @ [new_doc e f (Some x) d (next_oid s)]"
      by (simp add: saved(3))
    ultimately show ?thesis using cat saved(4) by blast
  qed simp_all
  then show "x \<in> set category_enum"
    and "\<exists>doc. files s' = files s @ [doc] \<and> category doc = x \<and> v = multi_view doc"
    by simp_all
next
  assume x: "x \<noteq> []" and bad: "x \<notin> set category_enum"
  show "\<exists>msg. snd (process_file e s (Some x) d f) = Inl (error_entry f msg)"
    using x bad by (rule process_file_unrecognized)
  show "files (fst (process_file e s (Some x) d f)) = files s"
    using x bad by (rule process_file_unrecognized)
  show "files (fst (uploadMultipleFiles e st fs (Some x) d)) = files st"
    using x bad by (rule uploadMultipleFiles_unrecognized)
next
  assume x: "x \<noteq> []" and bad: "x \<notin> set category_enum"
    and ec: "ensureConnection e st = (st0, Inr u)" and ne: "fs \<noteq> []"
  note run = uploadMultipleFiles_connected [OF ec ne, of "Some x" d]
  let ?os = "outcomes e (Some x) d fs st0"
  note none = outcomes_unrecognized(1) [OF x bad, of e d fs st0]
  from no_rights_all_lefts [OF none] length_outcomes [of e "Some x" d fs st0]
  have len: "length (lefts ?os) = length fs" by simp
  with ne have l: "lefts ?os \<noteq> []" by auto
  show "status (snd (uploadMultipleFiles e st fs (Some x) d)) = 201" unfolding run by simp
  show "json_get ''files'' (body_json (snd (uploadMultipleFiles e st fs (Some x) d)))
              = Some (JArr [])"
    unfolding run using none by (simp add: json_get_multi_body)
  have "json_get ''errors'' (body_json (snd (uploadMultipleFiles e st fs (Some x) d)))
        = Some (JArr (lefts ?os))"
    unfolding run using l by (simp add: json_get_multi_body)
  with len show "\<exists>errs. json_get ''errors''
                       (body_json (snd (uploadMultipleFiles e st fs (Some x) d)))
                     = Some (JArr errs)
                \<and> length errs = length fs" by blast
qed

lemma selfie_unrecognized: "''selfie'' \<noteq> [] \<and> ''selfie'' \<notin> set category_enum"
  by (simp add: category_enum_def)

text \<open>
  An upload with the category \<open>selfie\<close> is answered 500 and creates no document: the
  value is not replaced by the default.  A multi-upload with that category is answered
  201 and creates no document either.
\<close>

theorem unrecognized_category_counterexample:
  "''selfie'' \<notin> set category_enum
   \<and> status (snd (uploadFile sample_env fresh_state (Some sample_png) (Some ''selfie'') None)) = 500
   \<and> files (fst (uploadFile sample_env fresh_state (Some sample_png) (Some ''selfie'') None)) = []
   \<and> status (snd (uploadMultipleFiles sample_env fresh_state [sample_png] (Some ''selfie'') None))
       = 201
   \<and> json_get ''files'' (body_json (snd
         (uploadMultipleFiles sample_env fresh_state [sample_png] (Some ''selfie'') None)))
       = Some (JArr [])
   \<and> files (fst (uploadMultipleFiles sample_env fresh_state [sample_png] (Some ''selfie'') None))
       = []"
proof -
  have bad: "''selfie'' \<noteq> []" "''selfie'' \<notin> set category_enum"
    using selfie_unrecognized by simp_all
  note single = fresh_upload_invalid [OF sample_png_selfie_invalid]
  note run = uploadMultipleFiles_connected [OF connected_state_facts(1),
      of "[sample_png]" "Some ''selfie''" None]
  note none = outcomes_unrecognized(1) [OF bad, of sample_env None "[sample_png]" connected_state]
  have 1: "status (snd (uploadMultipleFiles sample_env fresh_state [sample_png]
      (Some ''selfie'') None)) = 201"
    using run by simp
  have 2: "json_get ''files'' (body_json (snd
         (uploadMultipleFiles sample_env fresh_state [sample_png] (Some ''selfie'') None)))
       = Some (JArr [])"
    using run none by (simp add: json_get_multi_body)
  have 3: "files (fst (uploadMultipleFiles sample_env fresh_state [sample_png]
      (Some ''selfie'') None)) = []"
    using uploadMultipleFiles_unrecognized [OF bad, of sample_env fresh_state "[sample_png]" None]
    by (simp add: fresh_state_def)
  from bad(2) single 1 2 3 show ?thesis by blast
qed

text \<open>The hypotheses of the main theorem of this section are met by the sample data.\<close>

theorem category_default_or_rejected_witness:
  "(\<exists>st' r. uploadFile sample_env fresh_state (Some sample_png) None None = (st', r)
      \<and> status r = 201
      \<and> (\<exists>doc. files st' = files fresh_state @ [doc] \<and> category doc = ''other''))
   \<and> (\<exists>st' r. uploadFile sample_env fresh_state (Some sample_png) (Some ''passport'') None = (st', r)
      \<and> status r = 201 \<and> ''passport'' \<in> set category_enum
      \<and> (\<exists>doc. files st' = files fresh_state @ [doc] \<and> category doc = ''passport''))
   \<and> (\<exists>st' r. uploadFile sample_env fresh_state (Some sample_png) (Some ''selfie'') None = (st', r)
      \<and> ''selfie'' \<notin> set category_enum
      \<and> status r = 500 \<and> files st' = files fresh_state)
   \<and> (\<exists>s' v. process_file sample_env connected_state None None sample_png = (s', Inr v)
      \<and> (\<exists>doc. files s' = files connected_state @ [doc] \<and> category doc = ''other''
            \<and> v = multi_view doc))
   \<and> (\<exists>s' v. process_file sample_env connected_state (Some ''passport'') None sample_png
               = (s', Inr v)
      \<and> (\<exists>doc. files s' = files connected_state @ [doc] \<and> category doc = ''passport''
            \<and> v = multi_view doc))
   \<and> (\<exists>msg. snd (process_file sample_env connected_state (Some ''selfie'') None sample_png)
             = Inl (error_entry sample_png msg))
   \<and> ensureConnection sample_env fresh_state = (connected_state, Inr ())
   \<and> status (snd (uploadMultipleFiles sample_env fresh_state [sample_png, sample_blank]
         (Some ''selfie'') None)) = 201
   \<and> (\<exists>errs. json_get ''errors'' (body_json (snd
          (uploadMultipleFiles sample_env fresh_state [sample_png, sample_blank]
             (Some ''selfie'') None))) = Some (JArr errs)
        \<and> length errs = 2)"
proof (intro conjI)
  obtain st' r where run: "uploadFile sample_env fresh_state (Some sample_png) None None = (st', r)"
    by (cases "uploadFile sample_env fresh_state (Some sample_png) None None")
  with fresh_upload_saved(1) [OF sample_png_valid] have ok: "status r = 201" by simp
  from category_default_or_rejected [where e = sample_env and st = fresh_state
      and f = sample_png and c = None and d = None and st' = st' and r = r]
    run ok
  have "\<exists>doc. files st' = files fresh_state @ [doc] \<and> category doc = ''other''" by simp
  with run ok show "\<exists>st' r. uploadFile sample_env fresh_state (Some sample_png) None None = (st', r)
      \<and> status r = 201
      \<and> (\<exists>doc. files st' = files fresh_state @ [doc] \<and> category doc = ''other'')" by blast
next
  obtain st' r where run:
    "uploadFile sample_env fresh_state (Some sample_png) (Some ''passport'') None = (st', r)"
    by (cases "uploadFile sample_env fresh_state (Some sample_png) (Some ''passport'') None")
  with fresh_upload_saved(1) [OF sample_png_passport_valid] have ok: "status r = 201" by simp
  from category_default_or_rejected [where e = sample_env and st = fresh_state
      and f = sample_png and d = None and st' = st' and r = r and x = "''passport''"] run ok
  have "''passport'' \<in> set category_enum
      \<and> (\<exists>doc. files st' = files fresh_state @ [doc] \<and> category doc = ''passport'')" by simp
  with run ok show "\<exists>st' r.
      uploadFile sample_env fresh_state (Some sample_png) (Some ''passport'') None = (st', r)
      \<and> status r = 201 \<and> ''passport'' \<in> set category_enum
      \<and> (\<exists>doc. files st' = files fresh_state @ [doc] \<and> category doc = ''passport'')" by blast
next
  obtain st' r where run:
    "uploadFile sample_env fresh_state (Some sample_png) (Some ''selfie'') None = (st', r)"
    by (cases "uploadFile sample_env fresh_state (Some sample_png) (Some ''selfie'') None")
  have bad: "''selfie'' \<notin> set category_enum" by (simp add: category_enum_def)
  from category_default_or_rejected [where e = sample_env and st = fresh_state
      and f = sample_png and d = None and st' = st' and r = r and x = "''selfie''"] run bad
  have "status r = 500 \<and> files st' = files fresh_state" by simp
  with run bad show "\<exists>st' r.
      uploadFile sample_env fresh_state (Some sample_png) (Some ''selfie'') None = (st', r)
      \<and> ''selfie'' \<notin> set category_enum
      \<and> status r = 500 \<and> files st' = files fresh_state" by blast
next
  obtain s' y where run: "process_file sample_env connected_state None None sample_png = (s', y)"
    by (cases "process_file sample_env connected_state None None sample_png")
  with sample_turn [OF sample_png_valid] obtain v where
    run': "process_file sample_env connected_state None None sample_png = (s', Inr v)" by simp
  from category_default_or_rejected [where e = sample_env and s = connected_state
      and f = sample_png and c = None and d = None and s' = s' and v = v] run'
  have "\<exists>doc. files s' = files connected_state @ [doc] \<and> category doc = ''other''
            \<and> v = multi_view doc" by simp
  with run' show "\<exists>s' v. process_file sample_env connected_state None None sample_png = (s', Inr v)
      \<and> (\<exists>doc. files s' = files connected_state @ [doc] \<and> category doc = ''other''
            \<and> v = multi_view doc)" by blast
next
  obtain s' y where run:
    "process_file sample_env connected_state (Some ''passport'') None sample_png = (s', y)"
    by (cases "process_file sample_env connected_state (Some ''passport'') None sample_png")
  with sample_turn [OF sample_png_passport_valid] obtain v where
    run': "process_file sample_env connected_state (Some ''passport'') None sample_png
           = (s', Inr v)" by simp
  from category_default_or_rejected [where e = sample_env and s = connected_state
      and f = sample_png and d = None and s' = s' and v = v and x = "''passport''"] run'
  have "\<exists>doc. files s' = files connected_state @ [doc] \<and> category doc = ''passport''
            \<and> v = multi_view doc" by simp
  with run' show "\<exists>s' v. process_file sample_env connected_state (Some ''passport'') None sample_png
               = (s', Inr v)
      \<and> (\<exists>doc. files s' = files connected_state @ [doc] \<and> category doc = ''passport''
            \<and> v = multi_view doc)" by blast
next
  from category_default_or_rejected [where e = sample_env and s = connected_state
      and f = sample_png and d = None and x = "''selfie''"] selfie_unrecognized
  show "\<exists>msg. snd (process_file sample_env connected_state (Some ''selfie'') None sample_png)
             = Inl (error_entry sample_png msg)" by blast
next
  show "ensureConnection sample_env fresh_state = (connected_state, Inr ())"
    by (rule connected_state_facts(1))
next
  note t = category_default_or_rejected [where e = sample_env and st = fresh_state
      and ?st0.0 = connected_state and u = "()" and d = None and x = "''selfie''"
      and fs = "[sample_png, sample_blank]"]
  have ne: "[sample_png, sample_blank] \<noteq> []" by simp
  from t selfie_unrecognized connected_state_facts(1) ne
  show "status (snd (uploadMultipleFiles sample_env fresh_state [sample_png, sample_blank]
         (Some ''selfie'') None)) = 201" by blast
  from t selfie_unrecognized connected_state_facts(1) ne
  have "\<exists>errs. json_get ''errors'' (body_json (snd
          (uploadMultipleFiles sample_env fresh_state [sample_png, sample_blank]
             (Some ''selfie'') None))) = Some (JArr errs)
        \<and> length errs = length [sample_png, sample_blank]" by blast
  then show "\<exists>errs. json_get ''errors'' (body_json (snd
          (uploadMultipleFiles sample_env fresh_state [sample_png, sample_blank]
             (Some ''selfie'') None))) = Some (JArr errs)
        \<and> length errs = 2" by (simp add: numeral_2_eq_2)
qed

section \<open>Public views\<close>

lemma public_field_names:
  "map fst (public_fields doc)
   = [''id'', ''originalName'', ''mimeType'', ''size'', ''category'', ''description'', ''uploadDate'']"
  by (simp add: public_fields_def)



lemma has_key_raw [simp]: "body_json \<lparr>status = code, headers = hs, body = Raw bs\<rparr> = JNull"
  by (simp add: body_json_def)

lemma read_view_select [simp]: "read_view (select_minus_gridfsId doc) = read_view doc"
  by (simp add: read_view_def select_minus_gridfsId_def)






































section \<open>Round trip\<close>




lemma wf_stateD:
  assumes "wf_state st" and "a \<in> set (files st)"
  shows "doc_id a < next_oid st" and "gridfsId a = Some g \<Longrightarrow> g < next_oid st"
    and "b \<in> set (files st) \<Longrightarrow> gridfsId a = gridfsId b \<Longrightarrow> gridfsId a \<noteq> None
         \<Longrightarrow> doc_id a = doc_id b"
proof -
  from assms show "doc_id a < next_oid st" by (simp add: wf_state_def)
  from assms have "case gridfsId a of None \<Rightarrow> True | Some g \<Rightarrow> g < next_oid st"
    by (simp add: wf_state_def)
  then show "gridfsId a = Some g \<Longrightarrow> g < next_oid st" by simp
  from assms show "b \<in> set (files st) \<Longrightarrow> gridfsId a = gridfsId b \<Longrightarrow> gridfsId a \<noteq> None
         \<Longrightarrow> doc_id a = doc_id b"
    unfolding wf_state_def by blast
qed

text \<open>
  A step that leaves the collection or appends the document made from the two next
  identifiers, and leaves the GridFS files below the next identifier.
\<close>

lemma step_keeps_wf:
  assumes wf: "wf_state st"
    and nxt: "next_oid st \<le> next_oid st'"
    and fl: "files st' = files st
       \<or> (\<exists>doc. files st' = files st @ [doc] \<and> doc_id doc = Suc (next_oid st)
             \<and> gridfsId doc = Some (next_oid st)
             \<and> next_oid st' = Suc (Suc (next_oid st)))"
  shows "wf_state st'"
  using fl
proof
  assume same: "files st' = files st"
  have "doc_id a < next_oid st'
      \<and> (case gridfsId a of None \<Rightarrow> True | Some g \<Rightarrow> g < next_oid st')"
    if "a \<in> set (files st)" for a
    using wf_stateD(1,2) [OF wf that] nxt by (auto split: option.splits)
  moreover have "doc_id a = doc_id b"
    if "a \<in> set (files st)" "b \<in> set (files st)" "gridfsId a = gridfsId b" "gridfsId a \<noteq> None"
    for a b using wf_stateD(3) [OF wf that(1) that(2) that(3) that(4)] .
  ultimately show ?thesis unfolding wf_state_def same by blast
next
  assume "\<exists>doc. files st' = files st @ [doc] \<and> doc_id doc = Suc (next_oid st)
             \<and> gridfsId doc = Some (next_oid st)
             \<and> next_oid st' = Suc (Suc (next_oid st))"
  then obtain doc where app: "files st' = files st @ [doc]"
    and di: "doc_id doc = Suc (next_oid st)" and dg: "gridfsId doc = Some (next_oid st)"
    and n': "next_oid st' = Suc (Suc (next_oid st))" by blast
  have old: "doc_id a < next_oid st'
      \<and> (case gridfsId a of None \<Rightarrow> True | Some g \<Rightarrow> g < next_oid st')"
    if "a \<in> set (files st)" for a
    using wf_stateD(1,2) [OF wf that] n' by (auto split: option.splits)
  have new: "doc_id doc < next_oid st'
      \<and> (case gridfsId doc of None \<Rightarrow> True | Some g \<Rightarrow> g < next_oid st')"
    using di dg n' by simp
  have fresh: "gridfsId a \<noteq> gridfsId doc" if "a \<in> set (files st)" for a
    using wf_stateD(2) [OF wf that, of "next_oid st"] dg by auto
  have uniq: "doc_id a = doc_id b"
    if "a \<in> set (files st')" "b \<in> set (files st')" "gridfsId a = gridfsId b" "gridfsId a \<noteq> None"
    for a b
  proof -
    from that(1,2) app consider "a \<in> set (files st)" "b \<in> set (files st)"
      | "a = doc" "b = doc" | "a \<in> set (files st)" "b = doc" | "a = doc" "b \<in> set (files st)"
      by auto
    then show ?thesis
    proof cases
      case 1
      then show ?thesis using wf_stateD(3) [OF wf 1(1) 1(2) that(3) that(4)] by simp
    next
      case 2
      then show ?thesis by simp
    next
      case 3
      with fresh [of a] that(3) show ?thesis by simp
    next
      case 4
      with fresh [of b] that(3) show ?thesis by simp
    qed
  qed
  from old new have "\<forall>a \<in> set (files st'). doc_id a < next_oid st'
      \<and> (case gridfsId a of None \<Rightarrow> True | Some g \<Rightarrow> g < next_oid st')"
    unfolding app by auto
  with uniq show ?thesis unfolding wf_state_def by blast
qed




lemma same_stores:
  assumes "files st' = files st" and "fs_files st' = fs_files st" and "next_oid st' = next_oid st"
  shows "wf_state st' = wf_state st" and "holds_bytes st' i bs = holds_bytes st i bs"
  unfolding wf_state_def holds_bytes_def File_findById_def assms by (rule refl)+

lemma getGridFSBucket_bucket:
  "gridFSBucket st \<Longrightarrow> gridFSBucket (getGridFSBucket st)"
  by (simp add: getGridFSBucket_def)

lemma uploadToGridFS_effect:
  "next_oid st \<le> next_oid (fst (uploadToGridFS e st bs fname ct meta))"
  "readyState (fst (uploadToGridFS e st bs fname ct meta)) = readyState st"
  "gridFSBucket st \<Longrightarrow> gridFSBucket (fst (uploadToGridFS e st bs fname ct meta))"
  "g < next_oid st \<Longrightarrow> fs_files (fst (uploadToGridFS e st bs fname ct meta)) g = fs_files st g"
proof -
  let ?b = "getGridFSBucket st"
  consider "\<not> gridFSBucket ?b" | m where "gridFSBucket ?b" "stream_error e = Some m"
    | "gridFSBucket ?b" "stream_error e = None" by (cases "stream_error e") auto
  then have "next_oid st \<le> next_oid (fst (uploadToGridFS e st bs fname ct meta))
    \<and> readyState (fst (uploadToGridFS e st bs fname ct meta)) = readyState st
    \<and> (gridFSBucket st \<longrightarrow> gridFSBucket (fst (uploadToGridFS e st bs fname ct meta)))
    \<and> (g < next_oid st \<longrightarrow> fs_files (fst (uploadToGridFS e st bs fname ct meta)) g = fs_files st g)"
  proof cases
    case 1
    with getGridFSBucket_bucket [of st] have "\<not> gridFSBucket st" by blast
    with 1 show ?thesis
      by (simp add: uploadToGridFS_no_bucket getGridFSBucket_keeps)
  next
    case 2
    then show ?thesis
      by (simp add: uploadToGridFS_stream_error getGridFSBucket_keeps)
  next
    case 3
    then show ?thesis
      by (simp add: uploadToGridFS_stored getGridFSBucket_keeps)
  qed
  then show "next_oid st \<le> next_oid (fst (uploadToGridFS e st bs fname ct meta))"
    "readyState (fst (uploadToGridFS e st bs fname ct meta)) = readyState st"
    "gridFSBucket st \<Longrightarrow> gridFSBucket (fst (uploadToGridFS e st bs fname ct meta))"
    "g < next_oid st \<Longrightarrow> fs_files (fst (uploadToGridFS e st bs fname ct meta)) g = fs_files st g"
    by simp_all
qed

lemma new_doc_ids [simp]:
  "doc_id (new_doc e f c d n) = Suc n" "gridfsId (new_doc e f c d n) = Some n"
  by (simp_all add: new_doc_def)

text \<open>What one turn of the multi-upload loop does to the stores.\<close>

lemma process_file_effect:
  fixes e st c d f
  defines "st' \<equiv> fst (process_file e st c d f)"
  shows "next_oid st \<le> next_oid st'"
    and "files st' = files st
       \<or> (\<exists>doc. files st' = files st @ [doc] \<and> doc_id doc = Suc (next_oid st)
             \<and> gridfsId doc = Some (next_oid st)
             \<and> next_oid st' = Suc (Suc (next_oid st)))"
    and "g < next_oid st \<Longrightarrow> fs_files st' g = fs_files st g"
    and "online st \<Longrightarrow> online st'"
proof -
  let ?u = "uploadToGridFS e st (buffer f) (originalname f) (Some (mimetype f)) (c, None)"
  note eff = uploadToGridFS_effect [where st = st and e = e and bs = "buffer f"
      and fname = "originalname f" and ct = "Some (mimetype f)" and meta = "(c, None)"]
  have "next_oid st \<le> next_oid st'
    \<and> (files st' = files st
       \<or> (\<exists>doc. files st' = files st @ [doc] \<and> doc_id doc = Suc (next_oid st)
             \<and> gridfsId doc = Some (next_oid st)
             \<and> next_oid st' = Suc (Suc (next_oid st))))
    \<and> (g < next_oid st \<longrightarrow> fs_files st' g = fs_files st g)
    \<and> (online st \<longrightarrow> online st')"
  proof (cases rule: process_file_cases [of e st f c d])
    case (blob_failure st1 msg)
    then have s: "st' = fst ?u" by (simp add: st'_def)
    from blob_failure(1) have "files (fst ?u) = files st"
      using uploadToGridFS_fail [OF blob_failure(1)] by simp
    with eff show ?thesis unfolding s by (simp add: online_def)
  next
    case (invalid st1 res)
    then have s: "st' = (fst ?u)\<lparr>next_oid := Suc (Suc (next_oid st))\<rparr>" by (simp add: st'_def)
    from uploadToGridFS_ok [OF invalid(1)] invalid(1) have "files (fst ?u) = files st" by simp
    with eff show ?thesis unfolding s by (simp add: online_def)
  next
    case (saved st1 res)
    then have s: "st' = (fst ?u)\<lparr>next_oid := Suc (Suc (next_oid st)),
                 files := files st @ [new_doc e f c d (next_oid st)]\<rparr>" by (simp add: st'_def)
    from eff show ?thesis unfolding s by (simp add: online_def)
  qed
  then show "next_oid st \<le> next_oid st'"
    and "files st' = files st
       \<or> (\<exists>doc. files st' = files st @ [doc] \<and> doc_id doc = Suc (next_oid st)
             \<and> gridfsId doc = Some (next_oid st)
             \<and> next_oid st' = Suc (Suc (next_oid st)))"
    and "g < next_oid st \<Longrightarrow> fs_files st' g = fs_files st g"
    and "online st \<Longrightarrow> online st'" by simp_all
qed









lemma wf_state_filter:
  assumes "wf_state st"
  shows "wf_state (st\<lparr>fs_files := m, files := filter P (files st)\<rparr>)"
proof -
  let ?s = "st\<lparr>fs_files := m, files := filter P (files st)\<rparr>"
  have sub: "a \<in> set (files ?s) \<Longrightarrow> a \<in> set (files st)" for a by simp
  have n: "next_oid ?s = next_oid st" by simp
  have 1: "doc_id a < next_oid ?s
      \<and> (case gridfsId a of None \<Rightarrow> True | Some g \<Rightarrow> g < next_oid ?s)"
    if "a \<in> set (files ?s)" for a
    using assms sub [OF that] unfolding wf_state_def n by blast
  have 2: "doc_id a = doc_id b"
    if "a \<in> set (files ?s)" "b \<in> set (files ?s)" "gridfsId a = gridfsId b" "gridfsId a \<noteq> None"
    for a b
    using wf_stateD(3) [OF assms sub [OF that(1)] sub [OF that(2)] that(3) that(4)] .
  from 1 2 show ?thesis unfolding wf_state_def by blast
qed








lemma wf_fresh_state: "wf_state fresh_state"
  by (simp add: wf_state_def fresh_state_def)


section \<open>Every reachable store is well-formed\<close>

lemma uploadFile_keeps_wf:
  assumes wf: "wf_state st"
  shows "wf_state (fst (uploadFile e st rf c d))"
proof (cases rf)
  case None
  obtain st0 x where ec: "ensureConnection e st = (st0, x)"
    by (cases "ensureConnection e st")
  note k = ensureConnection_keeps [OF ec]
  have "fst (uploadFile e st None c d) = st0"
    using ec by (cases x) (simp_all add: uploadFile_def)
  with same_stores(1) [OF k] wf None show ?thesis by simp
next
  case (Some f)
  obtain st' r where run: "uploadFile e st (Some f) c d = (st', r)"
    by (cases "uploadFile e st (Some f) c d")
  have "wf_state st'"
    using run
  proof (cases rule: uploadFile_cases)
    case (no_connection st0 msg)
    with same_stores(1) [OF ensureConnection_keeps [OF no_connection(1)]] wf
    show ?thesis by simp
  next
    case (blob_failure st0 u st1 msg)
    note k = ensureConnection_keeps [OF blob_failure(1)]
    from uploadToGridFS_effect(1) [where st = st0 and e = e and bs = "buffer f"
        and fname = "originalname f" and ct = "Some (mimetype f)" and meta = "(c, d)"]
      blob_failure(2) k(3)
    have n: "next_oid st \<le> next_oid st1" by simp
    from uploadToGridFS_fail [OF blob_failure(2)] k(1) have "files st1 = files st" by simp
    with step_keeps_wf [OF wf n] blob_failure(3) show ?thesis by simp
  next
    case (invalid st0 u st1 res)
    note k = ensureConnection_keeps [OF invalid(1)]
    from uploadToGridFS_ok [OF invalid(2)] k(1) have "files st' = files st"
      by (simp add: invalid(4))
    moreover have "next_oid st \<le> next_oid st'" by (simp add: invalid(4))
    ultimately show ?thesis using step_keeps_wf [OF wf, of st'] by simp
  next
    case (saved st0 u st1 res)
    have "files st' = files st @ [new_doc e f c d (next_oid st)]"
      and "next_oid st' = Suc (Suc (next_oid st))" by (simp_all add: saved(4))
    then show ?thesis using step_keeps_wf [OF wf, of st'] by simp
  qed
  with run Some show ?thesis by simp
qed

lemma process_file_keeps_wf:
  assumes "wf_state st"
  shows "wf_state (fst (process_file e st c d f))"
  using process_file_effect(1,2) [where st = st and e = e and c = c and d = d and f = f]
  by (rule step_keeps_wf [OF assms])

lemma after_payloads_keeps_wf:
  "wf_state st \<Longrightarrow> wf_state (after_payloads e c d fs st)"
proof (induction fs arbitrary: st)
  case Nil
  then show ?case by simp
next
  case (Cons f fs)
  from Cons.IH [OF process_file_keeps_wf [OF Cons.prems, of e c d f]] show ?case by simp
qed

lemma uploadMultipleFiles_keeps_wf:
  assumes wf: "wf_state st"
  shows "wf_state (fst (uploadMultipleFiles e st fs c d))"
proof -
  obtain st0 x where ec: "ensureConnection e st = (st0, x)"
    by (cases "ensureConnection e st")
  from same_stores(1) [OF ensureConnection_keeps [OF ec]] wf have wf0: "wf_state st0" by simp
  show ?thesis
  proof (cases x)
    case (Inl msg)
    from uploadMultipleFiles_no_connection [OF ec [unfolded Inl], of fs c d] wf0
    show ?thesis by simp
  next
    case (Inr u)
    show ?thesis
    proof (cases "fs = []")
      case True
      from uploadMultipleFiles_no_files [OF ec [unfolded Inr], of c d] wf0 True
      show ?thesis by simp
    next
      case False
      from uploadMultipleFiles_connected [OF ec [unfolded Inr] False, of c d]
        after_payloads_keeps_wf [OF wf0, of e c d fs]
      show ?thesis by simp
    qed
  qed
qed

lemma read_requests_keep_stores:
  fixes e st
  defines "same s \<equiv> files s = files st \<and> fs_files s = fs_files st \<and> next_oid s = next_oid st"
  shows "same (fst (getAllFiles e st))" and "same (fst (getFilesByCategory e st c))"
    and "same (fst (getFileById e st i))" and "same (fst (send_file disp failure e st i))"
proof -
  obtain st0 x where ec: "ensureConnection e st = (st0, x)"
    by (cases "ensureConnection e st")
  note k = ensureConnection_keeps [OF ec]
  show "same (fst (getAllFiles e st))"
    using ec k by (cases x) (simp_all add: getAllFiles_def Let_def same_def)
  show "same (fst (getFilesByCategory e st c))"
    using ec k by (cases x) (simp_all add: getFilesByCategory_def Let_def same_def)
  show "same (fst (getFileById e st i))"
    using ec k by (cases x) (simp_all add: getFileById_def same_def split: option.splits)
  have d: "fst (downloadFromGridFS e st0 g) = getGridFSBucket st0" for g
    by (simp add: downloadFromGridFS_def Let_def split: sum.splits)
  have "fst (send_file disp failure e st i) = st0
      \<or> fst (send_file disp failure e st i) = getGridFSBucket st0"
  proof (cases x)
    case (Inl msg)
    with ec show ?thesis by (simp add: send_file_def)
  next
    case (Inr u)
    show ?thesis
    proof (cases "File_findById st0 i")
      case None
      with ec Inr show ?thesis by (simp add: send_file_def)
    next
      case (Some doc)
      obtain s y where dl: "downloadFromGridFS e st0 (gridfsId doc) = (s, y)"
        by (cases "downloadFromGridFS e st0 (gridfsId doc)")
      with d [of "gridfsId doc"] have "s = getGridFSBucket st0" by simp
      with ec Inr Some dl show ?thesis by (cases y) (simp_all add: send_file_def)
    qed
  qed
  with k show "same (fst (send_file disp failure e st i))"
    by (auto simp: same_def getGridFSBucket_keeps)
qed

lemma wf_state_cong:
  assumes "files s = files t" and "next_oid s = next_oid t"
  shows "wf_state s = wf_state t"
  unfolding wf_state_def assms by (rule refl)

lemma deleteFile_keeps_wf:
  assumes wf: "wf_state st"
  shows "wf_state (fst (deleteFile e st j))"
proof -
  obtain st0 x where ec: "ensureConnection e st = (st0, x)"
    by (cases "ensureConnection e st")
  note k = ensureConnection_keeps [OF ec]
  have "next_oid (fst (deleteFile e st j)) = next_oid st
    \<and> (files (fst (deleteFile e st j)) = files st
       \<or> files (fst (deleteFile e st j)) = filter (\<lambda>x. doc_id x \<noteq> j) (files st))"
  proof (cases x)
    case (Inl msg)
    with ec k show ?thesis by (simp add: deleteFile_def)
  next
    case (Inr u)
    show ?thesis
    proof (cases "File_findById st0 j")
      case None
      with ec Inr k show ?thesis by (simp add: deleteFile_def)
    next
      case (Some dj)
      obtain s y where d:
        "(case gridfsId dj of None \<Rightarrow> (st0, Inr ()) | Some g \<Rightarrow> deleteFromGridFS e st0 g) = (s, y)"
        by (cases "(case gridfsId dj of None \<Rightarrow> (st0, Inr ()) | Some g \<Rightarrow> deleteFromGridFS e st0 g)")
      then have s: "files s = files st" "next_oid s = next_oid st"
        using k
        by (auto simp: deleteFromGridFS_def bucket_delete_def Let_def getGridFSBucket_keeps
            split: option.splits if_splits)
      from ec Inr Some d s show ?thesis
        by (cases y) (simp_all add: deleteFile_def File_findByIdAndDelete_def)
    qed
  qed
  then consider "next_oid (fst (deleteFile e st j)) = next_oid st"
      "files (fst (deleteFile e st j)) = files st"
    | "next_oid (fst (deleteFile e st j)) = next_oid st"
      "files (fst (deleteFile e st j)) = filter (\<lambda>x. doc_id x \<noteq> j) (files st)"
    by blast
  then show ?thesis
  proof cases
    case 1
    then show ?thesis using step_keeps_wf [OF wf, of "fst (deleteFile e st j)"] by simp
  next
    case 2
    let ?s = "fst (deleteFile e st j)"
    let ?t = "st\<lparr>fs_files := fs_files ?s, files := filter (\<lambda>x. doc_id x \<noteq> j) (files st)\<rparr>"
    have "wf_state ?t" by (rule wf_state_filter [OF wf])
    moreover have "files ?s = files ?t" "next_oid ?s = next_oid ?t" using 2 by simp_all
    then have "wf_state ?s = wf_state ?t" by (rule wf_state_cong)
    ultimately show ?thesis by simp
  qed
qed

lemma router_keeps_wf:
  assumes wf: "wf_state st"
  shows "wf_state (fst (router e st req))"
proof -
  note rd = read_requests_keep_stores [where e = e and st = st]
  show ?thesis
  proof (cases req)
    case (PostUpload part c d)
    then show ?thesis
      using wf uploadFile_keeps_wf [OF wf, of e _ c d]
      by (cases "multer_parts e files_limit (opt_list part)") simp_all
  next
    case (PostUploadMultiple parts c d)
    then show ?thesis
      using wf uploadMultipleFiles_keeps_wf [OF wf, of e _ c d]
      by (cases "multer_parts e files_limit parts") simp_all
  next
    case GetFiles
    with rd(1) same_stores(1) [of "fst (getAllFiles e st)" st] wf show ?thesis by simp
  next
    case (GetCategory c)
    with rd(2) [of c] same_stores(1) [of "fst (getFilesByCategory e st c)" st] wf
    show ?thesis by simp
  next
    case (GetFile i)
    with rd(3) [of i] same_stores(1) [of "fst (getFileById e st i)" st] wf
    show ?thesis by simp
  next
    case (GetDownload i)
    with rd(4) [of "''attachment''" "''Error downloading file''" i]
      same_stores(1) [of "fst (send_file ''attachment'' ''Error downloading file'' e st i)" st] wf
    show ?thesis by (simp add: downloadFile_def)
  next
    case (GetView i)
    with rd(4) [of "''inline''" "''Error viewing file''" i]
      same_stores(1) [of "fst (send_file ''inline'' ''Error viewing file'' e st i)" st] wf
    show ?thesis by (simp add: viewFile_def)
  next
    case (DeleteFile j)
    with deleteFile_keeps_wf [OF wf, of e j] show ?thesis by simp
  qed
qed

lemma run_keeps_wf: "wf_state st \<Longrightarrow> wf_state (run st rs)"
proof (induction rs arbitrary: st)
  case Nil
  then show ?case by simp
next
  case (Cons q rs)
  obtain e r where q: "q = (e, r)" by (cases q)
  from Cons.IH [OF router_keeps_wf [OF Cons.prems, of e r]] q show ?case by simp
qed

lemma reachable_wf: "wf_state (run fresh_state rs)"
  by (rule run_keeps_wf [OF wf_fresh_state])


end
